theory Spec2Isabelle
  imports Complex_Main "HOL-Library.Multiset" "HOL-Library.List_Lexorder" "HOL-Library.AList"
begin

section \<open>Python values shared by the models\<close>

text \<open>
  Exceptions are values: every \<open>raise\<close> of the source, and every exception a library call
  of the source raises on the modelled inputs, is an \<open>Inl\<close> of this type. Floating-point
  columns and coordinates are read as real numbers.
\<close>

datatype pyerr =
    ValueError string
  | TypeError string
  | KeyError string
  | AttributeError string
  | IndexError
  | ZeroDivisionError
  | OverflowError string
  | OutOfBoundsDatetime
  | Exception string
  | InvalidInput string

text \<open>Sequencing of fallible steps: the first exception ends the computation.\<close>

definition bind_err :: "pyerr + 'a \<Rightarrow> ('a \<Rightarrow> pyerr + 'b) \<Rightarrow> pyerr + 'b" where
  "bind_err m f = (case m of Inl e \<Rightarrow> Inl e | Inr v \<Rightarrow> f v)"

text \<open>\<open>arr[idx]\<close> with an integer index array: every position is read, an index past the
  end raises IndexError.\<close>

fun take_idx :: "'a list \<Rightarrow> nat list \<Rightarrow> pyerr + 'a list" where
  "take_idx arr [] = Inr []"
| "take_idx arr (k # ks) =
     (if k < length arr
      then (case take_idx arr ks of Inl e \<Rightarrow> Inl e | Inr vs \<Rightarrow> Inr (arr ! k # vs))
      else Inl IndexError)"

text \<open>\<open>np.hypot\<close>, on reals.\<close>

definition hypot :: "real \<Rightarrow> real \<Rightarrow> real" where
  "hypot a b = sqrt (a\<^sup>2 + b\<^sup>2)"

section \<open>dhydamo/geometry/mesh.py\<close>

subsection \<open>mesh2d_add_rectilinear\<close>

text \<open>
  The mesh kernel's \<open>Mesh2d\<close>: flat arrays. \<open>edge_nodes\<close> holds two node indices per edge,
  \<open>face_nodes\<close> the node indices of the faces one after the other, \<open>nodes_per_face\<close> their
  counts. Node indices are array positions.
\<close>

record mesh2d =
  node_x :: "real list"
  node_y :: "real list"
  edge_nodes :: "nat list"
  face_nodes :: "nat list"
  nodes_per_face :: "nat list"
  edge_x :: "real list"
  edge_y :: "real list"
  face_x :: "real list"
  face_y :: "real list"

text \<open>\<open>ndarray.max()\<close>: raises ValueError on an array of size zero.\<close>

definition np_max :: "nat list \<Rightarrow> pyerr + nat" where
  "np_max xs =
     (case xs of
        [] \<Rightarrow> Inl (ValueError ''zero-size array to reduction operation maximum which has no identity'')
      | y # ys \<Rightarrow> Inr (fold max ys y))"

text \<open>
  Lines 68 to 94 of \<open>mesh2d_add_rectilinear\<close>, for one polygon. \<open>existing_mesh2d\<close> is the
  snapshot taken at line 50, \<open>new_mesh2d\<close> what the kernel holds after the rectilinear mesh
  was generated and clipped (lines 53 to 65, calls into the kernel). The result is the mesh
  the network holds when the call returns: the new mesh as \<open>mesh2d_clip\<close> processed it when
  the snapshot has no nodes, the merged one otherwise.
\<close>

definition mesh2d_add_rectilinear :: "mesh2d \<Rightarrow> mesh2d \<Rightarrow> pyerr + mesh2d" where
  "mesh2d_add_rectilinear existing_mesh2d new_mesh2d =
     (if length (node_x existing_mesh2d) > 0 then
        bind_err (np_max (edge_nodes existing_mesh2d)) (\<lambda>m1.
          let new1 = new_mesh2d\<lparr>edge_nodes := map (\<lambda>i. i + (m1 + 1)) (edge_nodes new_mesh2d)\<rparr> in
          bind_err (np_max (edge_nodes existing_mesh2d)) (\<lambda>m2.
            let new2 = new1\<lparr>face_nodes := map (\<lambda>i. i + (m2 + 1)) (face_nodes new1)\<rparr> in
            Inr \<lparr>node_x = node_x existing_mesh2d @ node_x new2,
                 node_y = node_y existing_mesh2d @ node_y new2,
                 edge_nodes = edge_nodes existing_mesh2d @ edge_nodes new2,
                 face_nodes = face_nodes existing_mesh2d @ face_nodes new2,
                 nodes_per_face = nodes_per_face existing_mesh2d @ nodes_per_face new2,
                 edge_x = edge_x existing_mesh2d @ edge_x new2,
                 edge_y = edge_y existing_mesh2d @ edge_y new2,
                 face_x = face_x existing_mesh2d @ face_x new2,
                 face_y = face_y existing_mesh2d @ face_y new2\<rparr>))
      else Inr new_mesh2d)"

subsection \<open>links1d2d_add_links_1d_to_2d\<close>

text \<open>
  The four parallel link arrays of \<open>network._link1d2d\<close> and the coordinate arrays the
  length filter reads. A link is a pair (1D node index, 2D face index).
\<close>

record network =
  mesh1d_node_x :: "real list"
  mesh1d_node_y :: "real list"
  mesh2d_face_x :: "real list"
  mesh2d_face_y :: "real list"
  link1d2d :: "(nat \<times> nat) list"
  link1d2d_contact_type :: "int list"
  link1d2d_id :: "string list"
  link1d2d_long_name :: "string list"

text \<open>
  What one run of the kernel's link generation appends to the four arrays of the link
  administration. The arrays of the links and of the contact types get one entry per
  generated link; the library appends an id and a long name for every row of the whole
  link array, so these two arrays get at least as many entries as links were generated,
  and more when links were present before.
\<close>

record generated_links =
  gen_link1d2d :: "(nat \<times> nat) list"
  gen_contact_type :: "int list"
  gen_id :: "string list"
  gen_long_name :: "string list"

text \<open>\<open>_link_from_1d_to_2d\<close> appends what the kernel generated to the link administration
  (the source reads the new links as \<open>link1d2d[npresent:]\<close>).\<close>

definition link_from_1d_to_2d :: "network \<Rightarrow> generated_links \<Rightarrow> network" where
  "link_from_1d_to_2d nw g =
     nw\<lparr>link1d2d := link1d2d nw @ gen_link1d2d g,
        link1d2d_contact_type := link1d2d_contact_type nw @ gen_contact_type g,
        link1d2d_id := link1d2d_id nw @ gen_id g,
        link1d2d_long_name := link1d2d_long_name nw @ gen_long_name g\<rparr>"

definition filter_links_on_idx :: "network \<Rightarrow> nat list \<Rightarrow> pyerr + network" where
  "filter_links_on_idx nw keep =
     bind_err (take_idx (link1d2d nw) keep) (\<lambda>l.
     bind_err (take_idx (link1d2d_contact_type nw) keep) (\<lambda>c.
     bind_err (take_idx (link1d2d_id nw) keep) (\<lambda>i.
     bind_err (take_idx (link1d2d_long_name nw) keep) (\<lambda>n.
       Inr (nw\<lparr>link1d2d := l, link1d2d_contact_type := c,
               link1d2d_id := i, link1d2d_long_name := n\<rparr>)))))"

text \<open>\<open>np.where(lengths < max_length)[0]\<close>: the positions whose length is below the bound.\<close>

definition where_less :: "real list \<Rightarrow> real \<Rightarrow> nat list" where
  "where_less lengths max_length =
     filter (\<lambda>i. lengths ! i < max_length) [0 ..< length lengths]"

text \<open>The Euclidean distance between the 1D node and the 2D face centre of a link.\<close>

definition link_length :: "network \<Rightarrow> nat \<times> nat \<Rightarrow> real" where
  "link_length nw l =
     hypot (mesh1d_node_x nw ! fst l - mesh2d_face_x nw ! snd l)
           (mesh1d_node_y nw ! fst l - mesh2d_face_y nw ! snd l)"

definition links1d2d_add_links_1d_to_2d ::
  "network \<Rightarrow> generated_links \<Rightarrow> real \<Rightarrow> pyerr + network" where
  "links1d2d_add_links_1d_to_2d nw0 g max_length =
     (let npresent = length (link1d2d nw0);
          nw = link_from_1d_to_2d nw0 g;
          id1d = map fst (drop npresent (link1d2d nw));
          id2d = map snd (drop npresent (link1d2d nw))
      in
      bind_err (take_idx (mesh1d_node_x nw) id1d) (\<lambda>n1x.
      bind_err (take_idx (mesh1d_node_y nw) id1d) (\<lambda>n1y.
      bind_err (take_idx (mesh2d_face_x nw) id2d) (\<lambda>f2x.
      bind_err (take_idx (mesh2d_face_y nw) id2d) (\<lambda>f2y.
        let lengths = map (\<lambda>((a, b), (c, d)). hypot (a - c) (b - d))
                        (zip (zip n1x n1y) (zip f2x f2y));
            keep = [0 ..< npresent] @ map (\<lambda>i. i + npresent) (where_less lengths max_length)
        in filter_links_on_idx nw keep)))))"

text \<open>
  What the length filter needs to run without an IndexError: every generated link names
  a 1D node and a 2D face that exist, each of the other three arrays holds an entry for
  every link present before the call, and the run appends to each of them no fewer
  entries than links. The arrays need not be parallel: the library's runs leave the id
  and long-name arrays longer than the link array when links were present.
\<close>

definition links_in_range :: "network \<Rightarrow> generated_links \<Rightarrow> bool" where
  "links_in_range nw g \<longleftrightarrow>
     list_all (\<lambda>l. fst l < length (mesh1d_node_x nw) \<and> fst l < length (mesh1d_node_y nw)
             \<and> snd l < length (mesh2d_face_x nw) \<and> snd l < length (mesh2d_face_y nw))
       (gen_link1d2d g)
     \<and> length (gen_link1d2d g) \<le> length (gen_contact_type g)
     \<and> length (gen_link1d2d g) \<le> length (gen_id g)
     \<and> length (gen_link1d2d g) \<le> length (gen_long_name g)
     \<and> length (link1d2d nw) \<le> length (link1d2d_contact_type nw)
     \<and> length (link1d2d nw) \<le> length (link1d2d_id nw)
     \<and> length (link1d2d nw) \<le> length (link1d2d_long_name nw)"

subsection \<open>Concrete meshes and networks\<close>

text \<open>Two triangles: an existing mesh and a newly generated one, each with nodes 0, 1, 2.\<close>

definition ex_mesh :: mesh2d where
  "ex_mesh = \<lparr>node_x = [0, 1, 1], node_y = [0, 0, 1], edge_nodes = [0, 1, 1, 2, 2, 0],
     face_nodes = [0, 1, 2], nodes_per_face = [3], edge_x = [1/2, 1, 1/2],
     edge_y = [0, 1/2, 1/2], face_x = [2/3], face_y = [1/3]\<rparr>"

definition new_mesh :: mesh2d where
  "new_mesh = \<lparr>node_x = [5, 6, 6], node_y = [0, 0, 1], edge_nodes = [0, 1, 1, 2, 2, 0],
     face_nodes = [0, 1, 2], nodes_per_face = [3], edge_x = [11/2, 6, 11/2],
     edge_y = [0, 1/2, 1/2], face_x = [17/3], face_y = [1/3]\<rparr>"

text \<open>A network with one link of length 90 already present, and a run that generates
  two links of lengths 3 and 6 and appends an id and a long name for each of the three
  rows of the link array.\<close>

definition ex_network :: network where
  "ex_network = \<lparr>mesh1d_node_x = [0, 10], mesh1d_node_y = [0, 0],
     mesh2d_face_x = [3, 6, 100], mesh2d_face_y = [0, 0, 0],
     link1d2d = [(1, 2)], link1d2d_contact_type = [3], link1d2d_id = [''old''],
     link1d2d_long_name = [''old'']\<rparr>"

definition ex_generated :: generated_links where
  "ex_generated = \<lparr>gen_link1d2d = [(0, 0), (0, 1)], gen_contact_type = [3, 3],
     gen_id = [''1_2'', ''0_0'', ''0_1''], gen_long_name = [''1_2'', ''0_0'', ''0_1'']\<rparr>"

section \<open>hydromt_delft3dfm/workflows/crosssections.py\<close>

subsection \<open>Table helpers of pandas\<close>

text \<open>\<open>unique()\<close> and \<open>drop_duplicates()\<close>: the first occurrence of every value stays, in
  its place.\<close>

fun drop_duplicates :: "'a list \<Rightarrow> 'a list" where
  "drop_duplicates [] = []"
| "drop_duplicates (x # xs) = x # drop_duplicates (filter (\<lambda>y. y \<noteq> x) xs)"

text \<open>A fallible function over the rows of a table: the first exception ends the run.\<close>

fun map_err :: "('a \<Rightarrow> pyerr + 'b) \<Rightarrow> 'a list \<Rightarrow> pyerr + 'b list" where
  "map_err f [] = Inr []"
| "map_err f (x # xs) =
     (case f x of Inl e \<Rightarrow> Inl e
      | Inr v \<Rightarrow> (case map_err f xs of Inl e \<Rightarrow> Inl e | Inr vs \<Rightarrow> Inr (v # vs)))"

subsection \<open>String formatting\<close>

fun str_nat :: "nat \<Rightarrow> string" where
  "str_nat n =
     (if n < 10 then [''0123456789'' ! n]
      else str_nat (n div 10) @ [''0123456789'' ! (n mod 10)])"

declare str_nat.simps [simp del]

text \<open>The \<open>,\<close> option of the format mini-language: a comma before every group of three
  digits, counted from the right.\<close>

fun group3_rev :: "string \<Rightarrow> string" where
  "group3_rev (a # b # c # d # ds) = a # b # c # CHR '','' # group3_rev (d # ds)"
| "group3_rev ds = ds"

definition group3 :: "string \<Rightarrow> string" where
  "group3 ds = rev (group3_rev (rev ds))"

text \<open>Float formatting rounds the exact value to the nearest, ties to even.\<close>

definition round_half_even :: "real \<Rightarrow> int" where
  "round_half_even v =
     (let f = \<lfloor>v\<rfloor>; d = v - of_int f in
      if d < 1/2 then f else if 1/2 < d then f + 1 else if even f then f else f + 1)"

text \<open>\<open>"{:.<prec>f}"\<close> (and \<open>"{:,.<prec>f}"\<close> when \<open>comma\<close>) of a finite value, for
  \<open>prec > 0\<close>.\<close>

definition format_f :: "bool \<Rightarrow> nat \<Rightarrow> real \<Rightarrow> string" where
  "format_f comma prec v =
     (let n = nat (round_half_even (\<bar>v\<bar> * 10 ^ prec));
          ip = str_nat (n div 10 ^ prec);
          fp = str_nat (n mod 10 ^ prec)
      in (if v < 0 then ''-'' else '''') @ (if comma then group3 ip else ip) @ ''.''
         @ replicate (prec - length fp) CHR ''0'' @ fp)"

subsection \<open>Geometry\<close>

type_synonym point = "real \<times> real"

text \<open>A \<open>LineString\<close> is the list of its coordinates; \<open>.length\<close> sums its segments.\<close>

fun line_length :: "point list \<Rightarrow> real" where
  "line_length (p # q # ps) = hypot (fst q - fst p) (snd q - snd p) + line_length (q # ps)"
| "line_length ps = 0"

text \<open>\<open>l.coords[0]\<close>: IndexError on an empty line.\<close>

definition coords0 :: "point list \<Rightarrow> pyerr + point" where
  "coords0 l = (case l of [] \<Rightarrow> Inl IndexError | p # ps \<Rightarrow> Inr p)"

subsection \<open>set_branch_crosssections, midpoint = False\<close>

text \<open>The columns of \<open>branches\<close> that the branch with \<open>midpoint = False\<close> reads, and the
  frame's index.\<close>

record branch =
  br_index :: string
  br_branchId :: string
  br_geometry :: "point list"
  br_shape :: string
  br_diameter :: real
  br_invlev_up :: real
  br_invlev_dn :: real
  br_frictionId :: string
  br_frictionType :: string
  br_frictionValue :: real

text \<open>A row of the frames \<open>crosssections_up\<close> and \<open>crosssections_dn\<close> and of their
  concatenation \<open>crosssections\<close>.\<close>

record crs_row =
  cr_index :: string
  cr_geometry :: point
  cr_crsloc_id :: string
  cr_branch_id :: string
  cr_branch_offset :: real
  cr_shift :: real
  cr_shape :: string
  cr_diameter :: real
  cr_frictionId :: string
  cr_frictionType :: string
  cr_frictionValue :: real

text \<open>The rows of \<open>circle_crs\<close> carry the column \<open>definitionid\<close> as well.\<close>

record circle_row = crs_row +
  cr_definitionid :: string

text \<open>The dictionaries \<open>_set_circle_crs\<close> collects, and the rows of their left merge: a
  location row without a matching definition would keep empty definition columns.\<close>

datatype pyval = PStr string | PInt int

record crsdef =
  crsdef_id :: string
  crsdef_type :: string
  crsdef_branchId :: string
  crsdef_diameter :: real
  crsdef_closed :: pyval
  crsdef_frictionId :: string
  crsdef_frictionType :: string
  crsdef_frictionValue :: real

record crsloc =
  crsloc_id :: string
  crsloc_branchId :: string
  crsloc_chainage :: real
  crsloc_shift :: real
  crsloc_definitionId :: string
  crsloc_geometry :: point

record crosssection =
  crs_loc :: crsloc
  crs_def :: "crsdef option"
  crsdef_thalweg :: real

text \<open>The row of a branch in \<open>crosssections_up\<close> and in \<open>crosssections_dn\<close>; \<open>p\<close> is
  \<open>Point(l.coords[0])\<close>, in both.\<close>

definition up_row :: "branch \<Rightarrow> point \<Rightarrow> crs_row" where
  "up_row b p =
     \<lparr>cr_index = br_index b @ ''_up'',
      cr_geometry = p,
      cr_crsloc_id = ''crs_up_'' @ br_branchId b,
      cr_branch_id = br_branchId b,
      cr_branch_offset = 0,
      cr_shift = br_invlev_up b,
      cr_shape = br_shape b,
      cr_diameter = br_diameter b,
      cr_frictionId = br_frictionId b,
      cr_frictionType = br_frictionType b,
      cr_frictionValue = br_frictionValue b\<rparr>"

definition dn_row :: "branch \<Rightarrow> point \<Rightarrow> crs_row" where
  "dn_row b p =
     \<lparr>cr_index = br_index b @ ''_dn'',
      cr_geometry = p,
      cr_crsloc_id = ''crs_dn_'' @ br_branchId b,
      cr_branch_id = br_branchId b,
      cr_branch_offset = line_length (br_geometry b),
      cr_shift = br_invlev_dn b,
      cr_shape = br_shape b,
      cr_diameter = br_diameter b,
      cr_frictionId = br_frictionId b,
      cr_frictionType = br_frictionType b,
      cr_frictionValue = br_frictionValue b\<rparr>"

definition crosssections_up :: "branch list \<Rightarrow> pyerr + crs_row list" where
  "crosssections_up branches =
     map_err (\<lambda>b. bind_err (coords0 (br_geometry b)) (\<lambda>p. Inr (up_row b p))) branches"

definition crosssections_dn :: "branch list \<Rightarrow> pyerr + crs_row list" where
  "crosssections_dn branches =
     map_err (\<lambda>b. bind_err (coords0 (br_geometry b)) (\<lambda>p. Inr (dn_row b p))) branches"

definition circle_definitionid :: "crs_row \<Rightarrow> circle_row" where
  "circle_definitionid r =
     crs_row.extend r
       (circle_row.fields (''circ_d'' @ format_f True 3 (cr_diameter r) @ ''_branch''))"

definition circle_crsdef :: "circle_row \<Rightarrow> crsdef" where
  "circle_crsdef c =
     \<lparr>crsdef_id = cr_definitionid c,
      crsdef_type = ''circle'',
      crsdef_branchId = cr_branch_id c,
      crsdef_diameter = cr_diameter c,
      crsdef_closed = PStr ''yes'',
      crsdef_frictionId = cr_frictionId c,
      crsdef_frictionType = cr_frictionType c,
      crsdef_frictionValue = cr_frictionValue c\<rparr>"

definition circle_crsloc :: "circle_row \<Rightarrow> crsloc" where
  "circle_crsloc c =
     \<lparr>crsloc_id = cr_branch_id c @ ''_'' @ format_f False 2 (cr_branch_offset c),
      crsloc_branchId = cr_branch_id c,
      crsloc_chainage = cr_branch_offset c,
      crsloc_shift = cr_shift c,
      crsloc_definitionId = cr_definitionid c,
      crsloc_geometry = cr_geometry c\<rparr>"

text \<open>\<open>pd.merge(crslocs, crsdefs, how="left", left_on=[crsloc_branchId,
  crsloc_definitionId], right_on=[crsdef_branchId, crsdef_id])\<close>: every location row, in
  order, with each definition row of the same keys.\<close>

definition merge_left :: "crsloc list \<Rightarrow> crsdef list \<Rightarrow> (crsloc \<times> crsdef option) list" where
  "merge_left crslocs crsdefs =
     concat (map (\<lambda>l.
       (let ms = filter (\<lambda>d. crsdef_branchId d = crsloc_branchId l
                             \<and> crsdef_id d = crsloc_definitionId l) crsdefs
        in if ms = [] then [(l, None)] else map (\<lambda>d. (l, Some d)) ms)) crslocs)"

definition set_circle_crs :: "circle_row list \<Rightarrow> (crsloc \<times> crsdef option) list" where
  "set_circle_crs crosssections =
     merge_left (map circle_crsloc crosssections) (map circle_crsdef crosssections)"

text \<open>\<open>replace({"yes": 1, "no": 0})\<close> on the column \<open>crsdef_closed\<close>.\<close>

definition replace_closed :: "crsdef \<Rightarrow> crsdef" where
  "replace_closed d =
     (if crsdef_closed d = PStr ''yes'' then d\<lparr>crsdef_closed := PInt 1\<rparr>
      else if crsdef_closed d = PStr ''no'' then d\<lparr>crsdef_closed := PInt 0\<rparr>
      else d)"

text \<open>
  The loop over the shapes starts from \<open>pd.DataFrame()\<close>, a frame without columns
  (\<open>None\<close> below), and only the shape \<open>circle\<close> adds rows: \<open>circle_step\<close> is the body of
  the loop.
\<close>

definition circle_step ::
  "crs_row list \<Rightarrow> string \<Rightarrow> (crsloc \<times> crsdef option) list option
     \<Rightarrow> (crsloc \<times> crsdef option) list option" where
  "circle_step crosssections shape acc =
     (if shape = ''circle'' then
        let circle_crs = map circle_definitionid
                           (filter (\<lambda>r. cr_shape r = shape) crosssections)
        in Some ((case acc of None \<Rightarrow> [] | Some rows \<Rightarrow> rows) @ set_circle_crs circle_crs)
      else acc)"

text \<open>After the loop: the column \<open>crsdef_thalweg\<close> is set to 0.0 and \<open>crsdef_closed\<close> is
  replaced.\<close>

definition final_row :: "crsloc \<times> crsdef option \<Rightarrow> crosssection" where
  "final_row = (\<lambda>(l, d). \<lparr>crs_loc = l, crs_def = map_option replace_closed d,
                            crsdef_thalweg = 0\<rparr>)"

text \<open>
  The function for \<open>midpoint = False\<close>. \<open>merged\<close> is the source's \<open>crosssections_\<close>;
  reading the column \<open>crsdef_closed\<close> of a frame that never got it raises KeyError.
\<close>

definition set_branch_crosssections :: "branch list \<Rightarrow> pyerr + crosssection list" where
  "set_branch_crosssections branches =
     bind_err (crosssections_up branches) (\<lambda>up.
     bind_err (crosssections_dn branches) (\<lambda>dn.
       let crosssections = up @ dn;
           all_shapes = drop_duplicates (map cr_shape crosssections);
           merged = fold (circle_step crosssections) all_shapes None
       in case merged of
            None \<Rightarrow> Inl (KeyError ''crsdef_closed'')
          | Some rows \<Rightarrow> Inr (drop_duplicates (map final_row rows))))"

text \<open>The rows of the result that belong to one branch.\<close>

definition rows_of_branch :: "string \<Rightarrow> crosssection list \<Rightarrow> crosssection list" where
  "rows_of_branch bid rows = filter (\<lambda>r. crsloc_branchId (crs_loc r) = bid) rows"

text \<open>The two location rows and the definition row that \<open>_set_circle_crs\<close> builds for a
  branch whose line has a first coordinate.\<close>

definition up_loc :: "branch \<Rightarrow> crsloc" where
  "up_loc b = circle_crsloc (circle_definitionid (up_row b (hd (br_geometry b))))"

definition dn_loc :: "branch \<Rightarrow> crsloc" where
  "dn_loc b = circle_crsloc (circle_definitionid (dn_row b (hd (br_geometry b))))"

definition branch_def :: "branch \<Rightarrow> crsdef" where
  "branch_def b = circle_crsdef (circle_definitionid (up_row b (hd (br_geometry b))))"

subsection \<open>Concrete branch tables\<close>

text \<open>A circular pipe of length 100, a rectangular pipe of length 50, and a circular pipe
  whose line is closed (a 3-4-5 triangle, length 12), with the rows the function returns
  for them.\<close>

definition pipe_circle :: branch where
  "pipe_circle = \<lparr>br_index = ''p1'', br_branchId = ''p1'', br_geometry = [(0, 0), (100, 0)],
     br_shape = ''circle'', br_diameter = 1/2, br_invlev_up = -2, br_invlev_dn = -23/10,
     br_frictionId = ''WhiteColebrook_0.003'', br_frictionType = ''WhiteColebrook'',
     br_frictionValue = 3/1000\<rparr>"

definition pipe_rectangle :: branch where
  "pipe_rectangle = \<lparr>br_index = ''p2'', br_branchId = ''p2'', br_geometry = [(0, 0), (50, 0)],
     br_shape = ''rectangle'', br_diameter = 1/2, br_invlev_up = -2, br_invlev_dn = -23/10,
     br_frictionId = ''WhiteColebrook_0.003'', br_frictionType = ''WhiteColebrook'',
     br_frictionValue = 3/1000\<rparr>"

definition pipe_ring :: branch where
  "pipe_ring = \<lparr>br_index = ''p3'', br_branchId = ''p3'',
     br_geometry = [(0, 0), (3, 0), (3, 4), (0, 0)],
     br_shape = ''circle'', br_diameter = 1/2, br_invlev_up = -2, br_invlev_dn = -23/10,
     br_frictionId = ''WhiteColebrook_0.003'', br_frictionType = ''WhiteColebrook'',
     br_frictionValue = 3/1000\<rparr>"

definition circle_def_row :: crsdef where
  "circle_def_row = \<lparr>crsdef_id = ''circ_d0.500_branch'', crsdef_type = ''circle'',
     crsdef_branchId = ''p1'', crsdef_diameter = 1/2, crsdef_closed = PInt 1,
     crsdef_frictionId = ''WhiteColebrook_0.003'', crsdef_frictionType = ''WhiteColebrook'',
     crsdef_frictionValue = 3/1000\<rparr>"

definition two_pipes_rows :: "crosssection list" where
  "two_pipes_rows =
     [\<lparr>crs_loc = \<lparr>crsloc_id = ''p1_0.00'', crsloc_branchId = ''p1'', crsloc_chainage = 0,
                   crsloc_shift = -2, crsloc_definitionId = ''circ_d0.500_branch'',
                   crsloc_geometry = (0, 0)\<rparr>,
       crs_def = Some circle_def_row, crsdef_thalweg = 0\<rparr>,
      \<lparr>crs_loc = \<lparr>crsloc_id = ''p1_100.00'', crsloc_branchId = ''p1'', crsloc_chainage = 100,
                   crsloc_shift = -23/10, crsloc_definitionId = ''circ_d0.500_branch'',
                   crsloc_geometry = (0, 0)\<rparr>,
       crs_def = Some circle_def_row, crsdef_thalweg = 0\<rparr>]"



definition ring_rows :: "crosssection list" where
  "ring_rows =
     [\<lparr>crs_loc = \<lparr>crsloc_id = ''p3_0.00'', crsloc_branchId = ''p3'', crsloc_chainage = 0,
                   crsloc_shift = -2, crsloc_definitionId = ''circ_d0.500_branch'',
                   crsloc_geometry = (0, 0)\<rparr>,
       crs_def = Some (circle_def_row\<lparr>crsdef_branchId := ''p3''\<rparr>), crsdef_thalweg = 0\<rparr>,
      \<lparr>crs_loc = \<lparr>crsloc_id = ''p3_12.00'', crsloc_branchId = ''p3'', crsloc_chainage = 12,
                   crsloc_shift = -23/10, crsloc_definitionId = ''circ_d0.500_branch'',
                   crsloc_geometry = (0, 0)\<rparr>,
       crs_def = Some (circle_def_row\<lparr>crsdef_branchId := ''p3''\<rparr>), crsdef_thalweg = 0\<rparr>]"

subsection \<open>xyzp2xyzl and set_xyz_crosssections\<close>

text \<open>\<open>str.lower()\<close> on ASCII.\<close>

definition lower_char :: "char \<Rightarrow> char" where
  "lower_char c =
     (case map_of (zip ''ABCDEFGHIJKLMNOPQRSTUVWXYZ'' ''abcdefghijklmnopqrstuvwxyz'') c of
        None \<Rightarrow> c | Some d \<Rightarrow> d)"

definition lower :: "string \<Rightarrow> string" where
  "lower s = map lower_char s"

text \<open>
  A survey point: a row of the frame after lines 247 to 251 of \<open>set_xyz_crosssections\<close>.
  Its geometry is the point \<open>(x, y)\<close>; \<open>order\<close> is an integer after \<open>astype("int")\<close>. The
  frame is a list of rows with their index labels.
\<close>

record 'i xyz_point =
  xyz_crsid :: 'i
  xyz_order :: int
  xyz_x :: real
  xyz_y :: real
  xyz_z :: real

text \<open>The columns of the frame inside \<open>xyzp2xyzl\<close>, lower-cased.\<close>

definition xyz_columns :: "string list" where
  "xyz_columns = [''geometry'', ''crsid'', ''order'', ''z'', ''x'', ''y'']"

text \<open>A stable sort of the rows on one column.\<close>

definition sort_column :: "string \<Rightarrow> ('i::linorder) xyz_point list \<Rightarrow> 'i xyz_point list" where
  "sort_column c rows =
     (if c = ''crsid'' then sort_key xyz_crsid rows
      else if c = ''order'' then sort_key xyz_order rows
      else if c = ''z'' then sort_key xyz_z rows
      else if c = ''x'' then sort_key xyz_x rows
      else if c = ''y'' then sort_key xyz_y rows
      else rows)"

text \<open>
  \<open>DataFrame.sort_values(by=...)\<close>: a key that is no column raises KeyError, points
  (the column \<open>geometry\<close>) have no order, and the rows are sorted on the keys
  lexicographically, that is by stable sorts on the keys from the last to the first.
  (For a single key pandas does not promise the order of rows with equal keys; the model
  keeps them in place.)
\<close>

definition sort_values :: "string list \<Rightarrow> ('i::linorder) xyz_point list \<Rightarrow> pyerr + 'i xyz_point list" where
  "sort_values by rows =
     (case filter (\<lambda>c. c \<notin> set xyz_columns) by of
        c # cs \<Rightarrow> Inl (KeyError c)
      | [] \<Rightarrow>
          if ''geometry'' \<in> set by
          then Inl (TypeError ''< not supported between instances of Point and Point'')
          else Inr (foldr sort_column by rows))"

text \<open>\<open>LineString(coordinates)\<close>: one coordinate alone is refused.\<close>

definition LineString :: "point list \<Rightarrow> pyerr + point list" where
  "LineString ps =
     (if length ps = 1 then Inl (ValueError ''LineStrings must have at least 2 coordinate tuples'')
      else Inr ps)"

text \<open>\<open>np.r_[0.0, np.cumsum(np.hypot(dx, dy))]\<close> over the segments of the line.\<close>

fun cumsum_from :: "real \<Rightarrow> real list \<Rightarrow> real list" where
  "cumsum_from s [] = []"
| "cumsum_from s (d # ds) = (s + d) # cumsum_from (s + d) ds"

definition arc_lengths :: "point list \<Rightarrow> real list" where
  "arc_lengths line =
     0 # cumsum_from 0 (map (\<lambda>(p, q). hypot (fst q - fst p) (snd q - snd p)) (zip line (tl line)))"

record 'i xyz_line =
  xl_geometry :: "point list"
  xl_l :: "real list"
  xl_index :: 'i
  xl_x :: "real list"
  xl_y :: "real list"
  xl_z :: "real list"

text \<open>\<open>xyzp2xyzl(xyz, sort_by)\<close> on a frame \<open>xyz\<close> (never \<open>None\<close> here); the caller of the
  default passes \<open>[''x'', ''y'']\<close>. A frame without rows has no first index label.\<close>

definition xyzp2xyzl ::
  "('i \<times> ('i::linorder) xyz_point) list \<Rightarrow> string list \<Rightarrow> pyerr + 'i xyz_line" where
  "xyzp2xyzl xyz sort_by =
     (let sort_by = map lower sort_by;
          yz_index = drop_duplicates (map fst xyz)
      in bind_err (sort_values sort_by (map snd xyz)) (\<lambda>xyz_sorted.
         bind_err (LineString (map (\<lambda>p. (xyz_x p, xyz_y p)) xyz_sorted)) (\<lambda>line.
           case yz_index of
             [] \<Rightarrow> Inl IndexError
           | i # is \<Rightarrow>
               Inr \<lparr>xl_geometry = line,
                    xl_l = arc_lengths line,
                    xl_index = i,
                    xl_x = map xyz_x xyz_sorted,
                    xl_y = map xyz_y xyz_sorted,
                    xl_z = map xyz_z xyz_sorted\<rparr>)))"

definition xyzp2xyzl_default :: "('i \<times> ('i::linorder) xyz_point) list \<Rightarrow> pyerr + 'i xyz_line" where
  "xyzp2xyzl_default xyz = xyzp2xyzl xyz [''x'', ''y'']"

text \<open>\<open>groupby(level=0)\<close>: one group per index label, the labels ascending, the rows of a
  group in the frame's order.\<close>

definition groupby_level0 :: "(('i::linorder) \<times> 'a) list \<Rightarrow> ('i \<times> 'a) list list" where
  "groupby_level0 tbl =
     map (\<lambda>k. filter (\<lambda>r. fst r = k) tbl) (sort (drop_duplicates (map fst tbl)))"

text \<open>
  Line 254 of \<open>set_xyz_crosssections\<close>:
  \<open>crosssections.groupby(level=0).apply(xyzp2xyzl, (["order"]))\<close>. The parentheses around
  the list make no tuple; \<open>apply\<close> hands its further positional arguments to the function,
  so every group is converted by \<open>xyzp2xyzl(group, ["order"])\<close>.
\<close>

definition set_xyz_crosssections_lines ::
  "('i \<times> ('i::linorder) xyz_point) list \<Rightarrow> pyerr + 'i xyz_line list" where
  "set_xyz_crosssections_lines crosssections =
     map_err (\<lambda>g. xyzp2xyzl g [''order'']) (groupby_level0 crosssections)"

text \<open>The line \<open>xyzp2xyzl\<close> builds for the group of the label \<open>k\<close>, sorted on \<open>order\<close>.\<close>

definition order_line :: "(('i::linorder) \<times> 'i xyz_point) list \<Rightarrow> 'i \<Rightarrow> 'i xyz_line" where
  "order_line tbl k =
     (let ps = sort_key xyz_order (map snd (filter (\<lambda>r. fst r = k) tbl)) in
      \<lparr>xl_geometry = map (\<lambda>p. (xyz_x p, xyz_y p)) ps,
       xl_l = arc_lengths (map (\<lambda>p. (xyz_x p, xyz_y p)) ps),
       xl_index = k,
       xl_x = map xyz_x ps, xl_y = map xyz_y ps, xl_z = map xyz_z ps\<rparr>)"

text \<open>Two survey points of one cross-section: the point with \<open>order\<close> 1 lies at
  \<open>x = 10\<close>, the point with \<open>order\<close> 2 at \<open>x = 0\<close>.\<close>

definition survey :: "(nat \<times> nat xyz_point) list" where
  "survey =
     [(7, \<lparr>xyz_crsid = 7, xyz_order = 1, xyz_x = 10, xyz_y = 0, xyz_z = 5\<rparr>),
      (7, \<lparr>xyz_crsid = 7, xyz_order = 2, xyz_x = 0, xyz_y = 0, xyz_z = 4\<rparr>)]"

section \<open>hydromt_delft3dfm/dflowfm.py: the invert levels of setup_pipes\<close>

text \<open>
  A table is its columns: a map from the column's name to the cells of the column, one
  per row. A cell holds a number, a string, a line geometry, or nothing (\<open>Null\<close>: NaN or
  None). The last form is the text \<open>f"{ftype}_{fvalue}"\<close> that lines 629 to 633 put into
  the column \<open>frictionId\<close>; it is kept as the two cells it joins, because the digits that
  Python prints for a float are not modelled.
\<close>

datatype cell = Num real | Str string | Geom "point list" | Null | FrictionId cell cell

type_synonym frame = "string \<rightharpoonup> cell list"

text \<open>The number of rows; every table of \<open>setup_pipes\<close> has the column \<open>branchType\<close>
  (lines 545 to 548 add it when the source lacks it).\<close>

definition nrows :: "frame \<Rightarrow> nat" where
  "nrows fr = (case fr ''branchType'' of None \<Rightarrow> 0 | Some c \<Rightarrow> length c)"

text \<open>A table of default values: per row the \<open>branchType\<close> (the first column) and the
  values of the other columns, in the order of the columns.\<close>

type_synonym defaults_table = "(string \<times> (string \<times> cell) list) list"

text \<open>\<open>defaults[c] = v\<close>: the column is set in every row.\<close>

definition set_default :: "string \<Rightarrow> cell \<Rightarrow> defaults_table \<Rightarrow> defaults_table" where
  "set_default c v defaults = map (\<lambda>(bt, kvs). (bt, AList.update c v kvs)) defaults"

fun fold_err :: "('a \<Rightarrow> 's \<Rightarrow> pyerr + 's) \<Rightarrow> 'a list \<Rightarrow> 's \<Rightarrow> pyerr + 's" where
  "fold_err f [] s = Inr s"
| "fold_err f (x # xs) s = (case f x s of Inl e \<Rightarrow> Inl e | Inr s' \<Rightarrow> fold_err f xs s')"

text \<open>
  Modelled from the spec: \<open>update_data_columns_attributes\<close> of the workflows module, which
  is not among the source files. The spec: it "joins a \<open>branchType\<close>-keyed defaults table
  onto the input, filling any column absent or null, without overwriting populated
  values"; with \<open>brtype\<close> only the defaults of that branch type are used.
\<close>

definition fill_default :: "string \<Rightarrow> string \<times> cell \<Rightarrow> frame \<Rightarrow> pyerr + frame" where
  "fill_default branch cv branches =
     (case branches ''branchType'' of
        None \<Rightarrow> Inl (KeyError ''branchType'')
      | Some bts \<Rightarrow>
          let col = (case branches (fst cv) of
                       None \<Rightarrow> replicate (length bts) Null
                     | Some c \<Rightarrow> c)
          in Inr (branches(fst cv \<mapsto>
                    map (\<lambda>(c, bt). if c = Null \<and> bt = Str branch then snd cv else c)
                      (zip col bts))))"

definition update_data_columns_attributes ::
  "frame \<Rightarrow> defaults_table \<Rightarrow> string \<Rightarrow> pyerr + frame" where
  "update_data_columns_attributes branches attributes brtype =
     fold_err (\<lambda>(branch, kvs). fold_err (fill_default branch) kvs)
       (filter (\<lambda>(bt, kvs). bt = brtype) attributes) branches"

text \<open>
  Modelled from the spec: \<open>invert_levels_from_dem\<close> of the workflows module, which is not
  among the source files. The spec and the docstring of \<open>setup_pipes\<close>: both invert levels
  are derived as terrain elevation minus \<open>pipes_depth\<close> minus the diameter (shape circle)
  or the height (shape rectangle) of the conduit. \<open>dem\<close> holds the terrain elevation
  sampled at the upstream and at the downstream end of every pipe. A row without shape
  and size keeps what it had.
\<close>

definition cell_at :: "frame \<Rightarrow> string \<Rightarrow> nat \<Rightarrow> cell" where
  "cell_at fr c i =
     (case fr c of None \<Rightarrow> Null | Some col \<Rightarrow> if i < length col then col ! i else Null)"

definition conduit_size :: "frame \<Rightarrow> nat \<Rightarrow> real option" where
  "conduit_size gdf i =
     (if cell_at gdf ''shape'' i = Str ''circle''
      then (case cell_at gdf ''diameter'' i of Num d \<Rightarrow> Some d | _ \<Rightarrow> None)
      else if cell_at gdf ''shape'' i = Str ''rectangle''
      then (case cell_at gdf ''height'' i of Num h \<Rightarrow> Some h | _ \<Rightarrow> None)
      else None)"

definition invert_level :: "frame \<Rightarrow> string \<Rightarrow> real list \<Rightarrow> real \<Rightarrow> nat \<Rightarrow> cell" where
  "invert_level gdf c elevtn depth i =
     (case conduit_size gdf i of
        Some s \<Rightarrow> if i < length elevtn then Num (elevtn ! i - depth - s) else cell_at gdf c i
      | None \<Rightarrow> cell_at gdf c i)"

definition invert_levels_from_dem :: "frame \<Rightarrow> real list \<times> real list \<Rightarrow> real \<Rightarrow> frame" where
  "invert_levels_from_dem gdf dem depth =
     gdf(''invlev_up'' \<mapsto> map (invert_level gdf ''invlev_up'' (fst dem) depth) [0 ..< nrows gdf],
         ''invlev_dn'' \<mapsto> map (invert_level gdf ''invlev_dn'' (snd dem) depth) [0 ..< nrows gdf])"

text \<open>Line 570: the list \<open>_allowed_columns\<close>, as the source spells it.\<close>

definition allowed_columns :: "string list" where
  "allowed_columns =
     [''geometry'', ''branchId'', ''branchType'', ''branchOrder'', ''material'', ''spacing'',
      ''shape'', ''diameter'', ''width'', ''height'', ''invlev_up'', ''inlev_dn'']"

text \<open>The argument \<open>crosssections_value\<close>: a float, a list of floats, or something else.\<close>

datatype cs_value = CsFloat real | CsList "real list" | CsOther

text \<open>Lines 587 to 617: spacing, friction and cross-section defaults; \<open>None\<close> where
  the source logs a warning and returns.\<close>

definition pipe_defaults ::
  "defaults_table \<Rightarrow> real \<Rightarrow> string \<Rightarrow> real \<Rightarrow> string \<Rightarrow> cs_value \<Rightarrow> defaults_table option" where
  "pipe_defaults defaults spacing friction_type friction_value crosssections_shape
       crosssections_value =
     (let d = set_default ''frictionValue'' (Num friction_value)
                (set_default ''frictionType'' (Str friction_type)
                  (set_default ''spacing'' (Num spacing) defaults))
      in if crosssections_shape = ''circle'' then
           (case crosssections_value of
              CsFloat v \<Rightarrow> Some (set_default ''diameter'' (Num v)
                                  (set_default ''shape'' (Str crosssections_shape) d))
            | _ \<Rightarrow> None)
         else if crosssections_shape = ''rectangle'' then
           (case crosssections_value of
              CsList [w, h] \<Rightarrow> Some (set_default ''height'' (Num h)
                                     (set_default ''width'' (Num w)
                                       (set_default ''shape'' (Str crosssections_shape) d)))
            | _ \<Rightarrow> None)
         else None)"

text \<open>
  \<open>_setup_branches\<close> for pipes: the defaults are filled in and the branches processed.
  Modelled from the spec: \<open>process_branches\<close> and \<open>validate_branches\<close> of the workflows
  module, which are not among the source files, work on the geometries (reprojection,
  smoothing, snapping, the node table) and change no attribute column.
\<close>

definition setup_branches :: "frame \<Rightarrow> defaults_table \<Rightarrow> string \<Rightarrow> pyerr + frame" where
  "setup_branches gdf_br defaults br_type = update_data_columns_attributes gdf_br defaults br_type"

text \<open>\<open>frame.isnull().sum().sum()\<close> over the two invert-level columns; a missing column
  raises KeyError.\<close>

definition count_null :: "frame \<Rightarrow> string list \<Rightarrow> pyerr + nat" where
  "count_null fr cs =
     (case filter (\<lambda>c. fr c = None) cs of
        c # cs' \<Rightarrow> Inl (KeyError c)
      | [] \<Rightarrow> Inr (length (filter (\<lambda>v. v = Null) (concat (map (\<lambda>c. the (fr c)) cs)))))"

text \<open>\<open>frame[c]\<close>: the column, KeyError when the table has none of that name.\<close>

definition column :: "frame \<Rightarrow> string \<Rightarrow> pyerr + cell list" where
  "column fr c = (case fr c of None \<Rightarrow> Inl (KeyError c) | Some col \<Rightarrow> Inr col)"

text \<open>
  Line 674, \<open>_setup_crosssections(pipes, crosssections_type="branch", midpoint=False)\<close>,
  calls \<open>set_branch_crosssections\<close> on the pipes table and stores the cross-sections on
  the model, next to the pipes table, which it leaves as it is. For \<open>setup_pipes\<close> the
  call is modelled by the exceptions it raises on a table, in the order of the source:
  the first coordinate of every line (\<open>l.coords[0]\<close>), the columns read for the upstream
  and the downstream rows, the text \<open>"circ_d{:,.3f}_{:s}"\<close> formatted from the diameter of
  every row of shape \<open>circle\<close> (a NaN formats as \<open>nan\<close>), and the column \<open>crsdef_closed\<close>,
  which is missing when no row has the shape \<open>circle\<close>.
\<close>

definition first_coordinate :: "cell \<Rightarrow> pyerr + point" where
  "first_coordinate g =
     (case g of Geom l \<Rightarrow> coords0 l | _ \<Rightarrow> Inl (AttributeError ''coords''))"

definition definitionid :: "cell \<Rightarrow> pyerr + string" where
  "definitionid d =
     (case d of
        Num v \<Rightarrow> Inr (''circ_d'' @ format_f True 3 v @ ''_branch'')
      | Null \<Rightarrow> Inr ''circ_dnan_branch''
      | Geom l \<Rightarrow> Inl (TypeError ''unsupported format string passed to LineString.__format__'')
      | _ \<Rightarrow> Inl (ValueError ''Unknown format code f for object of type str''))"

definition setup_crosssections :: "frame \<Rightarrow> pyerr + unit" where
  "setup_crosssections branches =
     (case branches ''geometry'' of
        None \<Rightarrow> Inl (AttributeError ''geometry'')
      | Some geometry \<Rightarrow>
          bind_err (map_err first_coordinate geometry) (\<lambda>points.
          bind_err (map_err (column branches)
                      [''branchId'', ''invlev_up'', ''shape'', ''diameter'', ''frictionId'',
                       ''frictionType'', ''frictionValue'', ''invlev_dn'']) (\<lambda>columns.
          bind_err (column branches ''shape'') (\<lambda>shape.
          bind_err (column branches ''diameter'') (\<lambda>diameter.
            let circle_crs = filter (\<lambda>(s, d). s = Str ''circle'') (zip shape diameter) in
            if circle_crs = [] then Inl (KeyError ''crsdef_closed'')
            else bind_err (map_err (\<lambda>(s, d). definitionid d) circle_crs)
                   (\<lambda>ids. Inr ()))))))"

text \<open>
  \<open>setup_pipes\<close> from the table read from \<open>pipes_fn\<close> to the pipes table it stores:
  \<open>gdf_pipe\<close> is the table after lines 532 to 556 (filtered, with \<open>branchType\<close> and
  \<open>branchId\<close>), \<open>defaults\<close> the table read from \<open>pipes_defaults_fn\<close>, \<open>dem\<close> the terrain
  elevations when \<open>dem_fn\<close> is given. The test of line 637,
  \<open>"invlev_up" and "invlev_dn" in pipes.columns\<close>, is the test whether \<open>invlev_dn\<close> is a
  column. The result is the table that line 678 stores as \<open>pipes\<close>, and \<open>None\<close> where the
  source returns early without a pipes table. Line 682 (\<open>add_branches\<close>: validation and
  the 1D mesh of the kernel) lies behind that and is not modelled.
\<close>

definition setup_pipes ::
  "frame \<Rightarrow> defaults_table \<Rightarrow> real \<Rightarrow> string \<Rightarrow> real \<Rightarrow> string \<Rightarrow> cs_value
     \<Rightarrow> (real list \<times> real list) option \<Rightarrow> real \<Rightarrow> real \<Rightarrow> pyerr + frame option" where
  "setup_pipes gdf_pipe0 defaults0 spacing friction_type friction_value crosssections_shape
       crosssections_value dem pipes_depth pipes_invlev =
     (if nrows gdf_pipe0 = 0 then Inr None
      else
        let gdf_pipe = gdf_pipe0 |` (set allowed_columns \<inter> dom gdf_pipe0) in
        case pipe_defaults defaults0 spacing friction_type friction_value crosssections_shape
               crosssections_value of
          None \<Rightarrow> Inr None
        | Some defaults \<Rightarrow>
            bind_err (setup_branches gdf_pipe defaults ''pipe'') (\<lambda>pipes0.
            bind_err (column pipes0 ''frictionType'') (\<lambda>ftype.
            bind_err (column pipes0 ''frictionValue'') (\<lambda>fvalue.
            let pipes = pipes0(''frictionId'' \<mapsto> map (\<lambda>(t, v). FrictionId t v) (zip ftype fvalue)) in
            bind_err
              (if ''invlev_dn'' \<in> dom pipes
               then bind_err (count_null pipes [''invlev_up'', ''invlev_dn''])
                      (\<lambda>n. Inr (n > 0))
               else Inr True) (\<lambda>fill_invlev.
            bind_err
              (if fill_invlev \<and> dem \<noteq> None
               then Inr (invert_levels_from_dem pipes (the dem) pipes_depth)
               else update_data_columns_attributes pipes
                      [(''pipe'', [(''invlev_up'', Num pipes_invlev),
                                   (''invlev_dn'', Num pipes_invlev)])] ''pipe'') (\<lambda>pipes'.
            bind_err (setup_crosssections pipes') (\<lambda>crosssections.
              Inr (Some pipes'))))))))"

text \<open>The two invert-level columns of a pipes table.\<close>

definition invert_levels :: "frame \<Rightarrow> cell list option \<times> cell list option" where
  "invert_levels pipes = (pipes ''invlev_up'', pipes ''invlev_dn'')"

text \<open>
  A pipes source with one pipe whose invert levels are given, -1 upstream and -1.5
  downstream; a defaults table for the branch type \<open>pipe\<close>; a terrain of elevation 10.
\<close>

definition pipes_source :: frame where
  "pipes_source =
     [''geometry'' \<mapsto> [Geom [(0, 0), (100, 0)]],
      ''branchId'' \<mapsto> [Str ''pipe_1''],
      ''branchType'' \<mapsto> [Str ''pipe''],
      ''invlev_up'' \<mapsto> [Num (-1)],
      ''invlev_dn'' \<mapsto> [Num (-3/2)]]"

definition pipes_defaults_csv :: defaults_table where
  "pipes_defaults_csv = [(''pipe'', [(''branchOrder'', Num (-1)), (''material'', Str ''concrete'')])]"

section \<open>Dates and times\<close>

subsection \<open>String methods\<close>

text \<open>\<open>s.split(sep)\<close> for a separator that is not empty: the pieces between the
  occurrences of \<open>sep\<close>, found from the left.\<close>

function split_acc :: "string \<Rightarrow> string \<Rightarrow> string \<Rightarrow> string list" where
  "split_acc sep acc [] = [rev acc]"
| "split_acc sep acc (c # cs) =
     (if sep \<noteq> [] \<and> take (length sep) (c # cs) = sep
      then rev acc # split_acc sep [] (drop (length sep) (c # cs))
      else split_acc sep (c # acc) cs)"
  by pat_completeness auto
termination
  by (relation "measure (\<lambda>(sep, acc, s). length s)") auto

definition split_str :: "string \<Rightarrow> string \<Rightarrow> string list" where
  "split_str s sep = split_acc sep [] s"

text \<open>\<open>s.replace(old, new)\<close> for an \<open>old\<close> that is not empty.\<close>

function replace_str :: "string \<Rightarrow> string \<Rightarrow> string \<Rightarrow> string" where
  "replace_str [] old new = []"
| "replace_str (c # cs) old new =
     (if old \<noteq> [] \<and> take (length old) (c # cs) = old
      then new @ replace_str (drop (length old) (c # cs)) old new
      else c # replace_str cs old new)"
  by pat_completeness auto
termination
  by (relation "measure (\<lambda>(s, old, new). length s)") auto

text \<open>\<open>s.strip()\<close>: white space off both ends.\<close>

definition is_space :: "char \<Rightarrow> bool" where
  "is_space c \<longleftrightarrow> c \<in> set [CHR '' '', CHR 0x09, CHR 0x0A, CHR 0x0B, CHR 0x0C, CHR 0x0D]"

definition strip :: "string \<Rightarrow> string" where
  "strip s = rev (dropWhile is_space (rev (dropWhile is_space s)))"

text \<open>The value of a string of decimal digits; \<open>None\<close> if a character is no digit.\<close>

definition digit_val :: "char \<Rightarrow> nat option" where
  "digit_val c = map_of (zip ''0123456789'' [0, 1, 2, 3, 4, 5, 6, 7, 8, 9]) c"

fun digits_val :: "nat \<Rightarrow> string \<Rightarrow> nat option" where
  "digits_val n [] = Some n"
| "digits_val n (c # cs) =
     (case digit_val c of None \<Rightarrow> None | Some d \<Rightarrow> digits_val (10 * n + d) cs)"

definition parse_nat :: "string \<Rightarrow> nat option" where
  "parse_nat s = (if s = [] then None else digits_val 0 s)"

subsection \<open>The calendar\<close>

text \<open>
  A \<open>datetime\<close> (and a pandas \<open>Timestamp\<close>) is a point on the proleptic Gregorian
  time line; the model holds it as the number of seconds since 0001-01-01 00:00:00.
  Fractions of a second and time zones are not modelled. \<open>datetime_of\<close> is the datetime
  of calendar fields, counted as \<open>datetime.toordinal\<close> counts the days.
\<close>

datatype datetime = Datetime (seconds: int)

definition is_leap :: "int \<Rightarrow> bool" where
  "is_leap year \<longleftrightarrow> year mod 4 = 0 \<and> (year mod 100 \<noteq> 0 \<or> year mod 400 = 0)"

definition days_before_year :: "int \<Rightarrow> int" where
  "days_before_year year = (let y = year - 1 in y * 365 + y div 4 - y div 100 + y div 400)"

definition days_in_month :: "int \<Rightarrow> nat \<Rightarrow> int" where
  "days_in_month year month =
     (if month = 2 \<and> is_leap year then 29
      else [0, 31, 28, 31, 30, 31, 30, 31, 31, 30, 31, 30, 31] ! month)"

definition days_before_month :: "int \<Rightarrow> nat \<Rightarrow> int" where
  "days_before_month year month =
     [0, 0, 31, 59, 90, 120, 151, 181, 212, 243, 273, 304, 334] ! month
       + (if month > 2 \<and> is_leap year then 1 else 0)"

definition ymd2ord :: "int \<Rightarrow> nat \<Rightarrow> int \<Rightarrow> int" where
  "ymd2ord year month day = days_before_year year + days_before_month year month + day"

definition datetime_of :: "int \<Rightarrow> nat \<Rightarrow> int \<Rightarrow> int \<Rightarrow> int \<Rightarrow> int \<Rightarrow> datetime" where
  "datetime_of year month day hour minute second =
     Datetime ((((ymd2ord year month day - 1) * 24 + hour) * 60 + minute) * 60 + second)"

text \<open>The constructor's checks: \<open>ValueError\<close> on a field out of range.\<close>

definition check_datetime ::
  "nat \<Rightarrow> nat \<Rightarrow> nat \<Rightarrow> nat \<Rightarrow> nat \<Rightarrow> nat \<Rightarrow> pyerr + datetime" where
  "check_datetime year month day hour minute second =
     (if year < 1 \<or> 9999 < year then Inl (ValueError ''year is out of range'')
      else if month < 1 \<or> 12 < month then Inl (ValueError ''month must be in 1..12'')
      else if day < 1 \<or> days_in_month (int year) month < int day
        then Inl (ValueError ''day is out of range for month'')
      else if 23 < hour then Inl (ValueError ''hour must be in 0..23'')
      else if 59 < minute then Inl (ValueError ''minute must be in 0..59'')
      else if 59 < second then Inl (ValueError ''second must be in 0..59'')
      else Inr (datetime_of (int year) month (int day) (int hour) (int minute) (int second)))"

text \<open>\<open>datetime + timedelta(seconds=s)\<close>: \<open>OverflowError\<close> outside the years 1 to 9999.\<close>

definition datetime_add_seconds :: "datetime \<Rightarrow> int \<Rightarrow> pyerr + datetime" where
  "datetime_add_seconds d s =
     (let t = seconds d + s in
      if t < seconds (datetime_of 1 1 1 0 0 0) \<or> seconds (datetime_of 9999 12 31 23 59 59) < t
      then Inl (OverflowError ''date value out of range'')
      else Inr (Datetime t))"

text \<open>
  \<open>datetime.fromisoformat\<close> for the forms \<open>YYYY-MM-DD\<close> and \<open>YYYY-MM-DD\<close>, one separator
  character, \<open>HH\<close>, \<open>HH:MM\<close> or \<open>HH:MM:SS\<close>. The method also reads fractions of a second and
  UTC offsets, which the model leaves out: it refuses them.
\<close>

definition parse_time :: "string \<Rightarrow> (nat \<times> nat \<times> nat) option" where
  "parse_time s =
     (if length s = 2 then
        (case parse_nat s of Some h \<Rightarrow> Some (h, 0, 0) | None \<Rightarrow> None)
      else if length s = 5 \<and> s ! 2 = CHR '':'' then
        (case (parse_nat (take 2 s), parse_nat (drop 3 s)) of
           (Some h, Some m) \<Rightarrow> Some (h, m, 0) | _ \<Rightarrow> None)
      else if length s = 8 \<and> s ! 2 = CHR '':'' \<and> s ! 5 = CHR '':'' then
        (case (parse_nat (take 2 s), parse_nat (take 2 (drop 3 s)), parse_nat (drop 6 s)) of
           (Some h, Some m, Some sec) \<Rightarrow> Some (h, m, sec) | _ \<Rightarrow> None)
      else None)"

definition fromisoformat :: "string \<Rightarrow> pyerr + datetime" where
  "fromisoformat s =
     (if length s < 10 \<or> s ! 4 \<noteq> CHR ''-'' \<or> s ! 7 \<noteq> CHR ''-''
      then Inl (ValueError ''Invalid isoformat string'')
      else
        case (parse_nat (take 4 s), parse_nat (take 2 (drop 5 s)), parse_nat (take 2 (drop 8 s)),
              if length s = 10 then Some (0, 0, 0) else parse_time (drop 11 s)) of
          (Some y, Some mo, Some d, Some (h, mi, sec)) \<Rightarrow> check_datetime y mo d h mi sec
        | _ \<Rightarrow> Inl (ValueError ''Invalid isoformat string''))"

text \<open>
  \<open>pd.date_range(start, end, freq)\<close> for a frequency of \<open>step\<close> whole seconds, both ends
  included: the instants \<open>start + k * step\<close> from \<open>start\<close> towards \<open>end\<close>. The instants of
  pandas lie between 1677-09-21 00:12:44 and 2262-04-11 23:47:16; a step of zero divides
  by zero.
\<close>

definition in_pandas_bounds :: "datetime \<Rightarrow> bool" where
  "in_pandas_bounds d \<longleftrightarrow>
     seconds (datetime_of 1677 9 21 0 12 44) \<le> seconds d
     \<and> seconds d \<le> seconds (datetime_of 2262 4 11 23 47 16)"

definition date_range :: "datetime \<Rightarrow> datetime \<Rightarrow> int \<Rightarrow> pyerr + datetime list" where
  "date_range start end step =
     (if \<not> in_pandas_bounds start \<or> \<not> in_pandas_bounds end then Inl OutOfBoundsDatetime
      else if step = 0 then Inl ZeroDivisionError
      else
        let n = (if 0 < step
                 then (if seconds end < seconds start then 0
                       else nat ((seconds end - seconds start) div step) + 1)
                 else (if seconds start < seconds end then 0
                       else nat ((seconds start - seconds end) div (- step)) + 1))
        in Inr (map (\<lambda>k. Datetime (seconds start + int k * step)) [0 ..< n]))"

section \<open>contrib/HydroLogic/hisreader.py: the time frame\<close>

text \<open>\<open>np.amax\<close> of the time values.\<close>

definition amax :: "int list \<Rightarrow> pyerr + int" where
  "amax xs =
     (case xs of
        [] \<Rightarrow> Inl (ValueError ''zero-size array to reduction operation maximum which has no identity'')
      | y # ys \<Rightarrow> Inr (fold max ys y))"

text \<open>Python's \<open>xs[i]\<close> for an index that is not negative.\<close>

definition item :: "'a list \<Rightarrow> nat \<Rightarrow> pyerr + 'a" where
  "item xs i = (if i < length xs then Inr (xs ! i) else Inl IndexError)"

text \<open>The start of the time axis: the text behind \<open>since\<close> in the attribute \<open>units\<close>,
  without \<open>+00:00\<close> and white space around it, read as an ISO date and time.\<close>

definition parse_units :: "string \<Rightarrow> pyerr + datetime" where
  "parse_units units =
     bind_err (item (split_str units ''since '') 1) (\<lambda>part.
       let t_start = strip (replace_str part ''+00:00'' '''') in
       fromisoformat t_start)"

text \<open>
  The storage type of the variable \<open>time\<close>, as far as the reader depends on it: its values
  come out of the file as NumPy scalars of that type. \<open>dt.timedelta(seconds=x)\<close> accepts a
  \<open>numpy.float64\<close>, which is a Python float, and raises TypeError for an integer scalar of
  NumPy, which is no Python int.
\<close>

datatype nc_dtype = Float_dtype | Int_dtype

definition timedelta_seconds :: "nc_dtype \<Rightarrow> int \<Rightarrow> pyerr + int" where
  "timedelta_seconds dtype x =
     (case dtype of
        Float_dtype \<Rightarrow> Inr x
      | Int_dtype \<Rightarrow> Inl (TypeError ''unsupported type for timedelta seconds component''))"

text \<open>
  \<open>HisResults.__make_timeframe\<close>: \<open>units\<close> is the attribute of the variable \<open>time\<close>,
  \<open>dtype\<close> its storage type and \<open>time\<close> its values, whole numbers of seconds. The result is
  the index of the frame \<open>timeframe\<close>. The step travels through the string
  \<open>"{}S".format(delta_time)\<close> (\<open>3600.0S\<close> for a float), which pandas reads back as that
  many seconds.
\<close>

definition make_timeframe :: "string \<Rightarrow> nc_dtype \<Rightarrow> int list \<Rightarrow> pyerr + datetime list" where
  "make_timeframe units dtype time =
     bind_err (parse_units units) (\<lambda>start_datetime.
     bind_err (amax time) (\<lambda>mx.
     bind_err (timedelta_seconds dtype mx) (\<lambda>delta.
     bind_err (datetime_add_seconds start_datetime delta) (\<lambda>end_datetime.
     bind_err (item time 1) (\<lambda>t1.
     bind_err (item time 0) (\<lambda>t0.
       let delta_time = t1 - t0 in
       date_range start_datetime end_datetime delta_time))))))"

section \<open>contrib/Arcadis/scripts/export_statistics.py\<close>

text \<open>
  The frame \<open>df\<close> that \<open>read_nc_data\<close> returns: a time index and one column of numbers
  per cell, labelled by the cell's id. The cells hold numbers (no NaN).
\<close>

record 'k timeseries =
  df_index :: "datetime list"
  df_columns :: "('k \<times> real list) list"

text \<open>\<open>strptime(s, "%Y/%m/%d")\<close>: a year of four digits, a month and a day of one or two
  digits.\<close>

definition strptime_ymd :: "string \<Rightarrow> pyerr + datetime" where
  "strptime_ymd s =
     (case split_str s ''/'' of
        [y, m, d] \<Rightarrow>
          if length y = 4 \<and> length m \<in> {1, 2} \<and> length d \<in> {1, 2} then
            (case (parse_nat y, parse_nat m, parse_nat d) of
               (Some yv, Some mv, Some dv) \<Rightarrow> check_datetime yv mv dv 0 0 0
             | _ \<Rightarrow> Inl (ValueError ''time data does not match format''))
          else Inl (ValueError ''time data does not match format'')
      | _ \<Rightarrow> Inl (ValueError ''time data does not match format''))"

text \<open>
  Python compares a \<open>str\<close> with a \<open>Timestamp\<close> by asking both types; neither knows
  the other, so \<open>sdate > edata\<close> and \<open>edate < sdata\<close> raise TypeError.
\<close>

definition str_gt_timestamp :: "string \<Rightarrow> datetime \<Rightarrow> pyerr + bool" where
  "str_gt_timestamp s t = Inl (TypeError ''> not supported between instances of str and Timestamp'')"

definition str_lt_timestamp :: "string \<Rightarrow> datetime \<Rightarrow> pyerr + bool" where
  "str_lt_timestamp s t = Inl (TypeError ''< not supported between instances of str and Timestamp'')"

text \<open>\<open>raise ("...")\<close>: what is raised is a \<open>str\<close>, no exception, and the statement itself
  raises TypeError.\<close>

definition raise_str :: "string \<Rightarrow> pyerr" where
  "raise_str msg = TypeError ''exceptions must derive from BaseException''"

text \<open>\<open>min(df.index)\<close> and \<open>max(df.index)\<close>: ValueError on an empty index.\<close>

definition index_min :: "datetime list \<Rightarrow> pyerr + datetime" where
  "index_min idx =
     (case idx of
        [] \<Rightarrow> Inl (ValueError ''min() arg is an empty sequence'')
      | d # ds \<Rightarrow> Inr (Datetime (fold min (map seconds ds) (seconds d))))"

definition index_max :: "datetime list \<Rightarrow> pyerr + datetime" where
  "index_max idx =
     (case idx of
        [] \<Rightarrow> Inl (ValueError ''max() arg is an empty sequence'')
      | d # ds \<Rightarrow> Inr (Datetime (fold max (map seconds ds) (seconds d))))"

text \<open>\<open>df[mask]\<close>: the rows of the frame whose index passes the test.\<close>

definition select_rows :: "(datetime \<Rightarrow> bool) \<Rightarrow> 'k timeseries \<Rightarrow> 'k timeseries" where
  "select_rows keep df =
     \<lparr>df_index = filter keep (df_index df),
      df_columns = map (\<lambda>(k, xs). (k, map snd (filter (\<lambda>(t, x). keep t) (zip (df_index df) xs))))
                     (df_columns df)\<rparr>"

text \<open>Lines 95 to 109 of \<open>statistics_dhydro\<close>: the bounds of the data and the date filter.\<close>

definition filter_dates :: "string \<Rightarrow> string \<Rightarrow> 'k timeseries \<Rightarrow> pyerr + 'k timeseries" where
  "filter_dates sdate edate df0 =
     bind_err (index_min (df_index df0)) (\<lambda>sdata.
     bind_err (index_max (df_index df0)) (\<lambda>edata.
     bind_err
       (if sdate \<noteq> '''' then
          bind_err (str_gt_timestamp sdate edata) (\<lambda>later.
            if later then Inl (raise_str ''start date later then end date in model results'')
            else bind_err (strptime_ymd sdate) (\<lambda>d.
                   Inr (select_rows (\<lambda>t. seconds d \<le> seconds t) df0)))
        else Inr df0) (\<lambda>df.
       if edate \<noteq> '''' then
          bind_err (str_lt_timestamp edate sdata) (\<lambda>earlier.
            if earlier then Inl (raise_str ''end date earlier then start date in model results'')
            else bind_err (strptime_ymd edate) (\<lambda>d.
                   Inr (select_rows (\<lambda>t. seconds t \<le> seconds d) df)))
       else Inr df)))"

text \<open>
  The statistics of pandas over the numbers of one column; \<open>None\<close> is NaN. The quantile is
  interpolated linearly between the two nearest ranks of the sorted values, the standard
  deviation is that of a sample.
\<close>

definition col_max :: "real list \<Rightarrow> real option" where
  "col_max xs = (case xs of [] \<Rightarrow> None | y # ys \<Rightarrow> Some (fold max ys y))"

definition col_min :: "real list \<Rightarrow> real option" where
  "col_min xs = (case xs of [] \<Rightarrow> None | y # ys \<Rightarrow> Some (fold min ys y))"

definition col_mean :: "real list \<Rightarrow> real option" where
  "col_mean xs = (if xs = [] then None else Some (sum_list xs / real (length xs)))"

definition col_std :: "real list \<Rightarrow> real option" where
  "col_std xs =
     (if length xs \<le> 1 then None
      else let m = sum_list xs / real (length xs)
           in Some (sqrt (sum_list (map (\<lambda>x. (x - m)\<^sup>2) xs) / real (length xs - 1))))"

definition quantile :: "real \<Rightarrow> real list \<Rightarrow> real option" where
  "quantile q xs =
     (if xs = [] then None
      else let s = sort xs;
               h = real (length xs - 1) * q;
               lo = nat \<lfloor>h\<rfloor>;
               hi = nat \<lceil>h\<rceil>
           in Some (s ! lo + (h - real lo) * (s ! hi - s ! lo)))"

text \<open>\<open>df.describe(percentiles=[0.5])\<close> for one column: the rows of the summary, in
  order.\<close>

definition describe :: "real list \<Rightarrow> (string \<times> real option) list" where
  "describe xs =
     [(''count'', Some (real (length xs))),
      (''mean'', col_mean xs),
      (''std'', col_std xs),
      (''min'', col_min xs),
      (''50%'', quantile (1/2) xs),
      (''max'', col_max xs)]"

text \<open>\<open>gdf.merge(df_stat, left_on="id", right_index=True)\<close>: an inner join; a feature is
  its id and the rest of its row, and gets the statistics columns of the cell with its
  id.\<close>

definition merge_stats ::
  "('k \<times> 'g) list \<Rightarrow> ('k \<times> (string \<times> real option) list) list
     \<Rightarrow> ('k \<times> 'g \<times> (string \<times> real option) list) list" where
  "merge_stats gdf df_stat =
     concat (map (\<lambda>(i, g). map (\<lambda>(k, st). (i, g, st)) (filter (\<lambda>(k, st). k = i) df_stat)) gdf)"

text \<open>
  \<open>statistics_dhydro\<close> from the frame \<open>df\<close> of line 93 and the features \<open>gdf\<close> of line 126
  to the table it returns: every feature with its statistics columns. Opening the files
  and writing the result are not modelled. The loop of line 140 reads the first row of
  the merged table and raises IndexError when there is none.
\<close>

definition statistics_dhydro ::
  "'k timeseries \<Rightarrow> ('k \<times> 'g) list \<Rightarrow> string \<Rightarrow> string \<Rightarrow> string
     \<Rightarrow> pyerr + ('k \<times> 'g \<times> (string \<times> real option) list) list" where
  "statistics_dhydro df0 gdf0 sdate edate stat =
     bind_err (filter_dates sdate edate df0) (\<lambda>df.
       let gdf =
         (if stat = '''' then
            merge_stats gdf0 (map (\<lambda>(k, xs). (k, describe xs)) (df_columns df))
          else if stat = ''max'' then
            merge_stats gdf0 (map (\<lambda>(k, xs). (k, [(''max'', col_max xs)])) (df_columns df))
          else map (\<lambda>(i, g). (i, g, [])) gdf0)
       in if gdf = [] then Inl IndexError else Inr gdf)"

text \<open>The median of the spec: the middle of the sorted values, the mean of the two
  middle ones when their number is even.\<close>

definition median :: "real list \<Rightarrow> real option" where
  "median xs =
     (if xs = [] then None
      else let s = sort xs; n = length xs
           in if odd n then Some (s ! (n div 2))
              else Some ((s ! (n div 2 - 1) + s ! (n div 2)) / 2))"

text \<open>Two cells with three values each on 2020-01-01, and the features of the two
  cells.\<close>

definition map_output :: "nat timeseries" where
  "map_output =
     \<lparr>df_index = [datetime_of 2020 1 1 0 0 0, datetime_of 2020 1 1 1 0 0, datetime_of 2020 1 1 2 0 0],
      df_columns = [(0, [1, 5, 3]), (1, [2, 2, 8])]\<rparr>"

definition map_features :: "(nat \<times> point) list" where
  "map_features = [(0, (0, 0)), (1, (10, 0))]"

section \<open>contrib/Arcadis/scripts/change_friction_channels.py\<close>

text \<open>
  The records of a friction file: the global section and the per-branch sections. A
  cell of the columns \<open>chainage\<close> and \<open>frictionvalues\<close> holds a list of numbers, one float,
  one int, or nothing.
\<close>

datatype fval = FFloat real | FInt int | FList "real list" | FNone

record frict_global =
  fg_frictionid :: string
  fg_frictiontype :: string
  fg_frictionvalue :: real

record frict_branch =
  fb_branchid :: string
  fb_frictiontype :: string
  fb_functiontype :: string
  fb_numlocations :: int
  fb_chainage :: fval
  fb_frictionvalues :: fval

record frict_file =
  ff_global :: "frict_global list"
  ff_branch :: "frict_branch list"

text \<open>
  \<open>friction2dict\<close>: the two dictionaries, keyed by the \<open>frictionid\<close> of the first global
  record of every file (IndexError when a file has none). A later file with the key of an
  earlier one takes its place.
\<close>

fun friction2dict_loop ::
  "frict_file list \<Rightarrow> (string \<times> frict_global list) list \<times> (string \<times> frict_branch list) list
     \<Rightarrow> pyerr + (string \<times> frict_global list) list \<times> (string \<times> frict_branch list) list" where
  "friction2dict_loop [] acc = Inr acc"
| "friction2dict_loop (f # fs) (dfsglob, dfschan) =
     (case ff_global f of
        [] \<Rightarrow> Inl IndexError
      | g # gs \<Rightarrow>
          friction2dict_loop fs
            (AList.update (fg_frictionid g) (ff_global f) dfsglob,
             AList.update (fg_frictionid g) (ff_branch f) dfschan))"

definition friction2dict ::
  "frict_file list
     \<Rightarrow> pyerr + (string \<times> frict_global list) list \<times> (string \<times> frict_branch list) list" where
  "friction2dict frictfile = friction2dict_loop frictfile ([], [])"

text \<open>
  A row of \<open>merge\<close>, the left merge of a file's branch records with \<open>in_model\<close> on
  \<open>branchid\<close>: the record, and the columns \<open>result\<close> and \<open>fricval\<close> of the joined row of
  \<open>in_model\<close>, empty when no row joins. \<open>intersect\<close>, the result of the spatial join of the
  branches with the shapes within the buffer of 10, is given by its rows: the branch id
  and the \<open>fricval\<close> of the nearest shape, a float. No other column of \<open>intersect\<close> has the
  name of a column of the records.
\<close>

record merged_row =
  mr_record :: frict_branch
  mr_result :: "bool option"
  mr_fricval :: "real option"

definition merge_in_model :: "frict_branch list \<Rightarrow> (string \<times> real) list \<Rightarrow> merged_row list" where
  "merge_in_model branch_records intersect =
     (let in_model = map (\<lambda>(i, v). (i, v, i \<in> set (map fb_branchid branch_records))) intersect
      in concat (map (\<lambda>b.
           (let ms = filter (\<lambda>(i, v, res). i = fb_branchid b) in_model
            in if ms = [] then [\<lparr>mr_record = b, mr_result = None, mr_fricval = None\<rparr>]
               else map (\<lambda>(i, v, res). \<lparr>mr_record = b, mr_result = Some res,
                                          mr_fricval = Some v\<rparr>) ms))
           branch_records))"

text \<open>Lines 109 to 115: where \<open>result\<close> is true, \<open>frictionvalues\<close> takes \<open>fricval\<close>,
  \<open>numlocations\<close> becomes 1 and \<open>chainage\<close> the int 0.\<close>

definition overlay_row :: "merged_row \<Rightarrow> merged_row" where
  "overlay_row r =
     (if mr_result r = Some True then
        r\<lparr>mr_record := (mr_record r)
             \<lparr>fb_frictionvalues := (case mr_fricval r of None \<Rightarrow> FNone | Some v \<Rightarrow> FFloat v),
              fb_numlocations := 1,
              fb_chainage := FInt 0\<rparr>\<rparr>
      else r)"

text \<open>Lines 118 to 123: a float in \<open>frictionvalues\<close> and an int in \<open>chainage\<close> become lists
  of one element.\<close>

definition wrap_float :: "fval \<Rightarrow> fval" where
  "wrap_float x = (case x of FFloat v \<Rightarrow> FList [v] | _ \<Rightarrow> x)"

definition wrap_int :: "fval \<Rightarrow> fval" where
  "wrap_int x = (case x of FInt k \<Rightarrow> FList [of_int k] | _ \<Rightarrow> x)"

definition to_lists :: "merged_row \<Rightarrow> merged_row" where
  "to_lists r =
     r\<lparr>mr_record := (mr_record r)
          \<lparr>fb_frictionvalues := wrap_float (fb_frictionvalues (mr_record r)),
           fb_chainage := wrap_int (fb_chainage (mr_record r))\<rparr>\<rparr>"

text \<open>
  The loop of \<open>change_friction_shape\<close> over the friction files: what is written, as pairs
  of the file name and the model saved under it. With \<open>wipe\<close> only the overlaid records are
  written. A file without branch records is rewritten with its global section.
\<close>

definition overlay_records ::
  "frict_branch list \<Rightarrow> (string \<times> real) list \<Rightarrow> bool \<Rightarrow> frict_branch list" where
  "overlay_records branch_records intersect wipe =
     (let merge = map to_lists (map overlay_row (merge_in_model branch_records intersect));
          rows = (if wipe then filter (\<lambda>r. mr_result r = Some True) merge else merge)
      in map mr_record rows)"

definition write_friction ::
  "(string \<times> frict_global list) list \<Rightarrow> (string \<times> real) list \<Rightarrow> bool
     \<Rightarrow> string \<times> frict_branch list \<Rightarrow> pyerr + string \<times> frict_file" where
  "write_friction dict_global intersect wipe kv =
     (case map_of dict_global (fst kv) of
        None \<Rightarrow> Inl (KeyError (fst kv))
      | Some global \<Rightarrow>
          if snd kv \<noteq> [] then
            Inr (''roughness-'' @ fst kv @ ''.ini'',
                 \<lparr>ff_global = global, ff_branch = overlay_records (snd kv) intersect wipe\<rparr>)
          else Inr (''roughness-'' @ fst kv @ ''.ini'', \<lparr>ff_global = global, ff_branch = []\<rparr>))"

text \<open>
  The model that \<open>FMModel(mdu_path)\<close> loads, as far as the function uses it: the attributes
  of its section \<open>geometry\<close> that name files, by the name of the attribute, and the friction
  files of the attribute \<open>frictfile\<close>. Reading an attribute that the section does not have
  raises AttributeError.
\<close>

record fm_model =
  fm_geometry :: "string \<rightharpoonup> string"
  fm_frictfile :: "frict_file list"

definition getattr_geometry :: "fm_model \<Rightarrow> string \<Rightarrow> pyerr + string" where
  "getattr_geometry fm name =
     (case fm_geometry fm name of None \<Rightarrow> Inl (AttributeError name) | Some v \<Rightarrow> Inr v)"

text \<open>
  \<open>change_friction_shape\<close>. Before the loop, line 54 builds the dictionaries, line 60 reads
  the attribute \<open>netfile\<close> of the section \<open>geometry\<close> for the branches, and line 64 reads its
  attribute \<open>branchfile\<close> for a table of branch types that nothing below uses. \<open>intersect\<close>
  is the spatial join of line 68. The files themselves (the shapes, the net file,
  \<open>branches.gui\<close>) are read by code that is not part of these sources; these reads are taken
  to return.
\<close>

definition change_friction_shape ::
  "fm_model \<Rightarrow> (string \<times> real) list \<Rightarrow> bool \<Rightarrow> pyerr + (string \<times> frict_file) list" where
  "change_friction_shape fm intersect wipe =
     bind_err (friction2dict (fm_frictfile fm)) (\<lambda>(dict_global, dict_frictions).
     bind_err (getattr_geometry fm ''netfile'') (\<lambda>netfile.
     bind_err (getattr_geometry fm ''branchfile'') (\<lambda>branchfile.
       map_err (write_friction dict_global intersect wipe) dict_frictions)))"

text \<open>Reading a written file back: the model saved under the name. (The codec of the
  friction files belongs to the library; it is taken to return what was saved.)\<close>

definition read_friction :: "(string \<times> frict_file) list \<Rightarrow> string \<Rightarrow> frict_file option" where
  "read_friction files name = map_of (rev files) name"

text \<open>A friction file with the records of two branches, and a spatial join that finds a
  shape with \<open>fricval = 30\<close> near the branch \<open>b1\<close>.\<close>

definition channels_file :: frict_file where
  "channels_file =
     \<lparr>ff_global = [\<lparr>fg_frictionid = ''Channels'', fg_frictiontype = ''Strickler'',
                    fg_frictionvalue = 25\<rparr>],
      ff_branch =
        [\<lparr>fb_branchid = ''b1'', fb_frictiontype = ''Strickler'', fb_functiontype = ''constant'',
          fb_numlocations = 2, fb_chainage = FList [0, 100], fb_frictionvalues = FList [20, 22]\<rparr>,
         \<lparr>fb_branchid = ''b2'', fb_frictiontype = ''Strickler'', fb_functiontype = ''constant'',
          fb_numlocations = 0, fb_chainage = FNone, fb_frictionvalues = FList [24]\<rparr>]\<rparr>"

text \<open>The model of an MDU file as the library loads it: its section \<open>geometry\<close> has the
  attributes that the class of the section declares, among them \<open>netfile\<close> and \<open>frictfile\<close>
  and no \<open>branchfile\<close>. And the same model with an attribute \<open>branchfile\<close>.\<close>

definition channels_model :: fm_model where
  "channels_model =
     \<lparr>fm_geometry = [''netfile'' \<mapsto> ''FlowFM_net.nc'', ''frictfile'' \<mapsto> ''roughness-Channels.ini'',
                     ''crossdeffile'' \<mapsto> ''crsdef.ini'', ''crosslocfile'' \<mapsto> ''crsloc.ini''],
      fm_frictfile = [channels_file]\<rparr>"

definition channels_model_gui :: fm_model where
  "channels_model_gui =
     channels_model\<lparr>fm_geometry := (fm_geometry channels_model)(''branchfile'' \<mapsto> ''branches.gui'')\<rparr>"

definition shape_join :: "(string \<times> real) list" where
  "shape_join = [(''b1'', 30), (''b9'', 40)]"

section \<open>Theorems\<close>

subsection \<open>Shared lemmas\<close>

lemma bind_err_Inr [simp]: "bind_err (Inr v) f = f v"
  by (simp add: bind_err_def)

lemma bind_err_Inl [simp]: "bind_err (Inl e) f = Inl e"
  by (simp add: bind_err_def)

lemma take_idx_in_range:
  "\<forall>k \<in> set ks. k < length arr \<Longrightarrow> take_idx arr ks = Inr (map ((!) arr) ks)"
  by (induction ks) auto

lemma fold_max_eq_Max: "fold max ys (y::'a::linorder) = Max (set (y # ys))"
proof (induction ys arbitrary: y)
  case Nil
  then show ?case by simp
next
  case (Cons z zs)
  have "fold max (z # zs) y = fold max zs (max z y)" by simp
  also have "\<dots> = Max (set (max z y # zs))" by (rule Cons.IH)
  also have "\<dots> = Max (set (y # z # zs))"
  proof (cases "zs = []")
    case True
    then show ?thesis by (simp add: max.commute)
  next
    case False
    then show ?thesis by (simp add: max.commute max.assoc max.left_commute)
  qed
  finally show ?case .
qed

lemma hypot_zero_right: "hypot a 0 = \<bar>a\<bar>"
  by (simp add: hypot_def)

subsection \<open>mesh2d_add_rectilinear: the index offset of a merge\<close>

lemma np_max_Cons: "xs \<noteq> [] \<Longrightarrow> np_max xs = Inr (Max (set xs))"
  by (cases xs) (simp_all add: np_max_def fold_max_eq_Max del: set_simps)

text \<open>
  C5. When the existing mesh has nodes (and edges, so that the maximum exists), the merge
  returns the concatenation of the existing arrays with the new ones, in which every
  entry of the new \<open>edge_nodes\<close> and \<open>face_nodes\<close> has been raised by the largest
  entry of the existing \<open>edge_nodes\<close> plus one; no raised index occurs in the existing
  \<open>edge_nodes\<close>.
\<close>

theorem mesh2d_add_rectilinear_offsets:
  assumes "node_x existing_mesh2d \<noteq> []" and "edge_nodes existing_mesh2d \<noteq> []"
  shows "\<exists>merged. mesh2d_add_rectilinear existing_mesh2d new_mesh2d = Inr merged
     \<and> edge_nodes merged = edge_nodes existing_mesh2d @
          map (\<lambda>i. i + (Max (set (edge_nodes existing_mesh2d)) + 1)) (edge_nodes new_mesh2d)
     \<and> face_nodes merged = face_nodes existing_mesh2d @
          map (\<lambda>i. i + (Max (set (edge_nodes existing_mesh2d)) + 1)) (face_nodes new_mesh2d)
     \<and> (\<forall>i \<in> set (edge_nodes new_mesh2d) \<union> set (face_nodes new_mesh2d).
          i + (Max (set (edge_nodes existing_mesh2d)) + 1) \<notin> set (edge_nodes existing_mesh2d))"
proof -
  let ?m = "Max (set (edge_nodes existing_mesh2d))"
  have mx: "np_max (edge_nodes existing_mesh2d) = Inr ?m"
    using assms(2) by (rule np_max_Cons)
  have fresh: "i + (?m + 1) \<notin> set (edge_nodes existing_mesh2d)" for i
  proof
    assume "i + (?m + 1) \<in> set (edge_nodes existing_mesh2d)"
    then have "i + (?m + 1) \<le> ?m" by (simp add: Max_ge)
    then show False by simp
  qed
  show ?thesis
    using assms(1) mx fresh by (simp add: mesh2d_add_rectilinear_def Let_def)
qed

theorem mesh2d_add_rectilinear_offsets_witness:
  "node_x ex_mesh \<noteq> [] \<and> edge_nodes ex_mesh \<noteq> [] \<and>
   (\<exists>merged. mesh2d_add_rectilinear ex_mesh new_mesh = Inr merged
      \<and> edge_nodes merged = [0, 1, 1, 2, 2, 0, 3, 4, 4, 5, 5, 3]
      \<and> face_nodes merged = [0, 1, 2, 3, 4, 5])"
proof -
  have h1: "node_x ex_mesh \<noteq> []" and h2: "edge_nodes ex_mesh \<noteq> []"
    by (simp_all add: ex_mesh_def)
  from mesh2d_add_rectilinear_offsets [OF h1 h2, of new_mesh]
  obtain merged where m: "mesh2d_add_rectilinear ex_mesh new_mesh = Inr merged"
    and e: "edge_nodes merged = edge_nodes ex_mesh @
          map (\<lambda>i. i + (Max (set (edge_nodes ex_mesh)) + 1)) (edge_nodes new_mesh)"
    and f: "face_nodes merged = face_nodes ex_mesh @
          map (\<lambda>i. i + (Max (set (edge_nodes ex_mesh)) + 1)) (face_nodes new_mesh)"
    by blast
  have "Max (set (edge_nodes ex_mesh)) = 2" by (simp add: ex_mesh_def)
  with e f have "edge_nodes merged = [0, 1, 1, 2, 2, 0, 3, 4, 4, 5, 5, 3]"
    and "face_nodes merged = [0, 1, 2, 3, 4, 5]"
    by (simp_all add: ex_mesh_def new_mesh_def)
  with m h1 h2 show ?thesis by blast
qed

subsection \<open>links1d2d_add_links_1d_to_2d: the length filter\<close>

lemma where_less_map:
  "map ((!) xs) (where_less (map f xs) m) = filter (\<lambda>x. f x < m) xs"
proof -
  have "map ((!) xs) (filter (\<lambda>i. map f xs ! i < m) [0 ..< length xs])
        = map ((!) xs) (filter (\<lambda>i. f (xs ! i) < m) [0 ..< length xs])"
    by (intro arg_cong[where f="map ((!) xs)"] filter_cong) auto
  also have "\<dots> = filter (\<lambda>x. f x < m) (map ((!) xs) [0 ..< length xs])"
    by (simp add: filter_map comp_def)
  finally show ?thesis by (simp add: where_less_def map_nth)
qed

lemma where_less_bound: "k \<in> set (where_less ls m) \<Longrightarrow> k < length ls"
  by (simp add: where_less_def)

lemma take_idx_keep:
  assumes "\<forall>k \<in> set ks. k < length b"
  shows "take_idx (a @ b) ([0 ..< length a] @ map (\<lambda>i. i + length a) ks)
         = Inr (a @ map ((!) b) ks)"
proof -
  have t: "take_idx (a @ b) ([0 ..< length a] @ map (\<lambda>i. i + length a) ks)
        = Inr (map ((!) (a @ b)) ([0 ..< length a] @ map (\<lambda>i. i + length a) ks))"
    using assms by (intro take_idx_in_range) auto
  have "map ((!) (a @ b)) [0 ..< length a] = map ((!) a) [0 ..< length a]"
    by (rule map_cong) (simp_all add: nth_append)
  then have l: "map ((!) (a @ b)) [0 ..< length a] = a"
    by (simp add: map_nth)
  have r: "map ((!) (a @ b)) (map (\<lambda>i. i + length a) ks) = map ((!) b) ks"
    by (simp add: nth_append comp_def)
  show ?thesis unfolding t by (simp only: map_append l r)
qed

lemma gen_lengths:
  assumes "\<forall>l \<in> set ls. fst l < length (mesh1d_node_x nw) \<and> fst l < length (mesh1d_node_y nw)
             \<and> snd l < length (mesh2d_face_x nw) \<and> snd l < length (mesh2d_face_y nw)"
  shows "take_idx (mesh1d_node_x nw) (map fst ls) = Inr (map (\<lambda>l. mesh1d_node_x nw ! fst l) ls)"
    and "take_idx (mesh1d_node_y nw) (map fst ls) = Inr (map (\<lambda>l. mesh1d_node_y nw ! fst l) ls)"
    and "take_idx (mesh2d_face_x nw) (map snd ls) = Inr (map (\<lambda>l. mesh2d_face_x nw ! snd l) ls)"
    and "take_idx (mesh2d_face_y nw) (map snd ls) = Inr (map (\<lambda>l. mesh2d_face_y nw ! snd l) ls)"
  using assms by (simp_all add: take_idx_in_range comp_def)

lemma lengths_eq:
  "map (\<lambda>((a, b), (c, d)). hypot (a - c) (b - d))
     (zip (zip (map (\<lambda>l. mesh1d_node_x nw ! fst l) ls) (map (\<lambda>l. mesh1d_node_y nw ! fst l) ls))
          (zip (map (\<lambda>l. mesh2d_face_x nw ! snd l) ls) (map (\<lambda>l. mesh2d_face_y nw ! snd l) ls)))
   = map (link_length nw) ls"
  by (induction ls) (simp_all add: link_length_def)

lemma take_idx_keep_longer:
  assumes n: "n \<le> length a" and ks: "\<forall>k \<in> set ks. k < length g"
  shows "take_idx (a @ g) ([0 ..< n] @ map (\<lambda>i. i + n) ks)
         = Inr (take n a @ map ((!) (drop n a @ g)) ks)"
proof -
  have l: "length (take n a) = n" using n by simp
  have "\<forall>k \<in> set ks. k < length (drop n a @ g)" using ks by auto
  then have "take_idx (take n a @ (drop n a @ g))
       ([0 ..< length (take n a)] @ map (\<lambda>i. i + length (take n a)) ks)
     = Inr (take n a @ map ((!) (drop n a @ g)) ks)"
    by (rule take_idx_keep)
  moreover have "take n a @ (drop n a @ g) = a @ g" by simp
  ultimately show ?thesis unfolding l by (simp only:)
qed

text \<open>
  C4. With a finite \<open>max_length\<close>, the call returns, also when links were present before
  it; the links present before it are the first entries of the link array afterwards,
  whatever their length, with their first entries in the other three arrays; behind them
  stand exactly the generated links whose node-to-face-centre distance is below
  \<open>max_length\<close>, so no kept generated link is longer than \<open>max_length\<close>.
\<close>

theorem links1d2d_add_links_1d_to_2d_filter:
  assumes "links_in_range nw g"
  shows "\<exists>nw'. links1d2d_add_links_1d_to_2d nw g max_length = Inr nw'
     \<and> link1d2d nw' = link1d2d nw @ filter (\<lambda>l. link_length nw l < max_length) (gen_link1d2d g)
     \<and> take (length (link1d2d nw)) (link1d2d nw') = link1d2d nw
     \<and> take (length (link1d2d nw)) (link1d2d_contact_type nw')
         = take (length (link1d2d nw)) (link1d2d_contact_type nw)
     \<and> take (length (link1d2d nw)) (link1d2d_id nw')
         = take (length (link1d2d nw)) (link1d2d_id nw)
     \<and> take (length (link1d2d nw)) (link1d2d_long_name nw')
         = take (length (link1d2d nw)) (link1d2d_long_name nw)
     \<and> list_all (\<lambda>l. \<not> max_length < link_length nw l) (drop (length (link1d2d nw)) (link1d2d nw'))"
proof -
  let ?n = "length (link1d2d nw)"
  let ?gen = "gen_link1d2d g"
  let ?nw1 = "link_from_1d_to_2d nw g"
  let ?sel = "where_less (map (link_length nw) ?gen) max_length"
  let ?keep = "[0 ..< ?n] @ map (\<lambda>i. i + ?n) ?sel"
  let ?c = "take ?n (link1d2d_contact_type nw)
      @ map ((!) (drop ?n (link1d2d_contact_type nw) @ gen_contact_type g)) ?sel"
  let ?i = "take ?n (link1d2d_id nw) @ map ((!) (drop ?n (link1d2d_id nw) @ gen_id g)) ?sel"
  let ?l = "take ?n (link1d2d_long_name nw)
      @ map ((!) (drop ?n (link1d2d_long_name nw) @ gen_long_name g)) ?sel"
  have rng: "\<forall>l \<in> set ?gen. fst l < length (mesh1d_node_x ?nw1) \<and> fst l < length (mesh1d_node_y ?nw1)
             \<and> snd l < length (mesh2d_face_x ?nw1) \<and> snd l < length (mesh2d_face_y ?nw1)"
    using assms by (simp add: links_in_range_def link_from_1d_to_2d_def list_all_iff)
  have ll: "link_length ?nw1 = link_length nw"
    by (rule ext) (simp add: link_length_def link_from_1d_to_2d_def)
  have dr: "drop ?n (link1d2d ?nw1) = ?gen"
    by (simp add: link_from_1d_to_2d_def)
  have sel: "\<forall>k \<in> set ?sel. k < length ?gen"
    using where_less_bound by fastforce
  have selc: "\<forall>k \<in> set ?sel. k < length (gen_contact_type g)"
    and seli: "\<forall>k \<in> set ?sel. k < length (gen_id g)"
    and seln: "\<forall>k \<in> set ?sel. k < length (gen_long_name g)"
    using sel assms by (auto simp: links_in_range_def)
  have nc: "?n \<le> length (link1d2d_contact_type nw)"
    and ni: "?n \<le> length (link1d2d_id nw)"
    and nl: "?n \<le> length (link1d2d_long_name nw)"
    using assms by (simp_all add: links_in_range_def)
  have k1: "take_idx (link1d2d ?nw1) ?keep = Inr (link1d2d nw @ map ((!) ?gen) ?sel)"
    unfolding link_from_1d_to_2d_def using sel by (simp add: take_idx_keep)
  have k2: "take_idx (link1d2d_contact_type ?nw1) ?keep = Inr ?c"
    using take_idx_keep_longer [OF nc selc] by (simp add: link_from_1d_to_2d_def)
  have k3: "take_idx (link1d2d_id ?nw1) ?keep = Inr ?i"
    using take_idx_keep_longer [OF ni seli] by (simp add: link_from_1d_to_2d_def)
  have k4: "take_idx (link1d2d_long_name ?nw1) ?keep = Inr ?l"
    using take_idx_keep_longer [OF nl seln] by (simp add: link_from_1d_to_2d_def)
  have res: "links1d2d_add_links_1d_to_2d nw g max_length =
    Inr (?nw1\<lparr>link1d2d := link1d2d nw @ map ((!) ?gen) ?sel,
               link1d2d_contact_type := ?c, link1d2d_id := ?i, link1d2d_long_name := ?l\<rparr>)"
    unfolding links1d2d_add_links_1d_to_2d_def Let_def dr
    by (simp add: gen_lengths [OF rng] lengths_eq ll filter_links_on_idx_def k1 k2 k3 k4)
  have flt: "map ((!) ?gen) ?sel = filter (\<lambda>l. link_length nw l < max_length) ?gen"
    by (rule where_less_map)
  show ?thesis
    using nc ni nl unfolding res flt
    by (simp add: list_all_iff not_less less_imp_le)
qed

theorem links1d2d_add_links_1d_to_2d_filter_witness:
  "links_in_range ex_network ex_generated \<and>
   link1d2d ex_network = [(1, 2)] \<and>
   (\<exists>nw'. links1d2d_add_links_1d_to_2d ex_network ex_generated 5 = Inr nw'
      \<and> link1d2d nw' = [(1, 2), (0, 0)])"
proof -
  have h: "links_in_range ex_network ex_generated"
    by (simp add: links_in_range_def ex_network_def ex_generated_def)
  from links1d2d_add_links_1d_to_2d_filter [OF h, of 5]
  obtain nw' where r: "links1d2d_add_links_1d_to_2d ex_network ex_generated 5 = Inr nw'"
    and l: "link1d2d nw' = link1d2d ex_network @
        filter (\<lambda>l. link_length ex_network l < 5) (gen_link1d2d ex_generated)"
    by blast
  have "link_length ex_network (0, 0) = 3" "link_length ex_network (0, 1) = 6"
    by (simp_all add: link_length_def ex_network_def hypot_zero_right)
  with l have "link1d2d nw' = [(1, 2), (0, 0)]"
    by (simp add: ex_network_def ex_generated_def)
  moreover have "link1d2d ex_network = [(1, 2)]" by (simp add: ex_network_def)
  ultimately show ?thesis using r h by blast
qed

subsection \<open>set_branch_crosssections, midpoint = False\<close>

lemma circle_definitionid_sel:
  "cr_branch_id (circle_definitionid r) = cr_branch_id r"
  "cr_branch_offset (circle_definitionid r) = cr_branch_offset r"
  "cr_shift (circle_definitionid r) = cr_shift r"
  "cr_geometry (circle_definitionid r) = cr_geometry r"
  "cr_diameter (circle_definitionid r) = cr_diameter r"
  "cr_frictionId (circle_definitionid r) = cr_frictionId r"
  "cr_frictionType (circle_definitionid r) = cr_frictionType r"
  "cr_frictionValue (circle_definitionid r) = cr_frictionValue r"
  "cr_definitionid (circle_definitionid r) = ''circ_d'' @ format_f True 3 (cr_diameter r) @ ''_branch''"
  by (simp_all add: circle_definitionid_def crs_row.defs circle_row.defs)

lemma map_err_all_Inr:
  "(\<And>x. x \<in> set xs \<Longrightarrow> f x = Inr (g x)) \<Longrightarrow> map_err f xs = Inr (map g xs)"
  by (induction xs) simp_all

lemma coords0_nonempty: "l \<noteq> [] \<Longrightarrow> coords0 l = Inr (hd l)"
  by (cases l) (simp_all add: coords0_def)

lemma crosssections_up_rows:
  assumes "\<And>b. b \<in> set branches \<Longrightarrow> br_geometry b \<noteq> []"
  shows "crosssections_up branches = Inr (map (\<lambda>b. up_row b (hd (br_geometry b))) branches)"
  unfolding crosssections_up_def
  by (rule map_err_all_Inr) (simp add: coords0_nonempty assms)

lemma crosssections_dn_rows:
  assumes "\<And>b. b \<in> set branches \<Longrightarrow> br_geometry b \<noteq> []"
  shows "crosssections_dn branches = Inr (map (\<lambda>b. dn_row b (hd (br_geometry b))) branches)"
  unfolding crosssections_dn_def
  by (rule map_err_all_Inr) (simp add: coords0_nonempty assms)

lemma set_drop_duplicates [simp]: "set (drop_duplicates xs) = set xs"
  by (induction xs rule: drop_duplicates.induct) auto

lemma distinct_drop_duplicates [simp]: "distinct (drop_duplicates xs)"
  by (induction xs rule: drop_duplicates.induct) auto

lemma filter_drop_duplicates:
  "filter P (drop_duplicates xs) = drop_duplicates (filter P xs)"
proof (induction xs rule: drop_duplicates.induct)
  case 1
  then show ?case by simp
next
  case (2 x xs)
  show ?case
  proof (cases "P x")
    case True
    have "filter (\<lambda>y. y \<noteq> x) (filter P xs) = filter P (filter (\<lambda>y. y \<noteq> x) xs)"
      by (simp add: conj_commute)
    with True 2 show ?thesis by simp
  next
    case False
    have "filter P (filter (\<lambda>y. y \<noteq> x) xs) = filter P xs"
      using False by (auto intro: filter_cong)
    with False 2 show ?thesis by simp
  qed
qed

lemma drop_duplicates_distinct: "distinct xs \<Longrightarrow> drop_duplicates xs = xs"
proof (induction xs)
  case Nil
  then show ?case by simp
next
  case (Cons x xs)
  then have "filter (\<lambda>y. y \<noteq> x) xs = xs" by (auto intro: filter_id_conv[THEN iffD2])
  with Cons show ?case by simp
qed

lemma drop_duplicates_map_inj:
  "inj f \<Longrightarrow> drop_duplicates (map f xs) = map f (drop_duplicates xs)"
proof (induction xs rule: drop_duplicates.induct)
  case 1
  then show ?case by simp
next
  case (2 x xs)
  then have "filter (\<lambda>y. y \<noteq> f x) (map f xs) = map f (filter (\<lambda>y. y \<noteq> x) xs)"
    by (simp add: filter_map comp_def inj_eq)
  with 2 show ?case by simp
qed

lemma filter_key_distinct:
  "distinct (map f xs) \<Longrightarrow> b \<in> set xs \<Longrightarrow> filter (\<lambda>x. f x = f b) xs = [b]"
proof (induction xs)
  case Nil
  then show ?case by simp
next
  case (Cons x xs)
  show ?case
  proof (cases "x = b")
    case True
    with Cons.prems have "\<forall>y \<in> set xs. f y \<noteq> f b" by (auto simp: image_iff)
    then have "filter (\<lambda>x. f x = f b) xs = []" by (simp add: filter_empty_conv)
    with True show ?thesis by simp
  next
    case False
    with Cons.prems have "b \<in> set xs" and "f x \<noteq> f b" and "distinct (map f xs)" by auto
    with Cons.IH show ?thesis by simp
  qed
qed

lemma filter_merge_left:
  "filter (\<lambda>(l, d). Q l) (merge_left ls ds) = merge_left (filter Q ls) ds"
  by (induction ls) (auto simp: merge_left_def Let_def split_def filter_empty_conv)

lemma fold_circle_absent:
  "''circle'' \<notin> set ss \<Longrightarrow> fold (circle_step cs) ss acc = acc"
  by (induction ss arbitrary: acc) (auto simp: circle_step_def)

lemma fold_circle_present:
  "distinct ss \<Longrightarrow> ''circle'' \<in> set ss \<Longrightarrow>
   fold (circle_step cs) ss None =
     Some (set_circle_crs (map circle_definitionid (filter (\<lambda>r. cr_shape r = ''circle'') cs)))"
proof (induction ss)
  case Nil
  then show ?case by simp
next
  case (Cons s ss)
  show ?case
  proof (cases "s = ''circle''")
    case True
    with Cons.prems have "''circle'' \<notin> set ss" by auto
    then show ?thesis using True by (simp add: fold_circle_absent) (simp add: circle_step_def)
  next
    case False
    with Cons show ?thesis by (simp add: circle_step_def)
  qed
qed

lemma up_row_sel [simp]:
  "cr_branch_id (up_row b p) = br_branchId b"
  "cr_shape (up_row b p) = br_shape b"
  "cr_branch_offset (up_row b p) = 0"
  "cr_shift (up_row b p) = br_invlev_up b"
  "cr_geometry (up_row b p) = p"
  "cr_diameter (up_row b p) = br_diameter b"
  "cr_frictionId (up_row b p) = br_frictionId b"
  "cr_frictionType (up_row b p) = br_frictionType b"
  "cr_frictionValue (up_row b p) = br_frictionValue b"
  by (simp_all add: up_row_def)

lemma dn_row_sel [simp]:
  "cr_branch_id (dn_row b p) = br_branchId b"
  "cr_shape (dn_row b p) = br_shape b"
  "cr_branch_offset (dn_row b p) = line_length (br_geometry b)"
  "cr_shift (dn_row b p) = br_invlev_dn b"
  "cr_geometry (dn_row b p) = p"
  "cr_diameter (dn_row b p) = br_diameter b"
  "cr_frictionId (dn_row b p) = br_frictionId b"
  "cr_frictionType (dn_row b p) = br_frictionType b"
  "cr_frictionValue (dn_row b p) = br_frictionValue b"
  by (simp_all add: dn_row_def)

lemma circle_crsloc_sel [simp]:
  "crsloc_branchId (circle_crsloc c) = cr_branch_id c"
  "crsloc_chainage (circle_crsloc c) = cr_branch_offset c"
  "crsloc_shift (circle_crsloc c) = cr_shift c"
  "crsloc_definitionId (circle_crsloc c) = cr_definitionid c"
  "crsloc_geometry (circle_crsloc c) = cr_geometry c"
  by (simp_all add: circle_crsloc_def)

lemma circle_crsdef_sel [simp]:
  "crsdef_branchId (circle_crsdef c) = cr_branch_id c"
  "crsdef_id (circle_crsdef c) = cr_definitionid c"
  by (simp_all add: circle_crsdef_def)

lemma circle_crsdef_up_dn:
  "circle_crsdef (circle_definitionid (dn_row b p)) = circle_crsdef (circle_definitionid (up_row b p))"
  by (simp add: circle_crsdef_def circle_definitionid_sel)

lemma merge_left_Nil [simp]: "merge_left [] ds = []"
  by (simp add: merge_left_def)

lemma merge_left_Cons:
  "filter (\<lambda>d. crsdef_branchId d = crsloc_branchId l \<and> crsdef_id d = crsloc_definitionId l) ds = ms
   \<Longrightarrow> ms \<noteq> [] \<Longrightarrow> merge_left (l # ls) ds = map (\<lambda>d. (l, Some d)) ms @ merge_left ls ds"
  by (simp add: merge_left_def)

lemma merge_left_branch:
  assumes d: "distinct (map br_branchId cs)" and b: "b \<in> set cs"
  shows "merge_left
           (filter (\<lambda>l. crsloc_branchId l = br_branchId b) (map up_loc cs @ map dn_loc cs))
           (map branch_def cs @ map branch_def cs)
         = [(up_loc b, Some (branch_def b)), (up_loc b, Some (branch_def b)),
            (dn_loc b, Some (branch_def b)), (dn_loc b, Some (branch_def b))]"
proof -
  define DS where "DS = map branch_def cs @ map branch_def cs"
  have fb: "filter (\<lambda>x. br_branchId x = br_branchId b) cs = [b]"
    using d b by (rule filter_key_distinct)
  have locs: "filter (\<lambda>l. crsloc_branchId l = br_branchId b) (map up_loc cs @ map dn_loc cs)
        = [up_loc b, dn_loc b]"
    by (simp add: filter_map comp_def circle_definitionid_sel fb up_loc_def dn_loc_def)
  have fb2: "filter (\<lambda>x. br_branchId x = br_branchId b \<and> Q x) cs = (if Q b then [b] else [])" for Q
  proof -
    have "filter (\<lambda>x. br_branchId x = br_branchId b \<and> Q x) cs
       = filter Q (filter (\<lambda>x. br_branchId x = br_branchId b) cs)"
      by (simp add: conj_commute)
    then show ?thesis by (simp add: fb)
  qed
  have defs: "filter (\<lambda>d. crsdef_branchId d = br_branchId b
                 \<and> crsdef_id d = crsdef_id (branch_def b)) DS
        = [branch_def b, branch_def b]"
    unfolding DS_def filter_append filter_map comp_def
    by (simp add: branch_def_def circle_definitionid_sel fb2)
  have du: "filter (\<lambda>d. crsdef_branchId d = crsloc_branchId (up_loc b)
                 \<and> crsdef_id d = crsloc_definitionId (up_loc b)) DS
        = [branch_def b, branch_def b]"
    using defs by (simp add: up_loc_def branch_def_def circle_definitionid_sel)
  have dd: "filter (\<lambda>d. crsdef_branchId d = crsloc_branchId (dn_loc b)
                 \<and> crsdef_id d = crsloc_definitionId (dn_loc b)) DS
        = [branch_def b, branch_def b]"
    using defs by (simp add: dn_loc_def branch_def_def circle_definitionid_sel)
  show ?thesis
    unfolding locs DS_def [symmetric]
    by (simp add: merge_left_Cons [OF du] merge_left_Cons [OF dd])
qed

lemma crs_loc_final_row [simp]: "crs_loc (final_row (l, d)) = l"
  by (simp add: final_row_def)

lemma set_branch_crosssections_rows:
  assumes ne: "\<And>b. b \<in> set branches \<Longrightarrow> br_geometry b \<noteq> []"
      and c: "\<exists>b \<in> set branches. br_shape b = ''circle''"
  shows "set_branch_crosssections branches =
     Inr (drop_duplicates (map final_row
       (merge_left
          (map up_loc (filter (\<lambda>b. br_shape b = ''circle'') branches)
             @ map dn_loc (filter (\<lambda>b. br_shape b = ''circle'') branches))
          (map branch_def (filter (\<lambda>b. br_shape b = ''circle'') branches)
             @ map branch_def (filter (\<lambda>b. br_shape b = ''circle'') branches)))))"
proof -
  let ?up = "map (\<lambda>b. up_row b (hd (br_geometry b))) branches"
  let ?dn = "map (\<lambda>b. dn_row b (hd (br_geometry b))) branches"
  let ?cs = "filter (\<lambda>b. br_shape b = ''circle'') branches"
  have shapes: "''circle'' \<in> set (drop_duplicates (map cr_shape (?up @ ?dn)))"
  proof -
    have "''circle'' \<in> br_shape ` set branches" using c by force
    then show ?thesis by (simp add: image_Un image_image)
  qed
  have circ: "map circle_definitionid (filter (\<lambda>r. cr_shape r = ''circle'') (?up @ ?dn))
      = map (\<lambda>b. circle_definitionid (up_row b (hd (br_geometry b)))) ?cs
        @ map (\<lambda>b. circle_definitionid (dn_row b (hd (br_geometry b)))) ?cs"
    by (simp add: filter_map comp_def)
  have fold: "fold (circle_step (?up @ ?dn)) (drop_duplicates (map cr_shape (?up @ ?dn))) None
      = Some (merge_left (map up_loc ?cs @ map dn_loc ?cs) (map branch_def ?cs @ map branch_def ?cs))"
    unfolding fold_circle_present [OF distinct_drop_duplicates shapes] circ set_circle_crs_def
    by (simp add: comp_def up_loc_def [abs_def] dn_loc_def [abs_def] branch_def_def [abs_def] circle_crsdef_up_dn)
  have u: "crosssections_up branches = Inr ?up"
    by (rule crosssections_up_rows) (rule ne)
  have dn: "crosssections_dn branches = Inr ?dn"
    by (rule crosssections_dn_rows) (rule ne)
  show ?thesis
    unfolding set_branch_crosssections_def u dn bind_err_Inr Let_def fold
    by simp
qed

lemma up_loc_neq_dn_loc: "0 < line_length (br_geometry b) \<Longrightarrow> up_loc b \<noteq> dn_loc b"
proof
  assume l: "0 < line_length (br_geometry b)" and e: "up_loc b = dn_loc b"
  from e have "crsloc_chainage (up_loc b) = crsloc_chainage (dn_loc b)" by simp
  then have "0 = line_length (br_geometry b)"
    by (simp add: up_loc_def dn_loc_def circle_definitionid_sel)
  with l show False by simp
qed

lemma line_length_pos_nonempty: "0 < line_length l \<Longrightarrow> l \<noteq> []"
  by (cases l) auto

lemma circle_branch_rows:
  assumes d: "distinct (map br_branchId branches)"
      and pos: "\<forall>x \<in> set branches. 0 < line_length (br_geometry x)"
      and b: "b \<in> set branches"
      and c: "br_shape b = ''circle''"
  shows "rows_of_branch (br_branchId b)
      (drop_duplicates (map final_row
        (merge_left
          (map up_loc (filter (\<lambda>b. br_shape b = ''circle'') branches)
             @ map dn_loc (filter (\<lambda>b. br_shape b = ''circle'') branches))
          (map branch_def (filter (\<lambda>b. br_shape b = ''circle'') branches)
             @ map branch_def (filter (\<lambda>b. br_shape b = ''circle'') branches)))))
      = [final_row (up_loc b, Some (branch_def b)), final_row (dn_loc b, Some (branch_def b))]"
proof -
  let ?cs = "filter (\<lambda>b. br_shape b = ''circle'') branches"
  let ?M = "merge_left (map up_loc ?cs @ map dn_loc ?cs) (map branch_def ?cs @ map branch_def ?cs)"
  have dcs: "distinct (map br_branchId ?cs)"
    using d by (rule distinct_map_filter)
  have bcs: "b \<in> set ?cs" using b c by simp
  have "rows_of_branch (br_branchId b) (drop_duplicates (map final_row ?M))
      = drop_duplicates (filter (\<lambda>r. crsloc_branchId (crs_loc r) = br_branchId b) (map final_row ?M))"
    by (simp add: rows_of_branch_def filter_drop_duplicates)
  also have "filter (\<lambda>r. crsloc_branchId (crs_loc r) = br_branchId b) (map final_row ?M)
      = map final_row (filter (\<lambda>(l, d). crsloc_branchId l = br_branchId b) ?M)"
    by (simp add: filter_map comp_def split_def final_row_def)
  also have "filter (\<lambda>(l, d). crsloc_branchId l = br_branchId b) ?M
      = [(up_loc b, Some (branch_def b)), (up_loc b, Some (branch_def b)),
         (dn_loc b, Some (branch_def b)), (dn_loc b, Some (branch_def b))]"
    unfolding filter_merge_left by (rule merge_left_branch [OF dcs bcs])
  also have "drop_duplicates (map final_row
        [(up_loc b, Some (branch_def b)), (up_loc b, Some (branch_def b)),
         (dn_loc b, Some (branch_def b)), (dn_loc b, Some (branch_def b))])
      = [final_row (up_loc b, Some (branch_def b)), final_row (dn_loc b, Some (branch_def b))]"
    using up_loc_neq_dn_loc [of b] pos b by (auto simp: final_row_def)
  finally show ?thesis .
qed

lemma loc_branchId:
  "crsloc_branchId (up_loc x) = br_branchId x" "crsloc_branchId (dn_loc x) = br_branchId x"
  by (simp_all add: up_loc_def dn_loc_def circle_definitionid_sel)

lemma other_branch_no_rows:
  assumes d: "distinct (map br_branchId branches)"
      and b: "b \<in> set branches"
      and c: "br_shape b \<noteq> ''circle''"
  shows "rows_of_branch (br_branchId b)
      (drop_duplicates (map final_row
        (merge_left
          (map up_loc (filter (\<lambda>b. br_shape b = ''circle'') branches)
             @ map dn_loc (filter (\<lambda>b. br_shape b = ''circle'') branches))
          ds))) = []"
proof -
  let ?cs = "filter (\<lambda>b. br_shape b = ''circle'') branches"
  let ?M = "merge_left (map up_loc ?cs @ map dn_loc ?cs) ds"
  have other: "\<And>x. x \<in> set ?cs \<Longrightarrow> br_branchId x \<noteq> br_branchId b"
  proof
    fix x assume x: "x \<in> set ?cs" and e: "br_branchId x = br_branchId b"
    from x have "x \<in> set branches" by simp
    with d b e have "x = b" by (simp add: distinct_map inj_on_def)
    with x c show False by simp
  qed
  have "rows_of_branch (br_branchId b) (drop_duplicates (map final_row ?M))
      = drop_duplicates (filter (\<lambda>r. crsloc_branchId (crs_loc r) = br_branchId b) (map final_row ?M))"
    by (simp add: rows_of_branch_def filter_drop_duplicates)
  also have "filter (\<lambda>r. crsloc_branchId (crs_loc r) = br_branchId b) (map final_row ?M)
      = map final_row (filter (\<lambda>(l, d). crsloc_branchId l = br_branchId b) ?M)"
    by (simp add: filter_map comp_def split_def final_row_def)
  also have "filter (\<lambda>(l, d). crsloc_branchId l = br_branchId b) ?M = []"
    unfolding filter_merge_left using other by (simp add: filter_empty_conv loc_branchId)
  finally show ?thesis by simp
qed

lemma no_circle_KeyError:
  assumes ne: "\<And>b. b \<in> set branches \<Longrightarrow> br_geometry b \<noteq> []"
      and c: "\<not> (\<exists>b \<in> set branches. br_shape b = ''circle'')"
  shows "set_branch_crosssections branches = Inl (KeyError ''crsdef_closed'')"
proof -
  let ?up = "map (\<lambda>b. up_row b (hd (br_geometry b))) branches"
  let ?dn = "map (\<lambda>b. dn_row b (hd (br_geometry b))) branches"
  have u: "crosssections_up branches = Inr ?up"
    by (rule crosssections_up_rows) (rule ne)
  have dn: "crosssections_dn branches = Inr ?dn"
    by (rule crosssections_dn_rows) (rule ne)
  have "''circle'' \<notin> br_shape ` set branches" using c by force
  then have "''circle'' \<notin> set (drop_duplicates (map cr_shape (?up @ ?dn)))"
    by (simp add: image_Un image_image)
  then have "fold (circle_step (?up @ ?dn)) (drop_duplicates (map cr_shape (?up @ ?dn))) None = None"
    by (rule fold_circle_absent)
  then show ?thesis
    unfolding set_branch_crosssections_def u dn bind_err_Inr Let_def by simp
qed

text \<open>
  C3, amended. Take a table with pairwise distinct \<open>branchId\<close>s and lines of positive
  length. When it holds a branch of shape \<open>circle\<close>, the call returns; every branch of
  shape \<open>circle\<close> has exactly two location rows in the result, the first with chainage 0
  and shift \<open>invlev_up\<close>, the second with chainage the length of the line and shift
  \<open>invlev_dn\<close>; a branch of any other shape has no row. When the table holds no branch of
  shape \<open>circle\<close>, the call raises KeyError on the column \<open>crsdef_closed\<close>.
\<close>

theorem set_branch_crosssections_circle_two_rows:
  assumes d: "distinct (map br_branchId branches)"
      and pos: "\<forall>x \<in> set branches. 0 < line_length (br_geometry x)"
  shows "if \<exists>b \<in> set branches. br_shape b = ''circle''
     then \<exists>rows. set_branch_crosssections branches = Inr rows
       \<and> (\<forall>b \<in> set branches.
            if br_shape b = ''circle''
            then \<exists>r_up r_dn. rows_of_branch (br_branchId b) rows = [r_up, r_dn]
              \<and> crsloc_chainage (crs_loc r_up) = 0
              \<and> crsloc_shift (crs_loc r_up) = br_invlev_up b
              \<and> crsloc_chainage (crs_loc r_dn) = line_length (br_geometry b)
              \<and> crsloc_shift (crs_loc r_dn) = br_invlev_dn b
            else rows_of_branch (br_branchId b) rows = [])
     else set_branch_crosssections branches = Inl (KeyError ''crsdef_closed'')"
proof (cases "\<exists>b \<in> set branches. br_shape b = ''circle''")
  case False
  have ne: "\<And>x. x \<in> set branches \<Longrightarrow> br_geometry x \<noteq> []"
    using pos line_length_pos_nonempty by blast
  from ne False have "set_branch_crosssections branches = Inl (KeyError ''crsdef_closed'')"
    by (rule no_circle_KeyError)
  with False show ?thesis by simp
next
  case True
  let ?cs = "filter (\<lambda>b. br_shape b = ''circle'') branches"
  let ?M = "merge_left (map up_loc ?cs @ map dn_loc ?cs) (map branch_def ?cs @ map branch_def ?cs)"
  let ?rows = "drop_duplicates (map final_row ?M)"
  have ne: "\<And>x. x \<in> set branches \<Longrightarrow> br_geometry x \<noteq> []"
    using pos line_length_pos_nonempty by blast
  have res: "set_branch_crosssections branches = Inr ?rows"
    using ne True by (rule set_branch_crosssections_rows)
  have each: "\<forall>b \<in> set branches.
            if br_shape b = ''circle''
            then \<exists>r_up r_dn. rows_of_branch (br_branchId b) ?rows = [r_up, r_dn]
              \<and> crsloc_chainage (crs_loc r_up) = 0
              \<and> crsloc_shift (crs_loc r_up) = br_invlev_up b
              \<and> crsloc_chainage (crs_loc r_dn) = line_length (br_geometry b)
              \<and> crsloc_shift (crs_loc r_dn) = br_invlev_dn b
            else rows_of_branch (br_branchId b) ?rows = []"
  proof
    fix b assume b: "b \<in> set branches"
    show "if br_shape b = ''circle''
            then \<exists>r_up r_dn. rows_of_branch (br_branchId b) ?rows = [r_up, r_dn]
              \<and> crsloc_chainage (crs_loc r_up) = 0
              \<and> crsloc_shift (crs_loc r_up) = br_invlev_up b
              \<and> crsloc_chainage (crs_loc r_dn) = line_length (br_geometry b)
              \<and> crsloc_shift (crs_loc r_dn) = br_invlev_dn b
            else rows_of_branch (br_branchId b) ?rows = []"
    proof (cases "br_shape b = ''circle''")
      case False
      with other_branch_no_rows [OF d b False] show ?thesis by simp
    next
      case c: True
      have "\<exists>r_up r_dn. rows_of_branch (br_branchId b) ?rows = [r_up, r_dn]
              \<and> crsloc_chainage (crs_loc r_up) = 0
              \<and> crsloc_shift (crs_loc r_up) = br_invlev_up b
              \<and> crsloc_chainage (crs_loc r_dn) = line_length (br_geometry b)
              \<and> crsloc_shift (crs_loc r_dn) = br_invlev_dn b"
        by (intro exI conjI, rule circle_branch_rows [OF d pos b c])
           (simp_all add: up_loc_def dn_loc_def circle_definitionid_sel)
      with c show ?thesis by simp
    qed
  qed
  from res each have "\<exists>rows. set_branch_crosssections branches = Inr rows
       \<and> (\<forall>b \<in> set branches.
            if br_shape b = ''circle''
            then \<exists>r_up r_dn. rows_of_branch (br_branchId b) rows = [r_up, r_dn]
              \<and> crsloc_chainage (crs_loc r_up) = 0
              \<and> crsloc_shift (crs_loc r_up) = br_invlev_up b
              \<and> crsloc_chainage (crs_loc r_dn) = line_length (br_geometry b)
              \<and> crsloc_shift (crs_loc r_dn) = br_invlev_dn b
            else rows_of_branch (br_branchId b) rows = [])"
    by blast
  with True show ?thesis by simp
qed

lemma format_examples:
  "format_f True 3 (1/2) = ''0.500''"
  "format_f False 2 0 = ''0.00''"
  "format_f False 2 100 = ''100.00''"
  by (simp_all add: format_f_def round_half_even_def str_nat.simps group3_def Let_def)

lemma line_length_examples:
  "line_length (br_geometry pipe_circle) = 100"
  "line_length (br_geometry pipe_rectangle) = 50"
  by (simp_all add: pipe_circle_def pipe_rectangle_def hypot_zero_right)

lemma two_pipes_result: "set_branch_crosssections [pipe_circle, pipe_rectangle] = Inr two_pipes_rows"
proof -
  have s: "br_shape pipe_circle = ''circle''" "br_shape pipe_rectangle = ''rectangle''"
    by (simp_all add: pipe_circle_def pipe_rectangle_def)
  have ne: "\<And>b. b \<in> set [pipe_circle, pipe_rectangle] \<Longrightarrow> br_geometry b \<noteq> []"
    by (auto simp: pipe_circle_def pipe_rectangle_def)
  have c: "\<exists>b \<in> set [pipe_circle, pipe_rectangle]. br_shape b = ''circle''"
    by (simp add: s)
  have u: "up_loc pipe_circle = crs_loc (two_pipes_rows ! 0)"
    by (simp add: up_loc_def circle_crsloc_def circle_definitionid_sel up_row_def
        format_examples two_pipes_rows_def pipe_circle_def)
  have d: "dn_loc pipe_circle = crs_loc (two_pipes_rows ! 1)"
    using line_length_examples(1)
    by (simp add: dn_loc_def circle_crsloc_def circle_definitionid_sel
        format_examples two_pipes_rows_def dn_row_def pipe_circle_def)
  have f: "replace_closed (branch_def pipe_circle) = circle_def_row"
    by (simp add: branch_def_def circle_crsdef_def circle_definitionid_sel up_row_def
        format_examples replace_closed_def circle_def_row_def pipe_circle_def)
  have ud: "up_loc pipe_circle \<noteq> dn_loc pipe_circle"
    by (rule up_loc_neq_dn_loc) (simp add: line_length_examples)
  have m: "merge_left [up_loc pipe_circle, dn_loc pipe_circle] [branch_def pipe_circle, branch_def pipe_circle]
      = [(up_loc pipe_circle, Some (branch_def pipe_circle)), (up_loc pipe_circle, Some (branch_def pipe_circle)),
         (dn_loc pipe_circle, Some (branch_def pipe_circle)), (dn_loc pipe_circle, Some (branch_def pipe_circle))]"
    by (simp add: merge_left_def Let_def)
       (simp add: up_loc_def dn_loc_def branch_def_def circle_definitionid_sel)
  have r: "set_branch_crosssections [pipe_circle, pipe_rectangle] =
     Inr (drop_duplicates (map final_row
       (merge_left [up_loc pipe_circle, dn_loc pipe_circle]
          [branch_def pipe_circle, branch_def pipe_circle])))"
    using set_branch_crosssections_rows [of "[pipe_circle, pipe_rectangle]"] ne c
    by (simp add: s)
  show ?thesis
    unfolding r m using ud by (simp add: final_row_def u d f two_pipes_rows_def)
qed

text \<open>
  C3 as stated fails: the shape loop handles \<open>circle\<close> only, so the rectangular pipe of
  this table has no row in the result, which holds the two rows of the circular pipe.
\<close>

theorem set_branch_crosssections_rectangle_no_rows:
  "set_branch_crosssections [pipe_circle, pipe_rectangle] = Inr two_pipes_rows
   \<and> pipe_rectangle \<in> set [pipe_circle, pipe_rectangle]
   \<and> rows_of_branch (br_branchId pipe_rectangle) two_pipes_rows = []"
  by (simp add: two_pipes_result)
     (simp add: rows_of_branch_def two_pipes_rows_def pipe_rectangle_def)

text \<open>The amended C3 at the table of the circular and the rectangular pipe, and at the
  table of the rectangular pipe alone.\<close>

theorem set_branch_crosssections_circle_two_rows_witness:
  "distinct (map br_branchId [pipe_circle, pipe_rectangle])
   \<and> list_all (\<lambda>x. 0 < line_length (br_geometry x)) [pipe_circle, pipe_rectangle]
   \<and> br_shape pipe_circle = ''circle''
   \<and> br_shape pipe_rectangle = ''rectangle''
   \<and> (\<exists>rows r_up r_dn.
        set_branch_crosssections [pipe_circle, pipe_rectangle] = Inr rows
      \<and> rows_of_branch ''p1'' rows = [r_up, r_dn]
      \<and> crsloc_chainage (crs_loc r_up) = 0
      \<and> crsloc_shift (crs_loc r_up) = -2
      \<and> crsloc_chainage (crs_loc r_dn) = 100
      \<and> crsloc_shift (crs_loc r_dn) = -23/10
      \<and> rows_of_branch ''p2'' rows = [])
   \<and> set_branch_crosssections [pipe_rectangle] = Inl (KeyError ''crsdef_closed'')"
proof -
  have d: "distinct (map br_branchId [pipe_circle, pipe_rectangle])"
    by (simp add: pipe_circle_def pipe_rectangle_def)
  have pos: "\<forall>x \<in> set [pipe_circle, pipe_rectangle]. 0 < line_length (br_geometry x)"
    by (simp add: line_length_examples)
  have c: "br_shape pipe_circle = ''circle''" by (simp add: pipe_circle_def)
  have r: "br_shape pipe_rectangle = ''rectangle''" by (simp add: pipe_rectangle_def)
  have v: "br_branchId pipe_circle = ''p1''" "br_invlev_up pipe_circle = -2"
    "br_invlev_dn pipe_circle = -23/10" "br_branchId pipe_rectangle = ''p2''"
    by (simp_all add: pipe_circle_def pipe_rectangle_def)
  have two: "\<exists>rows r_up r_dn.
        set_branch_crosssections [pipe_circle, pipe_rectangle] = Inr rows
      \<and> rows_of_branch ''p1'' rows = [r_up, r_dn]
      \<and> crsloc_chainage (crs_loc r_up) = 0
      \<and> crsloc_shift (crs_loc r_up) = -2
      \<and> crsloc_chainage (crs_loc r_dn) = 100
      \<and> crsloc_shift (crs_loc r_dn) = -23/10
      \<and> rows_of_branch ''p2'' rows = []"
    using set_branch_crosssections_circle_two_rows [OF d pos]
    by (simp add: c r v line_length_examples) blast
  have d1: "distinct (map br_branchId [pipe_rectangle])" by simp
  have pos1: "\<forall>x \<in> set [pipe_rectangle]. 0 < line_length (br_geometry x)"
    by (simp add: line_length_examples)
  have one: "set_branch_crosssections [pipe_rectangle] = Inl (KeyError ''crsdef_closed'')"
    using set_branch_crosssections_circle_two_rows [OF d1 pos1] by (simp add: r)
  from d pos c r two one show ?thesis by (simp add: list_all_iff)
qed

lemma merge_left_fst: "p \<in> set (merge_left ls ds) \<Longrightarrow> fst p \<in> set ls"
  by (induction ls) (auto simp: merge_left_def Let_def split: if_splits)

lemma fold_circle_rows:
  "fold (circle_step cs) ss None = Some rows \<Longrightarrow> p \<in> set rows \<Longrightarrow>
   fst p \<in> circle_crsloc ` circle_definitionid ` set cs"
proof -
  have g: "\<And>acc. (\<And>q. acc = Some q \<Longrightarrow> fst ` set q \<subseteq> circle_crsloc ` circle_definitionid ` set cs)
      \<Longrightarrow> fold (circle_step cs) ss acc = Some rows
      \<Longrightarrow> fst ` set rows \<subseteq> circle_crsloc ` circle_definitionid ` set cs"
  proof (induction ss)
    case Nil
    then show ?case by simp
  next
    case (Cons s ss)
    have "\<And>q. circle_step cs s acc = Some q \<Longrightarrow>
        fst ` set q \<subseteq> circle_crsloc ` circle_definitionid ` set cs"
    proof -
      fix q assume q: "circle_step cs s acc = Some q"
      show "fst ` set q \<subseteq> circle_crsloc ` circle_definitionid ` set cs"
      proof (cases "s = ''circle''")
        case False
        with q Cons.prems(1) show ?thesis by (simp add: circle_step_def)
      next
        case True
        have m: "fst ` set (set_circle_crs (map circle_definitionid
                    (filter (\<lambda>r. cr_shape r = s) cs)))
              \<subseteq> circle_crsloc ` circle_definitionid ` set cs"
          unfolding set_circle_crs_def by (auto dest!: merge_left_fst)
        have a: "fst ` set (case acc of None \<Rightarrow> [] | Some rows \<Rightarrow> rows)
              \<subseteq> circle_crsloc ` circle_definitionid ` set cs"
          using Cons.prems(1) by (cases acc) simp_all
        from q True have "q = (case acc of None \<Rightarrow> [] | Some rows \<Rightarrow> rows)
              @ set_circle_crs (map circle_definitionid (filter (\<lambda>r. cr_shape r = s) cs))"
          by (simp add: circle_step_def)
        with m a show ?thesis by (simp add: image_Un)
      qed
    qed
    then show ?case using Cons.IH [of "circle_step cs s acc"] Cons.prems(2) by simp
  qed
  assume "fold (circle_step cs) ss None = Some rows" and "p \<in> set rows"
  with g [of None] show ?thesis by auto
qed

text \<open>
  C10, amended. For every branch (lines with at least one coordinate), the row in
  \<open>crosssections_up\<close> and the row in \<open>crosssections_dn\<close> both carry the first coordinate of
  the branch line as geometry, and the downstream row has the full length as chainage; so
  the downstream geometry differs from the last coordinate of the line whenever the line's
  first and last coordinates differ. Every location row the function returns has as
  geometry the first coordinate of the line of a branch with its \<open>branchId\<close>.
\<close>

theorem set_branch_crosssections_geometry_first_coordinate:
  assumes ne: "\<forall>b \<in> set branches. br_geometry b \<noteq> []"
  shows "\<exists>ups dns. crosssections_up branches = Inr ups \<and> crosssections_dn branches = Inr dns
     \<and> map cr_geometry ups = map (\<lambda>b. hd (br_geometry b)) branches
     \<and> map cr_geometry dns = map (\<lambda>b. hd (br_geometry b)) branches
     \<and> map cr_branch_offset dns = map (\<lambda>b. line_length (br_geometry b)) branches
     \<and> (\<forall>i < length branches.
           hd (br_geometry (branches ! i)) \<noteq> last (br_geometry (branches ! i))
           \<longrightarrow> cr_geometry (dns ! i) \<noteq> last (br_geometry (branches ! i)))
     \<and> (\<forall>rows. set_branch_crosssections branches = Inr rows \<longrightarrow>
          (\<forall>r \<in> set rows. \<exists>b \<in> set branches.
             crsloc_branchId (crs_loc r) = br_branchId b
             \<and> crsloc_geometry (crs_loc r) = hd (br_geometry b)))"
proof -
  let ?up = "map (\<lambda>b. up_row b (hd (br_geometry b))) branches"
  let ?dn = "map (\<lambda>b. dn_row b (hd (br_geometry b))) branches"
  have u: "crosssections_up branches = Inr ?up"
    using ne by (intro crosssections_up_rows) simp
  have d: "crosssections_dn branches = Inr ?dn"
    using ne by (intro crosssections_dn_rows) simp
  have rows: "\<exists>b \<in> set branches. crsloc_branchId (crs_loc r) = br_branchId b
             \<and> crsloc_geometry (crs_loc r) = hd (br_geometry b)"
    if res: "set_branch_crosssections branches = Inr rows" and r: "r \<in> set rows" for rows r
  proof -
    from res obtain ms where f: "fold (circle_step (?up @ ?dn))
        (drop_duplicates (map cr_shape (?up @ ?dn))) None = Some ms"
      and rs: "rows = drop_duplicates (map final_row ms)"
      unfolding set_branch_crosssections_def u d bind_err_Inr Let_def
      by (auto split: option.splits)
    from r rs obtain p where p: "p \<in> set ms" and rp: "r = final_row p" by auto
    from fold_circle_rows [OF f p]
    obtain c where c: "c \<in> set (?up @ ?dn)" and l: "fst p = circle_crsloc (circle_definitionid c)"
      by auto
    from c obtain b where b: "b \<in> set branches"
      and cb: "c = up_row b (hd (br_geometry b)) \<or> c = dn_row b (hd (br_geometry b))"
      by auto
    have "crs_loc r = fst p" using rp by (cases p) simp
    with l cb have "crsloc_branchId (crs_loc r) = br_branchId b
             \<and> crsloc_geometry (crs_loc r) = hd (br_geometry b)"
      by (auto simp: circle_definitionid_sel)
    with b show ?thesis by blast
  qed
  show ?thesis
    unfolding u d using rows by (simp add: comp_def)
qed

lemma set_branch_crosssections_single_circle:
  assumes ne: "\<And>x. x \<in> set branches \<Longrightarrow> br_geometry x \<noteq> []"
      and f: "filter (\<lambda>b. br_shape b = ''circle'') branches = [b]"
      and pos: "0 < line_length (br_geometry b)"
  shows "set_branch_crosssections branches =
     Inr [final_row (up_loc b, Some (branch_def b)), final_row (dn_loc b, Some (branch_def b))]"
proof -
  have "b \<in> set (filter (\<lambda>b. br_shape b = ''circle'') branches)" by (simp add: f)
  then have c: "\<exists>b \<in> set branches. br_shape b = ''circle''" by auto
  have m: "merge_left [up_loc b, dn_loc b] [branch_def b, branch_def b]
      = [(up_loc b, Some (branch_def b)), (up_loc b, Some (branch_def b)),
         (dn_loc b, Some (branch_def b)), (dn_loc b, Some (branch_def b))]"
    by (simp add: merge_left_def Let_def)
       (simp add: up_loc_def dn_loc_def branch_def_def circle_definitionid_sel)
  have ud: "up_loc b \<noteq> dn_loc b" using pos by (rule up_loc_neq_dn_loc)
  have r: "set_branch_crosssections branches =
     Inr (drop_duplicates (map final_row
       (merge_left [up_loc b, dn_loc b] [branch_def b, branch_def b])))"
    using set_branch_crosssections_rows [of branches] ne c by (simp add: f)
  show ?thesis
    unfolding r m using ud by (simp add: final_row_def)
qed

lemma format_12: "format_f False 2 12 = ''12.00''"
  by (simp add: format_f_def round_half_even_def str_nat.simps Let_def)

lemma line_length_ring: "line_length (br_geometry pipe_ring) = 12"
proof -
  have "hypot 3 4 = sqrt (5\<^sup>2)" by (simp add: hypot_def)
  then have "hypot 3 4 = 5" by simp
  then show ?thesis by (simp add: pipe_ring_def hypot_zero_right hypot_def)
qed

lemma ring_result: "set_branch_crosssections [pipe_ring] = Inr ring_rows"
proof -
  have ne: "\<And>x. x \<in> set [pipe_ring] \<Longrightarrow> br_geometry x \<noteq> []"
    by (simp add: pipe_ring_def)
  have f: "filter (\<lambda>b. br_shape b = ''circle'') [pipe_ring] = [pipe_ring]"
    by (simp add: pipe_ring_def)
  have pos: "0 < line_length (br_geometry pipe_ring)" by (simp add: line_length_ring)
  have u: "up_loc pipe_ring = crs_loc (ring_rows ! 0)"
    by (simp add: up_loc_def circle_crsloc_def circle_definitionid_sel up_row_def
        format_examples ring_rows_def pipe_ring_def)
  have d: "dn_loc pipe_ring = crs_loc (ring_rows ! 1)"
    using line_length_ring
    by (simp add: dn_loc_def circle_crsloc_def circle_definitionid_sel
        format_12 format_examples ring_rows_def dn_row_def pipe_ring_def)
  have r: "replace_closed (branch_def pipe_ring) = circle_def_row\<lparr>crsdef_branchId := ''p3''\<rparr>"
    by (simp add: branch_def_def circle_crsdef_def circle_definitionid_sel up_row_def
        format_examples replace_closed_def circle_def_row_def pipe_ring_def)
  have "set_branch_crosssections [pipe_ring] =
     Inr [final_row (up_loc pipe_ring, Some (branch_def pipe_ring)),
          final_row (dn_loc pipe_ring, Some (branch_def pipe_ring))]"
    using ne f pos by (rule set_branch_crosssections_single_circle)
  then show ?thesis
    by (simp add: final_row_def u d r ring_rows_def)
qed

text \<open>
  C10 as stated fails on a closed line: the first coordinate is the last one too, so the
  geometry of the downstream row (chainage 12) is the downstream endpoint of the branch.
\<close>

theorem set_branch_crosssections_ring_geometry_is_endpoint:
  "set_branch_crosssections [pipe_ring] = Inr ring_rows
   \<and> map (\<lambda>r. crsloc_chainage (crs_loc r)) ring_rows = [0, 12]
   \<and> map (\<lambda>r. crsloc_geometry (crs_loc r)) ring_rows = [(0, 0), (0, 0)]
   \<and> last (br_geometry pipe_ring) = (0, 0)"
  by (simp add: ring_result) (simp add: ring_rows_def pipe_ring_def)

text \<open>The amended C10 at the table of the circular and the rectangular pipe.\<close>

theorem set_branch_crosssections_geometry_first_coordinate_witness:
  "list_all (\<lambda>b. br_geometry b \<noteq> []) [pipe_circle, pipe_rectangle]
   \<and> (\<exists>ups dns. crosssections_up [pipe_circle, pipe_rectangle] = Inr ups
        \<and> crosssections_dn [pipe_circle, pipe_rectangle] = Inr dns
        \<and> map cr_geometry ups = [(0, 0), (0, 0)]
        \<and> map cr_geometry dns = [(0, 0), (0, 0)]
        \<and> map cr_branch_offset dns = [100, 50]
        \<and> cr_geometry (dns ! 0) \<noteq> (100, 0))"
proof -
  have ne: "\<forall>b \<in> set [pipe_circle, pipe_rectangle]. br_geometry b \<noteq> []"
    by (simp add: pipe_circle_def pipe_rectangle_def)
  have g: "hd (br_geometry pipe_circle) = (0, 0)" "hd (br_geometry pipe_rectangle) = (0, 0)"
    "last (br_geometry pipe_circle) = (100, 0)"
    by (simp_all add: pipe_circle_def pipe_rectangle_def)
  from set_branch_crosssections_geometry_first_coordinate [OF ne]
  obtain ups dns where r: "crosssections_up [pipe_circle, pipe_rectangle] = Inr ups"
      "crosssections_dn [pipe_circle, pipe_rectangle] = Inr dns"
      "map cr_geometry ups = map (\<lambda>b. hd (br_geometry b)) [pipe_circle, pipe_rectangle]"
      "map cr_geometry dns = map (\<lambda>b. hd (br_geometry b)) [pipe_circle, pipe_rectangle]"
      "map cr_branch_offset dns = map (\<lambda>b. line_length (br_geometry b)) [pipe_circle, pipe_rectangle]"
    and i: "\<forall>i < length [pipe_circle, pipe_rectangle].
           hd (br_geometry ([pipe_circle, pipe_rectangle] ! i))
             \<noteq> last (br_geometry ([pipe_circle, pipe_rectangle] ! i))
           \<longrightarrow> cr_geometry (dns ! i) \<noteq> last (br_geometry ([pipe_circle, pipe_rectangle] ! i))"
    by blast
  from i [rule_format, of 0] have "cr_geometry (dns ! 0) \<noteq> (100, 0)"
    by (simp add: g)
  with r ne show ?thesis
    by (simp add: g line_length_examples list_all_iff)
qed

subsection \<open>set_xyz_crosssections: the order of the survey points\<close>

lemma survey_order:
  "set_xyz_crosssections_lines survey =
     Inr [\<lparr>xl_geometry = [(10, 0), (0, 0)], xl_l = [0, 10], xl_index = 7,
           xl_x = [10, 0], xl_y = [0, 0], xl_z = [5, 4]\<rparr>]"
  by (simp add: set_xyz_crosssections_lines_def groupby_level0_def survey_def xyzp2xyzl_def
      lower_def lower_char_def sort_values_def xyz_columns_def sort_column_def LineString_def
      arc_lengths_def hypot_zero_right bind_err_def)

lemma survey_default:
  "xyzp2xyzl_default survey =
     Inr \<lparr>xl_geometry = [(0, 0), (10, 0)], xl_l = [0, 10], xl_index = 7,
           xl_x = [0, 10], xl_y = [0, 0], xl_z = [4, 5]\<rparr>"
  by (simp add: xyzp2xyzl_default_def survey_def xyzp2xyzl_def
      lower_def lower_char_def sort_values_def xyz_columns_def sort_column_def LineString_def
      arc_lengths_def hypot_zero_right bind_err_def)

lemma map_err_map:
  "(\<And>k. k \<in> set ks \<Longrightarrow> f (h k) = Inr (g k)) \<Longrightarrow> map_err f (map h ks) = Inr (map g ks)"
  by (induction ks) simp_all

lemma drop_duplicates_constant:
  "xs \<noteq> [] \<Longrightarrow> \<forall>x \<in> set xs. x = k \<Longrightarrow> drop_duplicates xs = [k]"
proof (induction xs)
  case Nil
  then show ?case by simp
next
  case (Cons x xs)
  then have "filter (\<lambda>y. y \<noteq> x) xs = []" by (auto simp: filter_empty_conv)
  with Cons.prems show ?case by simp
qed

lemma sort_values_order: "sort_values [''order''] rows = Inr (sort_key xyz_order rows)"
  by (simp add: sort_values_def xyz_columns_def sort_column_def)

lemma lower_order: "lower ''order'' = ''order''"
  by (simp add: lower_def lower_char_def)

lemma xyzp2xyzl_group:
  assumes "2 \<le> length (filter (\<lambda>r. fst r = k) tbl)"
  shows "xyzp2xyzl (filter (\<lambda>r. fst r = k) tbl) [''order''] = Inr (order_line tbl k)"
proof -
  let ?g = "filter (\<lambda>r. fst r = k) tbl"
  have ne: "map fst ?g \<noteq> []" using assms by auto
  have "drop_duplicates (map fst ?g) = [k]"
    using ne by (rule drop_duplicates_constant) auto
  moreover have "length (sort_key xyz_order (map snd ?g)) \<noteq> 1"
    using assms by simp
  ultimately show ?thesis
    by (simp add: xyzp2xyzl_def lower_order sort_values_order LineString_def order_line_def Let_def)
qed

text \<open>
  C1, amended. When every group has at least two points (a line of one point is refused),
  the groups are converted one by one, the labels ascending, and the points of every group
  are joined into the profile line in the order of the column \<open>order\<close>: the line, and the
  lists \<open>x\<close>, \<open>y\<close>, \<open>z\<close>, come from one arrangement of the group's points whose \<open>order\<close>
  values ascend.
\<close>

theorem set_xyz_crosssections_sorted_by_order:
  assumes "\<forall>k \<in> fst ` set crosssections. 2 \<le> length (filter (\<lambda>r. fst r = k) crosssections)"
  shows "\<exists>lines. set_xyz_crosssections_lines crosssections = Inr lines
     \<and> map xl_index lines = sort (drop_duplicates (map fst crosssections))
     \<and> list_all (\<lambda>L. \<exists>ps.
            mset ps = mset (map snd (filter (\<lambda>r. fst r = xl_index L) crosssections))
          \<and> sorted (map xyz_order ps)
          \<and> xl_geometry L = map (\<lambda>p. (xyz_x p, xyz_y p)) ps
          \<and> xl_x L = map xyz_x ps \<and> xl_y L = map xyz_y ps \<and> xl_z L = map xyz_z ps) lines"
proof -
  let ?keys = "sort (drop_duplicates (map fst crosssections))"
  have res: "set_xyz_crosssections_lines crosssections = Inr (map (order_line crosssections) ?keys)"
    unfolding set_xyz_crosssections_lines_def groupby_level0_def
  proof (rule map_err_map)
    fix k assume "k \<in> set ?keys"
    then have "k \<in> fst ` set crosssections" by simp
    with assms have "2 \<le> length (filter (\<lambda>r. fst r = k) crosssections)" by blast
    then show "xyzp2xyzl (filter (\<lambda>r. fst r = k) crosssections) [''order'']
        = Inr (order_line crosssections k)"
      by (rule xyzp2xyzl_group)
  qed
  have idx: "map xl_index (map (order_line crosssections) ?keys) = ?keys"
    by (simp add: comp_def order_line_def Let_def)
  have each: "list_all (\<lambda>L. \<exists>ps.
            mset ps = mset (map snd (filter (\<lambda>r. fst r = xl_index L) crosssections))
          \<and> sorted (map xyz_order ps)
          \<and> xl_geometry L = map (\<lambda>p. (xyz_x p, xyz_y p)) ps
          \<and> xl_x L = map xyz_x ps \<and> xl_y L = map xyz_y ps \<and> xl_z L = map xyz_z ps)
        (map (order_line crosssections) ?keys)"
    unfolding list_all_iff
  proof
    fix L assume "L \<in> set (map (order_line crosssections) ?keys)"
    then obtain k where L: "L = order_line crosssections k" by auto
    let ?ps = "sort_key xyz_order (map snd (filter (\<lambda>r. fst r = k) crosssections))"
    have "mset ?ps = mset (map snd (filter (\<lambda>r. fst r = xl_index L) crosssections))"
      by (simp add: L order_line_def Let_def)
    moreover have "sorted (map xyz_order ?ps)" by simp
    ultimately show "\<exists>ps.
            mset ps = mset (map snd (filter (\<lambda>r. fst r = xl_index L) crosssections))
          \<and> sorted (map xyz_order ps)
          \<and> xl_geometry L = map (\<lambda>p. (xyz_x p, xyz_y p)) ps
          \<and> xl_x L = map xyz_x ps \<and> xl_y L = map xyz_y ps \<and> xl_z L = map xyz_z ps"
      by (intro exI [of _ ?ps]) (simp add: L order_line_def Let_def)
  qed
  show ?thesis
    using res idx each by blast
qed

text \<open>
  C1 as stated fails: the line of this group starts at the point with \<open>order\<close> 1, at
  \<open>x = 10\<close>, and ends at \<open>x = 0\<close>; the order by \<open>(x, y)\<close>, which \<open>xyzp2xyzl\<close> takes by
  default, is the reverse.
\<close>

theorem set_xyz_crosssections_not_sorted_by_xy:
  "set_xyz_crosssections_lines survey =
     Inr [\<lparr>xl_geometry = [(10, 0), (0, 0)], xl_l = [0, 10], xl_index = 7,
           xl_x = [10, 0], xl_y = [0, 0], xl_z = [5, 4]\<rparr>]
   \<and> xyzp2xyzl_default survey =
     Inr \<lparr>xl_geometry = [(0, 0), (10, 0)], xl_l = [0, 10], xl_index = 7,
           xl_x = [0, 10], xl_y = [0, 0], xl_z = [4, 5]\<rparr>"
  by (simp add: survey_order survey_default)

text \<open>The amended C1 at the two survey points.\<close>

theorem set_xyz_crosssections_sorted_by_order_witness:
  "list_all (\<lambda>k. 2 \<le> length (filter (\<lambda>r. fst r = k) survey)) (map fst survey)
   \<and> (\<exists>lines. set_xyz_crosssections_lines survey = Inr lines
        \<and> map xl_index lines = [7]
        \<and> list_all (\<lambda>L. \<exists>ps. mset ps = mset (map snd survey)
              \<and> sorted (map xyz_order ps)
              \<and> xl_geometry L = map (\<lambda>p. (xyz_x p, xyz_y p)) ps) lines)"
proof -
  have h: "\<forall>k \<in> fst ` set survey. 2 \<le> length (filter (\<lambda>r. fst r = k) survey)"
    by (simp add: survey_def)
  from set_xyz_crosssections_sorted_by_order [OF h]
  obtain lines where r: "set_xyz_crosssections_lines survey = Inr lines"
    and i: "map xl_index lines = sort (drop_duplicates (map fst survey))"
    and e: "list_all (\<lambda>L. \<exists>ps.
            mset ps = mset (map snd (filter (\<lambda>r. fst r = xl_index L) survey))
          \<and> sorted (map xyz_order ps)
          \<and> xl_geometry L = map (\<lambda>p. (xyz_x p, xyz_y p)) ps
          \<and> xl_x L = map xyz_x ps \<and> xl_y L = map xyz_y ps \<and> xl_z L = map xyz_z ps) lines"
    by blast
  have i7: "map xl_index lines = [7]" using i by (simp add: survey_def)
  then have all7: "\<forall>L \<in> set lines. xl_index L = 7"
    by (cases lines) auto
  have f7: "filter (\<lambda>r. fst r = 7) survey = survey" by (simp add: survey_def)
  have "list_all (\<lambda>L. \<exists>ps. mset ps = mset (map snd survey)
              \<and> sorted (map xyz_order ps)
              \<and> xl_geometry L = map (\<lambda>p. (xyz_x p, xyz_y p)) ps) lines"
    unfolding list_all_iff
  proof
    fix L assume L: "L \<in> set lines"
    with e obtain ps where "mset ps = mset (map snd (filter (\<lambda>r. fst r = xl_index L) survey))"
      "sorted (map xyz_order ps)" "xl_geometry L = map (\<lambda>p. (xyz_x p, xyz_y p)) ps"
      unfolding list_all_iff by blast
    with all7 L f7 show "\<exists>ps. mset ps = mset (map snd survey)
              \<and> sorted (map xyz_order ps)
              \<and> xl_geometry L = map (\<lambda>p. (xyz_x p, xyz_y p)) ps"
      by auto
  qed
  with r i7 h show ?thesis by (auto simp: list_all_iff)
qed

subsection \<open>setup_pipes: explicit invert levels\<close>

lemma pipe_defaults_example:
  "pipe_defaults pipes_defaults_csv 50 ''WhiteColebrook'' (3/1000) ''circle'' (CsFloat (1/2))
   = Some [(''pipe'', [(''branchOrder'', Num (-1)), (''material'', Str ''concrete''),
        (''spacing'', Num 50), (''frictionType'', Str ''WhiteColebrook''),
        (''frictionValue'', Num (3/1000)), (''shape'', Str ''circle''),
        (''diameter'', Num (1/2))])]"
  by (simp add: pipe_defaults_def pipes_defaults_csv_def set_default_def)

text \<open>The column filter of line 584 lets no column \<open>invlev_dn\<close> through: the list spells it
  \<open>inlev_dn\<close>.\<close>

lemma allowed_columns_drop_invlev_dn:
  "(gdf_pipe |` (set allowed_columns \<inter> dom gdf_pipe)) ''invlev_dn'' = None"
  by (simp add: restrict_map_def allowed_columns_def)

lemma setup_pipes_ignores_invlev_dn:
  "setup_pipes (gdf_pipe(''invlev_dn'' \<mapsto> v)) defaults spacing ft fv shape val dem depth invlev
   = setup_pipes (gdf_pipe(''invlev_dn'' \<mapsto> w)) defaults spacing ft fv shape val dem depth invlev"
proof -
  have "(gdf_pipe(''invlev_dn'' \<mapsto> v)) |` (set allowed_columns \<inter> dom (gdf_pipe(''invlev_dn'' \<mapsto> v)))
      = (gdf_pipe(''invlev_dn'' \<mapsto> w)) |` (set allowed_columns \<inter> dom (gdf_pipe(''invlev_dn'' \<mapsto> w)))"
    by (rule ext) (auto simp: restrict_map_def allowed_columns_def)
  then show ?thesis
    by (simp add: setup_pipes_def nrows_def)
qed

text \<open>Line 674 reads the column \<open>diameter\<close>, which rectangular defaults do not give: the
  call raises before the pipes table is stored.\<close>

lemma setup_pipes_rectangle_KeyError:
  "setup_pipes pipes_source pipes_defaults_csv 50 ''WhiteColebrook'' (3/1000) ''rectangle''
     (CsList [1, 1]) None (-2) (-5/2) = Inl (KeyError ''diameter'')"
  apply (simp add: setup_pipes_def pipe_defaults_def pipes_defaults_csv_def set_default_def
      nrows_def pipes_source_def allowed_columns_def)
  apply (simp add: setup_branches_def update_data_columns_attributes_def fill_default_def
      restrict_map_def bind_err_def column_def)
  apply (simp add: setup_crosssections_def column_def first_coordinate_def coords0_def)
  done

text \<open>
  C2. The claim is what the docstring and the comment of line 636 promise, and the code
  breaks it: the source gives \<open>invlev_up = -1\<close> and \<open>invlev_dn = -1.5\<close> for its one pipe, with
  no null. With a terrain of elevation 10 the pipes table ends with both invert levels at
  \<open>10 - (-2) - 0.5 = 11.5\<close>; without a terrain the upstream level stays and the downstream
  level is the constant \<open>pipes_invlev = -2.5\<close>.
\<close>

theorem setup_pipes_overwrites_explicit_invert_levels:
  "invert_levels pipes_source = (Some [Num (-1)], Some [Num (-3/2)])
   \<and> map_sum id (map_option invert_levels)
       (setup_pipes pipes_source pipes_defaults_csv 50 ''WhiteColebrook'' (3/1000) ''circle''
          (CsFloat (1/2)) (Some ([10], [10])) (-2) (-5/2))
     = Inr (Some (Some [Num (23/2)], Some [Num (23/2)]))
   \<and> map_sum id (map_option invert_levels)
       (setup_pipes pipes_source pipes_defaults_csv 50 ''WhiteColebrook'' (3/1000) ''circle''
          (CsFloat (1/2)) None (-2) (-5/2))
     = Inr (Some (Some [Num (-1)], Some [Num (-5/2)]))"
proof -
  have src: "invert_levels pipes_source = (Some [Num (-1)], Some [Num (-3/2)])"
    by (simp add: invert_levels_def pipes_source_def)
  have dem: "map_sum id (map_option invert_levels)
       (setup_pipes pipes_source pipes_defaults_csv 50 ''WhiteColebrook'' (3/1000) ''circle''
          (CsFloat (1/2)) (Some ([10], [10])) (-2) (-5/2))
     = Inr (Some (Some [Num (23/2)], Some [Num (23/2)]))"
    apply (simp add: setup_pipes_def pipe_defaults_example nrows_def pipes_source_def
        allowed_columns_def)
    apply (simp add: setup_branches_def update_data_columns_attributes_def fill_default_def
        restrict_map_def bind_err_def column_def)
    apply (simp add: invert_levels_from_dem_def invert_levels_def invert_level_def
        conduit_size_def cell_at_def nrows_def)
    apply (simp add: setup_crosssections_def column_def first_coordinate_def coords0_def
        definitionid_def)
    apply (simp add: invert_levels_from_dem_def invert_levels_def invert_level_def
        conduit_size_def cell_at_def nrows_def)
    done
  have const: "map_sum id (map_option invert_levels)
       (setup_pipes pipes_source pipes_defaults_csv 50 ''WhiteColebrook'' (3/1000) ''circle''
          (CsFloat (1/2)) None (-2) (-5/2))
     = Inr (Some (Some [Num (-1)], Some [Num (-5/2)]))"
    apply (simp add: setup_pipes_def pipe_defaults_example nrows_def pipes_source_def
        allowed_columns_def)
    apply (simp add: setup_branches_def update_data_columns_attributes_def fill_default_def
        restrict_map_def bind_err_def column_def)
    apply (simp add: setup_crosssections_def column_def first_coordinate_def coords0_def
        definitionid_def invert_levels_def)
    done
  from src dem const show ?thesis by (intro conjI)
qed

subsection \<open>HisResults: the time frame\<close>

lemma amax_Max: "time \<noteq> [] \<Longrightarrow> amax time = Inr (Max (set time))"
  by (cases time) (simp_all add: amax_def fold_max_eq_Max del: set_simps)

lemma pandas_bounds_python:
  assumes "in_pandas_bounds d"
  shows "seconds (datetime_of 1 1 1 0 0 0) \<le> seconds d"
    and "seconds d \<le> seconds (datetime_of 9999 12 31 23 59 59)"
  using assms
  by (simp_all add: in_pandas_bounds_def datetime_of_def ymd2ord_def days_before_year_def
      days_before_month_def is_leap_def Let_def)

lemma make_timeframe_Int_dtype:
  assumes "parse_units units = Inr start" and "time \<noteq> []"
  shows "make_timeframe units Int_dtype time =
     Inl (TypeError ''unsupported type for timedelta seconds component'')"
  using assms by (simp add: make_timeframe_def amax_Max timedelta_seconds_def)

text \<open>
  C6, amended. Let the units parse to a start within the range of pandas, let the
  variable hold at least two values, whole numbers of seconds, with a positive first step
  and a largest value that is not negative. When the variable is stored as floating-point
  numbers, the reader returns the index of the instants \<open>start + k * step\<close>,
  \<open>k = 0, 1, ...\<close>, up to the last one that is not later than \<open>start + max\<close>: it starts at
  the parsed datetime, the step is the difference of the first two values, and it ends at
  \<open>start + max\<close> when the step divides the largest value. When the variable is stored as
  integers, the reader raises TypeError and builds no index.
\<close>

theorem make_timeframe_index:
  assumes units: "parse_units units = Inr start"
      and two: "2 \<le> length time"
      and step: "0 < time ! 1 - time ! 0"
      and mx: "0 \<le> Max (set time)"
      and b1: "in_pandas_bounds start"
      and b2: "in_pandas_bounds (Datetime (seconds start + Max (set time)))"
  shows "\<exists>index. make_timeframe units Float_dtype time = Inr index
     \<and> index = map (\<lambda>k. Datetime (seconds start + int k * (time ! 1 - time ! 0)))
                 [0 ..< nat (Max (set time) div (time ! 1 - time ! 0)) + 1]
     \<and> hd index = start
     \<and> seconds (last index)
         = seconds start + (Max (set time) div (time ! 1 - time ! 0)) * (time ! 1 - time ! 0)
     \<and> seconds (last index) \<le> seconds start + Max (set time)
     \<and> ((time ! 1 - time ! 0) dvd Max (set time)
          \<longrightarrow> last index = Datetime (seconds start + Max (set time)))
     \<and> make_timeframe units Int_dtype time =
         Inl (TypeError ''unsupported type for timedelta seconds component'')"
proof -
  let ?d = "time ! 1 - time ! 0"
  let ?m = "Max (set time)"
  let ?n = "nat (?m div ?d) + 1"
  let ?index = "map (\<lambda>k. Datetime (seconds start + int k * ?d)) [0 ..< ?n]"
  have ne: "time \<noteq> []" using two by auto
  have e: "datetime_add_seconds start ?m = Inr (Datetime (seconds start + ?m))"
    using pandas_bounds_python [OF b2] by (simp add: datetime_add_seconds_def Let_def)
  have dr: "date_range start (Datetime (seconds start + ?m)) ?d = Inr ?index"
    using b1 b2 step mx by (simp add: date_range_def Let_def)
  have i1: "item time 1 = Inr (time ! 1)" and i0: "item time 0 = Inr (time ! 0)"
    using two by (auto simp: item_def)
  have td: "timedelta_seconds Float_dtype ?m = Inr ?m"
    by (simp add: timedelta_seconds_def)
  have res: "make_timeframe units Float_dtype time = Inr ?index"
    unfolding make_timeframe_def units amax_Max [OF ne] bind_err_Inr td e i1 i0 Let_def dr ..
  have q: "0 \<le> ?m div ?d" using mx step by (simp add: pos_imp_zdiv_nonneg_iff)
  have h: "hd ?index = start"
    by (simp add: hd_map upt_conv_Cons del: upt_Suc)
  have l: "last ?index = Datetime (seconds start + (?m div ?d) * ?d)"
    using q by (simp add: last_map)
  have le: "(?m div ?d) * ?d \<le> ?m"
  proof -
    have "?m = (?m div ?d) * ?d + ?m mod ?d" by (rule div_mult_mod_eq [symmetric])
    moreover have "0 \<le> ?m mod ?d" using step by simp
    ultimately show ?thesis by linarith
  qed
  have dv: "?d dvd ?m \<Longrightarrow> (?m div ?d) * ?d = ?m" by simp
  show ?thesis
  proof (intro exI [of _ ?index] conjI impI)
    show "make_timeframe units Float_dtype time = Inr ?index" by (rule res)
    show "make_timeframe units Int_dtype time =
        Inl (TypeError ''unsupported type for timedelta seconds component'')"
      using units ne by (rule make_timeframe_Int_dtype)
    show "?index = ?index" by (rule refl)
    show "hd ?index = start" by (rule h)
    show "seconds (last ?index) = seconds start + (?m div ?d) * ?d"
      unfolding l by simp
    show "seconds (last ?index) \<le> seconds start + ?m"
      unfolding l using le by simp
    assume "?d dvd ?m"
    then show "last ?index = Datetime (seconds start + ?m)"
      unfolding l using dv by simp
  qed
qed

lemma seconds_2020:
  "datetime_of 2020 1 1 0 0 0 = Datetime 63713433600"
  "datetime_of 2020 1 1 1 0 0 = Datetime 63713437200"
  "datetime_of 2020 1 1 2 0 0 = Datetime 63713440800"
  "datetime_of 2020 1 1 1 23 20 = Datetime 63713438600"
  by (simp_all add: datetime_of_def ymd2ord_def days_before_year_def days_before_month_def
      is_leap_def Let_def)

lemma parse_units_2020:
  "parse_units ''seconds since 2020-01-01 00:00:00'' = Inr (datetime_of 2020 1 1 0 0 0)"
  "parse_units ''seconds since 2020-01-01 00:00:00 +00:00'' = Inr (datetime_of 2020 1 1 0 0 0)"
  by (simp_all add: parse_units_def split_str_def item_def strip_def is_space_def
      fromisoformat_def parse_nat_def parse_time_def digit_val_def check_datetime_def
      days_in_month_def is_leap_def)

lemma pandas_bounds_2020:
  "in_pandas_bounds (Datetime 63713433600)"
  "in_pandas_bounds (Datetime (63713433600 + 7200))"
  "in_pandas_bounds (Datetime (63713433600 + 5000))"
  by (simp_all add: in_pandas_bounds_def datetime_of_def ymd2ord_def days_before_year_def
      days_before_month_def is_leap_def Let_def)

text \<open>The amended C6 at the example of the claim: the units
  \<open>seconds since 2020-01-01 00:00:00\<close> and the values 0, 3600, 7200 give the three hourly
  instants 00:00, 01:00 and 02:00 of 2020-01-01.\<close>

theorem make_timeframe_index_witness:
  "parse_units ''seconds since 2020-01-01 00:00:00'' = Inr (datetime_of 2020 1 1 0 0 0)
   \<and> 2 \<le> length [0, 3600, 7200 :: int]
   \<and> (0::int) < [0, 3600, 7200] ! 1 - [0, 3600, 7200] ! 0
   \<and> (0::int) \<le> Max (set [0, 3600, 7200])
   \<and> in_pandas_bounds (datetime_of 2020 1 1 0 0 0)
   \<and> in_pandas_bounds (datetime_of 2020 1 1 2 0 0)
   \<and> make_timeframe ''seconds since 2020-01-01 00:00:00'' Float_dtype [0, 3600, 7200]
       = Inr [datetime_of 2020 1 1 0 0 0, datetime_of 2020 1 1 1 0 0, datetime_of 2020 1 1 2 0 0]
   \<and> make_timeframe ''seconds since 2020-01-01 00:00:00'' Int_dtype [0, 3600, 7200]
       = Inl (TypeError ''unsupported type for timedelta seconds component'')"
proof -
  let ?t = "[0, 3600, 7200 :: int]"
  have u: "parse_units ''seconds since 2020-01-01 00:00:00'' = Inr (Datetime 63713433600)"
    by (simp only: parse_units_2020 seconds_2020)
  have two: "2 \<le> length ?t" by simp
  have step: "0 < ?t ! 1 - ?t ! 0" by simp
  have mx: "0 \<le> Max (set ?t)" by simp
  have m: "Max (set ?t) = 7200" by simp
  have b1: "in_pandas_bounds (Datetime 63713433600)" by (rule pandas_bounds_2020)
  have b2: "in_pandas_bounds (Datetime (seconds (Datetime 63713433600) + Max (set ?t)))"
    unfolding m using pandas_bounds_2020(2) by simp
  note idx = make_timeframe_index [OF u two step mx b1 b2]
  from idx have ty: "make_timeframe ''seconds since 2020-01-01 00:00:00'' Int_dtype ?t
      = Inl (TypeError ''unsupported type for timedelta seconds component'')"
    by blast
  from idx
  have "make_timeframe ''seconds since 2020-01-01 00:00:00'' Float_dtype ?t
      = Inr (map (\<lambda>k. Datetime (seconds (Datetime 63713433600) + int k * (?t ! 1 - ?t ! 0)))
                 [0 ..< nat (Max (set ?t) div (?t ! 1 - ?t ! 0)) + 1])"
    by blast
  also have "nat (Max (set ?t) div (?t ! 1 - ?t ! 0)) + 1 = 3" unfolding m by simp
  also have "[0 ..< 3] = [0, 1, 2::nat]" by (simp add: upt_rec)
  finally have r: "make_timeframe ''seconds since 2020-01-01 00:00:00'' Float_dtype ?t
      = Inr [Datetime 63713433600, Datetime 63713437200, Datetime 63713440800]"
    by simp
  show ?thesis
    unfolding seconds_2020 using u two step mx b1 pandas_bounds_2020(2) r ty by simp
qed

text \<open>
  C6 as stated fails when the step does not divide the largest value: the values 0, 3600,
  5000, stored as floats, give an index that ends at 01:00, while start + max is 01:23:20.
\<close>

theorem make_timeframe_not_ending_at_max:
  "make_timeframe ''seconds since 2020-01-01 00:00:00'' Float_dtype [0, 3600, 5000]
     = Inr [datetime_of 2020 1 1 0 0 0, datetime_of 2020 1 1 1 0 0]
   \<and> datetime_add_seconds (datetime_of 2020 1 1 0 0 0) 5000 = Inr (datetime_of 2020 1 1 1 23 20)
   \<and> datetime_of 2020 1 1 1 0 0 \<noteq> datetime_of 2020 1 1 1 23 20"
proof -
  have e: "datetime_add_seconds (Datetime 63713433600) 5000 = Inr (Datetime 63713438600)"
    by (simp add: datetime_add_seconds_def datetime_of_def ymd2ord_def days_before_year_def
      days_before_month_def is_leap_def Let_def)
  have b: "in_pandas_bounds (Datetime 63713438600)"
    using pandas_bounds_2020(3) by simp
  have dr: "date_range (Datetime 63713433600) (Datetime 63713438600) 3600
      = Inr [Datetime 63713433600, Datetime 63713437200]"
    using pandas_bounds_2020(1) b by (simp add: date_range_def Let_def upt_rec)
  have a: "amax [0, 3600, 5000] = Inr 5000" by (simp add: amax_def)
  have i: "item [0, 3600, 5000 :: int] 1 = Inr 3600" "item [0, 3600, 5000 :: int] 0 = Inr 0"
    by (simp_all add: item_def)
  have td: "timedelta_seconds Float_dtype 5000 = Inr 5000"
    by (simp add: timedelta_seconds_def)
  have "make_timeframe ''seconds since 2020-01-01 00:00:00'' Float_dtype [0, 3600, 5000]
     = Inr [Datetime 63713433600, Datetime 63713437200]"
    unfolding make_timeframe_def parse_units_2020 seconds_2020 bind_err_Inr a td e i Let_def
    using dr by simp
  with e show ?thesis unfolding seconds_2020 by simp
qed

subsection \<open>statistics_dhydro: the date guard and the statistics\<close>

text \<open>The 50th percentile of pandas is the median of the spec.\<close>

lemma quantile_half_median: "quantile (1/2) xs = median xs"
proof (cases "xs = []")
  case True
  then show ?thesis by (simp add: quantile_def median_def)
next
  case False
  let ?n = "length xs"
  let ?s = "sort xs"
  let ?h = "real (?n - 1) * (1/2)"
  show ?thesis
  proof (cases "odd ?n")
    case True
    then obtain k where k: "?n = 2 * k + 1" by (auto elim: oddE)
    have h: "?h = real k" by (simp add: k)
    have "nat \<lfloor>?h\<rfloor> = k" "nat \<lceil>?h\<rceil> = k" unfolding h by simp_all
    moreover have "?n div 2 = k" by (simp add: k)
    ultimately show ?thesis
      using False True by (simp add: quantile_def median_def Let_def)
  next
    case False
    then obtain j where j: "?n = 2 * j" by (auto elim: evenE)
    with \<open>xs \<noteq> []\<close> have "j \<noteq> 0" by (cases j) simp_all
    then obtain k where "j = Suc k" by (cases j) auto
    with j have k: "?n = 2 * k + 2" by simp
    have h: "?h = real k + 1/2" by (simp add: k field_simps)
    have fl: "\<lfloor>?h\<rfloor> = int k" unfolding h by (rule floor_unique) simp_all
    have ce: "\<lceil>?h\<rceil> = int k + 1" unfolding h by (rule ceiling_unique) simp_all
    have lo: "nat \<lfloor>?h\<rfloor> = k" and hi: "nat \<lceil>?h\<rceil> = k + 1"
      unfolding fl ce by simp_all
    have d: "?n div 2 = k + 1" "?n div 2 - 1 = k" by (simp_all add: k)
    have "quantile (1/2) xs = Some (?s ! k + (?h - real k) * (?s ! (k + 1) - ?s ! k))"
      using \<open>xs \<noteq> []\<close> unfolding quantile_def Let_def lo hi by simp
    also have "?s ! k + (?h - real k) * (?s ! (k + 1) - ?s ! k) = (?s ! k + ?s ! (k + 1)) / 2"
      unfolding h by (simp add: field_simps)
    also have "Some ((?s ! k + ?s ! (k + 1)) / 2) = median xs"
      using \<open>xs \<noteq> []\<close> False unfolding median_def Let_def d by simp
    finally show ?thesis .
  qed
qed

lemma col_max_Max: "xs \<noteq> [] \<Longrightarrow> col_max xs = Some (Max (set xs))"
  by (cases xs) (simp_all add: col_max_def fold_max_eq_Max del: set_simps)

lemma filter_dates_default: "df_index df \<noteq> [] \<Longrightarrow> filter_dates '''' '''' df = Inr df"
  by (cases "df_index df") (simp_all add: filter_dates_def index_min_def index_max_def)

lemma filter_dates_sdate:
  "df_index df \<noteq> [] \<Longrightarrow> sdate \<noteq> '''' \<Longrightarrow>
   filter_dates sdate edate df
     = Inl (TypeError ''> not supported between instances of str and Timestamp'')"
  by (cases "df_index df")
     (simp_all add: filter_dates_def index_min_def index_max_def str_gt_timestamp_def)

lemma filter_dates_edate:
  "df_index df \<noteq> [] \<Longrightarrow> edate \<noteq> '''' \<Longrightarrow>
   filter_dates '''' edate df
     = Inl (TypeError ''< not supported between instances of str and Timestamp'')"
  by (cases "df_index df")
     (simp_all add: filter_dates_def index_min_def index_max_def str_lt_timestamp_def)

lemma filter_dates_never_InvalidInput: "filter_dates sdate edate df \<noteq> Inl (InvalidInput msg)"
proof (cases "df_index df")
  case Nil
  then show ?thesis by (simp add: filter_dates_def index_min_def)
next
  case (Cons d ds)
  then have ne: "df_index df \<noteq> []" by simp
  show ?thesis
  proof (cases "sdate = ''''")
    case False
    with filter_dates_sdate [OF ne] show ?thesis by simp
  next
    case True
    show ?thesis
    proof (cases "edate = ''''")
      case False
      with filter_dates_edate [OF ne] True show ?thesis by simp
    next
      case e: True
      with True filter_dates_default [OF ne] show ?thesis by simp
    qed
  qed
qed

text \<open>
  C9. The claim is the behaviour the guard is written for, and the code misses it. The
  data run from 2020-01-01 00:00 to 02:00. A start date of 2021/01/01 lies behind the last
  timestamp and an end date of 2019/01/01 before the first, and both calls end in a
  TypeError: the guard compares the string with the timestamp. (Where the comparison
  answers, the statement \<open>raise ("...")\<close> raises a TypeError as well: \<open>raise_str\<close>.) No
  call raises an error of the class InvalidInput with a message that names the bound:
  \<open>filter_dates_never_InvalidInput\<close>.
\<close>

theorem statistics_dhydro_date_guard_raises_TypeError:
  "statistics_dhydro map_output map_features ''2021/01/01'' '''' ''''
     = Inl (TypeError ''> not supported between instances of str and Timestamp'')
   \<and> statistics_dhydro map_output map_features '''' ''2019/01/01'' ''''
     = Inl (TypeError ''< not supported between instances of str and Timestamp'')
   \<and> index_max (df_index map_output) = Inr (datetime_of 2020 1 1 2 0 0)
   \<and> index_min (df_index map_output) = Inr (datetime_of 2020 1 1 0 0 0)
   \<and> strptime_ymd ''2021/01/01'' = Inr (datetime_of 2021 1 1 0 0 0)
   \<and> strptime_ymd ''2019/01/01'' = Inr (datetime_of 2019 1 1 0 0 0)
   \<and> seconds (datetime_of 2020 1 1 2 0 0) < seconds (datetime_of 2021 1 1 0 0 0)
   \<and> seconds (datetime_of 2019 1 1 0 0 0) < seconds (datetime_of 2020 1 1 0 0 0)"
proof -
  have ne: "df_index map_output \<noteq> []" by (simp add: map_output_def)
  have s: "statistics_dhydro map_output map_features ''2021/01/01'' '''' ''''
     = Inl (TypeError ''> not supported between instances of str and Timestamp'')"
    unfolding statistics_dhydro_def using filter_dates_sdate [OF ne, of "''2021/01/01''" "''''"]
    by simp
  have e: "statistics_dhydro map_output map_features '''' ''2019/01/01'' ''''
     = Inl (TypeError ''< not supported between instances of str and Timestamp'')"
    unfolding statistics_dhydro_def using filter_dates_edate [OF ne, of "''2019/01/01''"]
    by simp
  have dt: "datetime_of 2020 1 1 0 0 0 = Datetime 63713433600"
    "datetime_of 2020 1 1 1 0 0 = Datetime 63713437200"
    "datetime_of 2020 1 1 2 0 0 = Datetime 63713440800"
    "datetime_of 2021 1 1 0 0 0 = Datetime 63745056000"
    "datetime_of 2019 1 1 0 0 0 = Datetime 63681897600"
    by (simp_all add: datetime_of_def ymd2ord_def days_before_year_def days_before_month_def
      is_leap_def Let_def)
  have mx: "index_max (df_index map_output) = Inr (datetime_of 2020 1 1 2 0 0)"
    and mn: "index_min (df_index map_output) = Inr (datetime_of 2020 1 1 0 0 0)"
    unfolding map_output_def dt by (simp_all add: index_max_def index_min_def)
  have p: "strptime_ymd ''2021/01/01'' = Inr (datetime_of 2021 1 1 0 0 0)"
    "strptime_ymd ''2019/01/01'' = Inr (datetime_of 2019 1 1 0 0 0)"
    by (simp_all add: strptime_ymd_def split_str_def parse_nat_def digit_val_def
        check_datetime_def days_in_month_def is_leap_def)
  show ?thesis
    using s e mx mn p unfolding dt by simp
qed

lemma merge_stats_rows:
  "r \<in> set (merge_stats gdf df_stat) \<Longrightarrow>
   (fst r, fst (snd r)) \<in> set gdf \<and> (fst r, snd (snd r)) \<in> set df_stat"
  by (auto simp: merge_stats_def)

lemma merge_stats_member:
  "(i, g) \<in> set gdf \<Longrightarrow> (i, st) \<in> set df_stat \<Longrightarrow> (i, g, st) \<in> set (merge_stats gdf df_stat)"
  by (force simp: merge_stats_def)

lemma merge_stats_nonempty:
  "(i, g) \<in> set gdf \<Longrightarrow> (i, st) \<in> set df_stat \<Longrightarrow> merge_stats gdf df_stat \<noteq> []"
  using merge_stats_member by fastforce

text \<open>
  C8. Without a date filter, on a frame with a time index whose columns have one value per
  timestamp, and with a feature whose id labels a column, the call returns a table that is
  not empty. With \<open>stat = ""\<close> every row has the statistics columns count, mean, std, min,
  50% and max, and the column 50% holds the median of the time series of the row's cell.
  With \<open>stat = "max"\<close> every row has the one statistics column max, and it holds the
  largest value of the time series of the row's cell.
\<close>

theorem statistics_dhydro_median_and_max:
  assumes idx: "df_index df \<noteq> []"
      and wf: "\<forall>(k, xs) \<in> set (df_columns df). length xs = length (df_index df)"
      and f: "(i, g) \<in> set gdf" and c: "(i, ys) \<in> set (df_columns df)"
  shows "(\<exists>rows. statistics_dhydro df gdf '''' '''' '''' = Inr rows \<and> rows \<noteq> []
           \<and> list_all (\<lambda>(i, g, st).
                 map fst st = [''count'', ''mean'', ''std'', ''min'', ''50%'', ''max'']
               \<and> (\<exists>xs. (i, xs) \<in> set (df_columns df)
                     \<and> map_of st ''50%'' = Some (median xs))) rows)
       \<and> (\<exists>rows. statistics_dhydro df gdf '''' '''' ''max'' = Inr rows \<and> rows \<noteq> []
           \<and> list_all (\<lambda>(i, g, st).
                 \<exists>xs. (i, xs) \<in> set (df_columns df) \<and> xs \<noteq> []
                     \<and> st = [(''max'', Some (Max (set xs)))]) rows)"
proof -
  let ?d = "map (\<lambda>(k, xs). (k, describe xs)) (df_columns df)"
  let ?m = "map (\<lambda>(k, xs). (k, [(''max'', col_max xs)])) (df_columns df)"
  have cd: "(i, describe ys) \<in> set ?d" using c by force
  have cm: "(i, [(''max'', col_max ys)]) \<in> set ?m" using c by force
  have r1: "statistics_dhydro df gdf '''' '''' '''' = Inr (merge_stats gdf ?d)"
    using merge_stats_nonempty [OF f cd]
    by (simp add: statistics_dhydro_def filter_dates_default [OF idx])
  have a1: "list_all (\<lambda>(i, g, st).
                 map fst st = [''count'', ''mean'', ''std'', ''min'', ''50%'', ''max'']
               \<and> (\<exists>xs. (i, xs) \<in> set (df_columns df)
                     \<and> map_of st ''50%'' = Some (median xs))) (merge_stats gdf ?d)"
    unfolding list_all_iff
  proof
    fix r assume "r \<in> set (merge_stats gdf ?d)"
    then have "(fst r, snd (snd r)) \<in> set ?d" by (rule merge_stats_rows [THEN conjunct2])
    then obtain xs where xs: "(fst r, xs) \<in> set (df_columns df)" and st: "snd (snd r) = describe xs"
      by auto
    have "map fst (describe xs) = [''count'', ''mean'', ''std'', ''min'', ''50%'', ''max'']"
      and "map_of (describe xs) ''50%'' = Some (median xs)"
      by (simp_all add: describe_def quantile_half_median)
    with xs st show "case r of (i, g, st) \<Rightarrow>
                 map fst st = [''count'', ''mean'', ''std'', ''min'', ''50%'', ''max'']
               \<and> (\<exists>xs. (i, xs) \<in> set (df_columns df)
                     \<and> map_of st ''50%'' = Some (median xs))"
      by (cases r) auto
  qed
  have p1: "\<exists>rows. statistics_dhydro df gdf '''' '''' '''' = Inr rows \<and> rows \<noteq> []
           \<and> list_all (\<lambda>(i, g, st).
                 map fst st = [''count'', ''mean'', ''std'', ''min'', ''50%'', ''max'']
               \<and> (\<exists>xs. (i, xs) \<in> set (df_columns df)
                     \<and> map_of st ''50%'' = Some (median xs))) rows"
    using r1 a1 merge_stats_nonempty [OF f cd] by blast
  have full: "\<forall>(k, xs) \<in> set (df_columns df). xs \<noteq> []"
    using wf idx by fastforce
  have r2: "statistics_dhydro df gdf '''' '''' ''max'' = Inr (merge_stats gdf ?m)"
    using merge_stats_nonempty [OF f cm]
    by (simp add: statistics_dhydro_def filter_dates_default [OF idx])
  have a2: "list_all (\<lambda>(i, g, st).
                 \<exists>xs. (i, xs) \<in> set (df_columns df) \<and> xs \<noteq> []
                     \<and> st = [(''max'', Some (Max (set xs)))]) (merge_stats gdf ?m)"
    unfolding list_all_iff
  proof
    fix r assume "r \<in> set (merge_stats gdf ?m)"
    then have "(fst r, snd (snd r)) \<in> set ?m" by (rule merge_stats_rows [THEN conjunct2])
    then obtain xs where xs: "(fst r, xs) \<in> set (df_columns df)"
      and st: "snd (snd r) = [(''max'', col_max xs)]"
      by auto
    from xs full have ne: "xs \<noteq> []" by auto
    with xs st col_max_Max [OF ne] show "case r of (i, g, st) \<Rightarrow>
                 \<exists>xs. (i, xs) \<in> set (df_columns df) \<and> xs \<noteq> []
                     \<and> st = [(''max'', Some (Max (set xs)))]"
      by (cases r) auto
  qed
  have p2: "\<exists>rows. statistics_dhydro df gdf '''' '''' ''max'' = Inr rows \<and> rows \<noteq> []
           \<and> list_all (\<lambda>(i, g, st).
                 \<exists>xs. (i, xs) \<in> set (df_columns df) \<and> xs \<noteq> []
                     \<and> st = [(''max'', Some (Max (set xs)))]) rows"
    using r2 a2 merge_stats_nonempty [OF f cm] by blast
  from p1 p2 show ?thesis by (rule conjI)
qed

text \<open>C8 at a map output of two cells with three values each.\<close>

theorem statistics_dhydro_median_and_max_witness:
  "df_index map_output \<noteq> []
   \<and> list_all (\<lambda>(k, xs). length xs = length (df_index map_output)) (df_columns map_output)
   \<and> (0, (0, 0)) \<in> set map_features
   \<and> (0, [1, 5, 3]) \<in> set (df_columns map_output)
   \<and> (\<exists>rows. statistics_dhydro map_output map_features '''' '''' '''' = Inr rows \<and> rows \<noteq> []
           \<and> list_all (\<lambda>(i, g, st).
                 map fst st = [''count'', ''mean'', ''std'', ''min'', ''50%'', ''max'']
               \<and> (\<exists>xs. (i, xs) \<in> set (df_columns map_output)
                     \<and> map_of st ''50%'' = Some (median xs))) rows)
   \<and> (\<exists>rows. statistics_dhydro map_output map_features '''' '''' ''max'' = Inr rows \<and> rows \<noteq> []
           \<and> list_all (\<lambda>(i, g, st).
                 \<exists>xs. (i, xs) \<in> set (df_columns map_output) \<and> xs \<noteq> []
                     \<and> st = [(''max'', Some (Max (set xs)))]) rows)"
proof -
  have idx: "df_index map_output \<noteq> []" by (simp add: map_output_def)
  have wf: "\<forall>(k, xs) \<in> set (df_columns map_output). length xs = length (df_index map_output)"
    by (simp add: map_output_def)
  have f: "(0, (0, 0)) \<in> set map_features" by (simp add: map_features_def)
  have c: "(0, [1, 5, 3]) \<in> set (df_columns map_output)" by (simp add: map_output_def)
  from statistics_dhydro_median_and_max [OF idx wf f c] idx wf f c
  show ?thesis by (simp add: list_all_iff)
qed

lemma statistics_dhydro_max_example:
  "statistics_dhydro map_output map_features '''' '''' ''max''
     = Inr [(0, (0, 0), [(''max'', Some 5)]), (1, (10, 0), [(''max'', Some 8)])]"
proof -
  have idx: "df_index map_output \<noteq> []" by (simp add: map_output_def)
  show ?thesis
    by (simp add: statistics_dhydro_def filter_dates_default [OF idx])
       (simp add: map_output_def map_features_def merge_stats_def col_max_def)
qed

lemma median_example: "median [1, 5, 3] = Some 3" "median [2, 2, 8] = Some 2"
  by (simp_all add: median_def)

subsection \<open>The friction overlay\<close>

lemma friction2dict_loop_keys:
  "friction2dict_loop fs (g0, c0) = Inr (dg, df) \<Longrightarrow> map fst g0 = map fst c0 \<Longrightarrow>
   distinct (map fst c0) \<Longrightarrow> map fst dg = map fst df \<and> distinct (map fst df)"
proof (induction fs arbitrary: g0 c0)
  case Nil
  then show ?case by simp
next
  case (Cons f fs)
  from Cons.prems(1) obtain g gs where g: "ff_global f = g # gs"
    by (cases "ff_global f") simp_all
  with Cons.prems(1) have
    "friction2dict_loop fs (AList.update (fg_frictionid g) (ff_global f) g0,
        AList.update (fg_frictionid g) (ff_branch f) c0) = Inr (dg, df)"
    by simp
  moreover have "map fst (AList.update (fg_frictionid g) (ff_global f) g0) =
      map fst (AList.update (fg_frictionid g) (ff_branch f) c0)"
    using Cons.prems(2) by (simp add: update_keys)
  moreover have "distinct (map fst (AList.update (fg_frictionid g) (ff_branch f) c0))"
    using Cons.prems(3) by (rule distinct_update)
  ultimately show ?case by (rule Cons.IH)
qed

lemma friction2dict_keys:
  assumes "friction2dict frictfile = Inr (dg, df)"
  shows "map fst dg = map fst df" and "distinct (map fst df)"
  using friction2dict_loop_keys [of frictfile "[]" "[]" dg df] assms
  by (simp_all add: friction2dict_def)

lemma in_model_filter:
  "filter (\<lambda>(i, v, res). i = k) (map (\<lambda>(i, v). (i, v, i \<in> S)) I) =
     map (\<lambda>(i, v). (i, v, i \<in> S)) (filter (\<lambda>(i, v). i = k) I)"
  by (induction I) auto

lemma merge_rows_of:
  assumes "fb_branchid b \<in> S"
  shows "set (let ms = filter (\<lambda>(i, v, res). i = fb_branchid b) (map (\<lambda>(i, v). (i, v, i \<in> S)) I)
            in if ms = [] then [\<lparr>mr_record = b, mr_result = None, mr_fricval = None\<rparr>]
               else map (\<lambda>(i, v, res). \<lparr>mr_record = b, mr_result = Some res,
                                          mr_fricval = Some v\<rparr>) ms) =
     (if fb_branchid b \<notin> fst ` set I then {\<lparr>mr_record = b, mr_result = None, mr_fricval = None\<rparr>}
      else {\<lparr>mr_record = b, mr_result = Some True, mr_fricval = Some v\<rparr> | v.
              (fb_branchid b, v) \<in> set I})"
proof (cases "fb_branchid b \<in> fst ` set I")
  case False
  then have "filter (\<lambda>(i, v). i = fb_branchid b) I = []"
    by (auto simp: filter_empty_conv image_iff)
  with False show ?thesis by (simp add: in_model_filter)
next
  case True
  then have ne: "filter (\<lambda>(i, v). i = fb_branchid b) I \<noteq> []"
    by (auto simp: filter_empty_conv image_iff)
  have "set (map (\<lambda>(i, v, res). \<lparr>mr_record = b, mr_result = Some res, mr_fricval = Some v\<rparr>)
          (map (\<lambda>(i, v). (i, v, i \<in> S)) (filter (\<lambda>(i, v). i = fb_branchid b) I))) =
        {\<lparr>mr_record = b, mr_result = Some True, mr_fricval = Some v\<rparr> | v.
              (fb_branchid b, v) \<in> set I}"
    using assms by (force simp: image_iff)
  with True ne show ?thesis by (simp add: in_model_filter)
qed

lemma merge_in_model_set:
  "set (merge_in_model brs I) =
     (\<Union>b \<in> set brs.
        if fb_branchid b \<notin> fst ` set I then {\<lparr>mr_record = b, mr_result = None, mr_fricval = None\<rparr>}
        else {\<lparr>mr_record = b, mr_result = Some True, mr_fricval = Some v\<rparr> | v.
              (fb_branchid b, v) \<in> set I})"
proof -
  define S where "S = set (map fb_branchid brs)"
  have "set (merge_in_model brs I) =
      (\<Union>b \<in> set brs.
         set (let ms = filter (\<lambda>(i, v, res). i = fb_branchid b) (map (\<lambda>(i, v). (i, v, i \<in> S)) I)
            in if ms = [] then [\<lparr>mr_record = b, mr_result = None, mr_fricval = None\<rparr>]
               else map (\<lambda>(i, v, res). \<lparr>mr_record = b, mr_result = Some res,
                                          mr_fricval = Some v\<rparr>) ms))"
    unfolding merge_in_model_def Let_def [of "map _ I"] S_def [symmetric]
    by (simp only: set_concat set_map image_image)
  also have "\<dots> = (\<Union>b \<in> set brs.
        if fb_branchid b \<notin> fst ` set I then {\<lparr>mr_record = b, mr_result = None, mr_fricval = None\<rparr>}
        else {\<lparr>mr_record = b, mr_result = Some True, mr_fricval = Some v\<rparr> | v.
              (fb_branchid b, v) \<in> set I})"
    by (intro SUP_cong refl merge_rows_of) (simp add: S_def)
  finally show ?thesis .
qed

lemma overlay_records_image:
  "set (overlay_records brs I wipe) =
     (\<lambda>m. mr_record (to_lists (overlay_row m))) `
       {m \<in> set (merge_in_model brs I). wipe \<longrightarrow> mr_result m = Some True}"
proof -
  have res: "\<And>m. mr_result (to_lists (overlay_row m)) = mr_result m"
    by (simp add: to_lists_def overlay_row_def)
  show ?thesis
    unfolding overlay_records_def Let_def
    by (cases wipe) (auto simp: res image_iff)
qed

lemma overlay_matched_row:
  "mr_record (to_lists (overlay_row \<lparr>mr_record = b, mr_result = Some True, mr_fricval = Some v\<rparr>)) =
     b\<lparr>fb_frictionvalues := FList [v], fb_numlocations := 1, fb_chainage := FList [0]\<rparr>"
  by (simp add: to_lists_def overlay_row_def wrap_float_def wrap_int_def)

lemma overlay_row_branchid:
  "fb_branchid (mr_record (to_lists (overlay_row m))) = fb_branchid (mr_record m)"
  by (simp add: to_lists_def overlay_row_def)

lemma overlay_records_matched:
  assumes "r \<in> set (overlay_records brs I wipe)" and "fb_branchid r \<in> fst ` set I"
  shows "\<exists>b v. b \<in> set brs \<and> (fb_branchid b, v) \<in> set I \<and>
           r = b\<lparr>fb_frictionvalues := FList [v], fb_numlocations := 1, fb_chainage := FList [0]\<rparr>"
proof -
  from assms(1) obtain m where m: "m \<in> set (merge_in_model brs I)"
    and r: "r = mr_record (to_lists (overlay_row m))"
    unfolding overlay_records_image by blast
  from m obtain b where b: "b \<in> set brs"
    and mb: "m \<in> (if fb_branchid b \<notin> fst ` set I
                 then {\<lparr>mr_record = b, mr_result = None, mr_fricval = None\<rparr>}
                 else {\<lparr>mr_record = b, mr_result = Some True, mr_fricval = Some v\<rparr> | v.
                         (fb_branchid b, v) \<in> set I})"
    unfolding merge_in_model_set by blast
  have rec: "mr_record m = b"
    using mb by (auto split: if_splits)
  with assms(2) r have "fb_branchid b \<in> fst ` set I"
    by (simp add: overlay_row_branchid)
  with mb obtain v where v: "(fb_branchid b, v) \<in> set I"
    and mv: "m = \<lparr>mr_record = b, mr_result = Some True, mr_fricval = Some v\<rparr>"
    by auto
  from r mv have "r = b\<lparr>fb_frictionvalues := FList [v], fb_numlocations := 1,
      fb_chainage := FList [0]\<rparr>"
    by (simp only: overlay_matched_row)
  with b v show ?thesis by blast
qed

lemma overlay_records_written:
  assumes "b \<in> set brs" and "(fb_branchid b, v) \<in> set I"
  shows "b\<lparr>fb_frictionvalues := FList [v], fb_numlocations := 1, fb_chainage := FList [0]\<rparr>
           \<in> set (overlay_records brs I wipe)"
proof -
  let ?m = "\<lparr>mr_record = b, mr_result = Some True, mr_fricval = Some v\<rparr>"
  from assms(2) have "fb_branchid b \<in> fst ` set I" by force
  with assms have "?m \<in> set (merge_in_model brs I)"
    unfolding merge_in_model_set by auto
  then have "mr_record (to_lists (overlay_row ?m)) \<in> set (overlay_records brs I wipe)"
    unfolding overlay_records_image by force
  then show ?thesis by (simp only: overlay_matched_row)
qed

lemma overlay_records_Nil: "overlay_records [] I wipe = []"
  by (simp add: overlay_records_def merge_in_model_def)

lemma write_friction_Inr:
  assumes "map_of dg (fst kv) = Some global"
  shows "write_friction dg I wipe kv =
     Inr (''roughness-'' @ fst kv @ ''.ini'',
          \<lparr>ff_global = global, ff_branch = overlay_records (snd kv) I wipe\<rparr>)"
  using assms by (simp add: write_friction_def overlay_records_Nil)

lemma change_friction_shape_files:
  assumes "friction2dict (fm_frictfile fm) = Inr (dg, df)"
    and "fm_geometry fm ''netfile'' = Some netfile"
    and "fm_geometry fm ''branchfile'' = Some branchfile"
  shows "change_friction_shape fm I wipe =
     Inr (map (\<lambda>kv. (''roughness-'' @ fst kv @ ''.ini'',
                      \<lparr>ff_global = the (map_of dg (fst kv)),
                       ff_branch = overlay_records (snd kv) I wipe\<rparr>)) df)"
proof -
  have keys: "map fst dg = map fst df"
    using assms(1) by (rule friction2dict_keys)
  have "map_err (write_friction dg I wipe) df =
     Inr (map (\<lambda>kv. (''roughness-'' @ fst kv @ ''.ini'',
                      \<lparr>ff_global = the (map_of dg (fst kv)),
                       ff_branch = overlay_records (snd kv) I wipe\<rparr>)) df)"
  proof (rule map_err_all_Inr)
    fix kv assume "kv \<in> set df"
    then have "fst kv \<in> set (map fst dg)" unfolding keys by simp
    then have "map_of dg (fst kv) \<noteq> None"
      by (simp add: map_of_eq_None_iff)
    then have "map_of dg (fst kv) = Some (the (map_of dg (fst kv)))" by simp
    then show "write_friction dg I wipe kv =
       Inr (''roughness-'' @ fst kv @ ''.ini'',
            \<lparr>ff_global = the (map_of dg (fst kv)),
             ff_branch = overlay_records (snd kv) I wipe\<rparr>)"
      by (rule write_friction_Inr)
  qed
  with assms show ?thesis by (simp add: change_friction_shape_def getattr_geometry_def)
qed

lemma read_friction_written:
  assumes "distinct (map fst df)" and "(key, brs) \<in> set df"
  shows "read_friction (map (\<lambda>kv. (''roughness-'' @ fst kv @ ''.ini'', h kv)) df)
           (''roughness-'' @ key @ ''.ini'') = Some (h (key, brs))"
proof -
  let ?files = "map (\<lambda>kv. (''roughness-'' @ fst kv @ ''.ini'', h kv)) df"
  have "map fst ?files = map (\<lambda>k. ''roughness-'' @ k @ ''.ini'') (map fst df)"
    by simp
  moreover have "distinct (map (\<lambda>k. ''roughness-'' @ k @ ''.ini'') (map fst df))"
    using assms(1) by (simp only: distinct_map) (simp add: inj_on_def)
  ultimately have "distinct (map fst (rev ?files))"
    by (simp only: rev_map [symmetric] distinct_rev)
  moreover have "(''roughness-'' @ key @ ''.ini'', h (key, brs)) \<in> set (rev ?files)"
    using assms(2) by force
  ultimately show ?thesis
    unfolding read_friction_def by (rule map_of_is_SomeI)
qed

text \<open>
  The loop does what the spec describes, once the lines before it have returned: for a
  model whose section \<open>geometry\<close> has the attributes \<open>netfile\<close> and \<open>branchfile\<close>, a branch with
  a record in the per-branch records of a friction file and a row in the spatial join
  (value \<open>fricval\<close>, a float) has, in what is read back from \<open>roughness-<frictionId>.ini\<close>, a
  record with \<open>frictionvalues = [fricval]\<close>, and every record of that branch there has
  \<open>numlocations = 1\<close>, \<open>chainage = [0]\<close> and the one-element list of a joined \<open>fricval\<close>.
\<close>

lemma change_friction_shape_loop_overlay:
  assumes "friction2dict (fm_frictfile fm) = Inr (dict_global, dict_frictions)"
    and "fm_geometry fm ''netfile'' = Some netfile"
    and "fm_geometry fm ''branchfile'' = Some branchfile"
    and "(key, branch_records) \<in> set dict_frictions"
    and "b \<in> set branch_records"
    and "(fb_branchid b, fricval) \<in> set intersect"
  shows "\<exists>files written.
      change_friction_shape fm intersect wipe = Inr files \<and>
      read_friction files (''roughness-'' @ key @ ''.ini'') = Some written \<and>
      (\<exists>r \<in> set (ff_branch written).
          fb_branchid r = fb_branchid b \<and> fb_frictionvalues r = FList [fricval]) \<and>
      (\<forall>r \<in> set (ff_branch written). fb_branchid r = fb_branchid b \<longrightarrow>
          fb_numlocations r = 1 \<and> fb_chainage r = FList [0] \<and>
          (\<exists>v. (fb_branchid b, v) \<in> set intersect \<and> fb_frictionvalues r = FList [v]))"
proof -
  let ?h = "\<lambda>kv. \<lparr>ff_global = the (map_of dict_global (fst kv)),
                   ff_branch = overlay_records (snd kv) intersect wipe\<rparr>"
  let ?files = "map (\<lambda>kv. (''roughness-'' @ fst kv @ ''.ini'', ?h kv)) dict_frictions"
  have files: "change_friction_shape fm intersect wipe = Inr ?files"
    using assms(1-3) by (rule change_friction_shape_files)
  have "distinct (map fst dict_frictions)"
    using assms(1) by (rule friction2dict_keys)
  then have "read_friction ?files (''roughness-'' @ key @ ''.ini'') = Some (?h (key, branch_records))"
    using assms(4) by (rule read_friction_written)
  moreover have "ff_branch (?h (key, branch_records)) =
      overlay_records branch_records intersect wipe" by simp
  moreover have "\<exists>r \<in> set (overlay_records branch_records intersect wipe).
      fb_branchid r = fb_branchid b \<and> fb_frictionvalues r = FList [fricval]"
    using overlay_records_written [OF assms(5, 6), of wipe] by (intro bexI) simp_all
  moreover have "\<forall>r \<in> set (overlay_records branch_records intersect wipe).
      fb_branchid r = fb_branchid b \<longrightarrow>
        fb_numlocations r = 1 \<and> fb_chainage r = FList [0] \<and>
        (\<exists>v. (fb_branchid b, v) \<in> set intersect \<and> fb_frictionvalues r = FList [v])"
  proof (intro ballI impI)
    fix r assume r: "r \<in> set (overlay_records branch_records intersect wipe)"
      and k: "fb_branchid r = fb_branchid b"
    from assms(6) k have "fb_branchid r \<in> fst ` set intersect" by force
    with r obtain b' v where "(fb_branchid b', v) \<in> set intersect"
      and r': "r = b'\<lparr>fb_frictionvalues := FList [v], fb_numlocations := 1,
                    fb_chainage := FList [0]\<rparr>"
      using overlay_records_matched by blast
    moreover from r' k have "fb_branchid b' = fb_branchid b" by simp
    ultimately show "fb_numlocations r = 1 \<and> fb_chainage r = FList [0] \<and>
        (\<exists>v. (fb_branchid b, v) \<in> set intersect \<and> fb_frictionvalues r = FList [v])"
      by auto
  qed
  ultimately show ?thesis using files by (intro exI conjI) (assumption | simp only:)+
qed

lemma channels_dict:
  "friction2dict [channels_file] =
     Inr ([(''Channels'', ff_global channels_file)], [(''Channels'', ff_branch channels_file)])"
  by (simp add: friction2dict_def channels_file_def)

lemma channels_overlay:
  "change_friction_shape channels_model_gui shape_join False =
  Inr [(''roughness-Channels.ini'',
     \<lparr>ff_global = ff_global channels_file,
      ff_branch =
        [\<lparr>fb_branchid = ''b1'', fb_frictiontype = ''Strickler'', fb_functiontype = ''constant'',
          fb_numlocations = 1, fb_chainage = FList [0], fb_frictionvalues = FList [30]\<rparr>,
         \<lparr>fb_branchid = ''b2'', fb_frictiontype = ''Strickler'', fb_functiontype = ''constant'',
          fb_numlocations = 0, fb_chainage = FNone, fb_frictionvalues = FList [24]\<rparr>]\<rparr>)]"
  by (simp add: change_friction_shape_def channels_model_gui_def channels_model_def
      getattr_geometry_def friction2dict_def channels_file_def shape_join_def
      write_friction_def overlay_records_def merge_in_model_def overlay_row_def to_lists_def
      wrap_float_def wrap_int_def)

text \<open>
  C7. The claim is what the spec asks of the overlay, and the code does not reach it: the
  section \<open>geometry\<close> of a model loaded by the library has no attribute \<open>branchfile\<close>, so
  line 64 raises AttributeError before the loop, for every shape file and in both modes
  of \<open>wipe\<close>. No friction file is written; when the dictionaries are built and the net file
  is named, the exception is that of line 64.
\<close>

theorem change_friction_shape_raises_AttributeError:
  assumes "fm_geometry fm ''branchfile'' = None"
  shows "(\<exists>e. change_friction_shape fm intersect wipe = Inl e)
     \<and> (\<forall>d netfile. friction2dict (fm_frictfile fm) = Inr d
           \<longrightarrow> fm_geometry fm ''netfile'' = Some netfile
           \<longrightarrow> change_friction_shape fm intersect wipe = Inl (AttributeError ''branchfile''))"
proof -
  have g: "getattr_geometry fm ''branchfile'' = Inl (AttributeError ''branchfile'')"
    using assms by (simp add: getattr_geometry_def)
  have "\<exists>e. change_friction_shape fm intersect wipe = Inl e"
    unfolding change_friction_shape_def g
    by (cases "friction2dict (fm_frictfile fm)"; cases "getattr_geometry fm ''netfile''")
       (simp_all add: bind_err_def split_def)
  moreover have "\<forall>d netfile. friction2dict (fm_frictfile fm) = Inr d
           \<longrightarrow> fm_geometry fm ''netfile'' = Some netfile
           \<longrightarrow> change_friction_shape fm intersect wipe = Inl (AttributeError ''branchfile'')"
    unfolding change_friction_shape_def g
    by (simp add: getattr_geometry_def split_def)
  ultimately show ?thesis by (rule conjI)
qed

text \<open>C7 at the model of the friction file \<open>Channels\<close>, whose branch \<open>b1\<close> has a shape with
  \<open>fricval = 30\<close> within the buffer: the call raises and writes nothing.\<close>

theorem change_friction_shape_raises_AttributeError_witness:
  "fm_geometry channels_model ''branchfile'' = None
   \<and> hd (ff_branch channels_file) \<in> set (ff_branch channels_file)
   \<and> (fb_branchid (hd (ff_branch channels_file)), 30) \<in> set shape_join
   \<and> change_friction_shape channels_model shape_join False = Inl (AttributeError ''branchfile'')
   \<and> change_friction_shape channels_model shape_join True = Inl (AttributeError ''branchfile'')"
proof -
  have n: "fm_geometry channels_model ''branchfile'' = None"
    by (simp add: channels_model_def)
  have d: "friction2dict (fm_frictfile channels_model) =
      Inr ([(''Channels'', ff_global channels_file)], [(''Channels'', ff_branch channels_file)])"
    by (simp add: channels_model_def channels_dict)
  have f: "fm_geometry channels_model ''netfile'' = Some ''FlowFM_net.nc''"
    by (simp add: channels_model_def)
  have b: "hd (ff_branch channels_file) \<in> set (ff_branch channels_file)"
    by (simp add: channels_file_def)
  have m: "(fb_branchid (hd (ff_branch channels_file)), 30) \<in> set shape_join"
    by (simp add: channels_file_def shape_join_def)
  from change_friction_shape_raises_AttributeError [OF n, of shape_join False] d f
  have r1: "change_friction_shape channels_model shape_join False = Inl (AttributeError ''branchfile'')"
    by blast
  from change_friction_shape_raises_AttributeError [OF n, of shape_join True] d f
  have r2: "change_friction_shape channels_model shape_join True = Inl (AttributeError ''branchfile'')"
    by blast
  from n b m r1 r2 show ?thesis by (intro conjI)
qed

end
